theory Spec2Isabelle
  imports Complex_Main
begin

section \<open>The retry wrapper\<close>

text \<open>
  \<^verbatim>\<open>KalshiConnector.async_retry\<close> and \<^verbatim>\<open>PolymarketConnector.async_retry\<close> carry
  the same text (src/ingestion/kalshi.py 44-54, src/ingestion/polymarket.py 35-45):
  \<^verbatim>\<open>
    async def async_retry(self, func, max_retries=3, base_delay=1.0):
        for attempt in range(max_retries):
            try:
                return await func()
            except Exception as e:
                if attempt == max_retries - 1:
                    raise e
                delay = base_delay * (2**attempt)
                logger.warning(f"Retry {attempt + 1}/{max_retries} after {delay}s: {e}")
                await asyncio.sleep(delay)
  \<close>
  The awaited \<open>func\<close> is a computation on a world \<open>'w\<close>: it returns a value, raises an
  instance of \<open>Exception\<close> (which the handler catches), or raises a \<open>BaseException\<close>
  that is no \<open>Exception\<close> (a cancellation, an interrupt), which the handler lets through.
  \<open>asyncio.sleep\<close> is a parameter that transforms the world. The delay is the real number
  that the float expression denotes. What the wrapper does is recorded, in order, in a list
  of events. Falling out of the loop returns Python's \<open>None\<close>: the wrapper's value is an
  option.
\<close>

datatype ('e, 'a) outcome =
    Returns 'a
  | Raises 'e
  | RaisesBase 'e

datatype 'e event =
    Attempt nat
  | Warning nat int real 'e
  | Sleep real

fun retry_loop ::
  "(real \<Rightarrow> 'w \<Rightarrow> 'w) \<Rightarrow> ('w \<Rightarrow> ('e, 'a) outcome \<times> 'w) \<Rightarrow> int \<Rightarrow> real \<Rightarrow> nat list \<Rightarrow> 'w
     \<Rightarrow> ('e, 'a option) outcome \<times> 'w \<times> 'e event list" where
  "retry_loop sleep func max_retries base_delay [] w = (Returns None, w, [])"
| "retry_loop sleep func max_retries base_delay (attempt # rest) w =
     (case func w of
        (Returns v, w') \<Rightarrow> (Returns (Some v), w', [Attempt attempt])
      | (RaisesBase b, w') \<Rightarrow> (RaisesBase b, w', [Attempt attempt])
      | (Raises e, w') \<Rightarrow>
          if int attempt = max_retries - 1 then (Raises e, w', [Attempt attempt])
          else
            let delay = base_delay * 2 ^ attempt in
            (case retry_loop sleep func max_retries base_delay rest (sleep delay w') of
               (r, w'', tr) \<Rightarrow>
                 (r, w'', Attempt attempt # Warning (attempt + 1) max_retries delay e
                            # Sleep delay # tr)))"

definition async_retry ::
  "(real \<Rightarrow> 'w \<Rightarrow> 'w) \<Rightarrow> ('w \<Rightarrow> ('e, 'a) outcome \<times> 'w) \<Rightarrow> int \<Rightarrow> real \<Rightarrow> 'w
     \<Rightarrow> ('e, 'a option) outcome \<times> 'w \<times> 'e event list" where
  "async_retry sleep func max_retries base_delay w =
     retry_loop sleep func max_retries base_delay [0 ..< nat max_retries] w"

fun is_Attempt :: "'e event \<Rightarrow> bool" where
  "is_Attempt (Attempt k) = True"
| "is_Attempt _ = False"

fun is_Sleep :: "'e event \<Rightarrow> bool" where
  "is_Sleep (Sleep d) = True"
| "is_Sleep _ = False"

text \<open>
  The events of a run whose failed attempts raised \<open>es\<close>, in order, and which then made one
  more attempt: attempt \<open>k\<close>, its warning, the sleep of \<open>base \<times> 2^k\<close>, and so on, numbered
  from \<open>k\<close>.
\<close>

fun backoff_trace :: "int \<Rightarrow> real \<Rightarrow> nat \<Rightarrow> 'e list \<Rightarrow> 'e event list" where
  "backoff_trace max_retries base k [] = [Attempt k]"
| "backoff_trace max_retries base k (e # es) =
     Attempt k # Warning (k + 1) max_retries (base * 2 ^ k) e # Sleep (base * 2 ^ k)
       # backoff_trace max_retries base (Suc k) es"

text \<open>
  For the closed examples: a world that counts the calls of the function and adds up the
  time slept, and a function that raises while fewer than \<open>bound\<close> calls went before.
\<close>

definition clock_sleep :: "real \<Rightarrow> nat \<times> real \<Rightarrow> nat \<times> real" where
  "clock_sleep d w = (fst w, snd w + d)"

definition flaky :: "nat \<Rightarrow> nat \<times> real \<Rightarrow> (string, string) outcome \<times> (nat \<times> real)" where
  "flaky bound w =
     (if fst w < bound then (Raises (''boom'' @ replicate (fst w) CHR ''!''), (Suc (fst w), snd w))
      else (Returns ''ok'', (Suc (fst w), snd w)))"

section \<open>Python values\<close>

text \<open>
  The connectors pass around what \<open>json.load\<close> returns and what dict and list displays
  build: \<open>None\<close>, booleans, integers, floats, strings, lists and dicts with string keys.
  A dict is an association list in insertion order; a lookup takes the first binding of
  the key. A float is given by the decimal that Python prints for it (\<open>repr\<close>), as a
  rational number; the one place where the connectors compute with floats is the price of
  a time-series point. A string is a list of bytes.
\<close>

datatype json =
    JNull
  | JBool bool
  | JInt int
  | JFloat rat
  | JStr string
  | JList "json list"
  | JDict "(string \<times> json) list"

datatype exc_class =
    AttributeError
  | TypeError
  | KeyError
  | IndexError
  | OverflowError
  | PermissionError
  | JSONDecodeError

text \<open>
  An exception: a built-in one with its class and the text \<open>str(e)\<close> gives, or FastAPI's
  \<open>HTTPException\<close> with its status code and detail.
\<close>

datatype py_error =
    Exc exc_class string
  | HTTPException nat string

fun str_of_error :: "py_error \<Rightarrow> string" where
  "str_of_error (Exc c msg) = msg"
| "str_of_error (HTTPException code detail) = detail"

fun type_name :: "json \<Rightarrow> string" where
  "type_name JNull = ''NoneType''"
| "type_name (JBool b) = ''bool''"
| "type_name (JInt i) = ''int''"
| "type_name (JFloat r) = ''float''"
| "type_name (JStr s) = ''str''"
| "type_name (JList xs) = ''list''"
| "type_name (JDict kvs) = ''dict''"

text \<open>The apostrophe, byte 39, by its bits from the least significant.\<close>

definition apostrophe :: char where
  "apostrophe = Char True True True False False True False False"

definition quoted :: "string \<Rightarrow> string" where
  "quoted s = [apostrophe] @ s @ [apostrophe]"

definition no_attribute :: "json \<Rightarrow> string \<Rightarrow> py_error" where
  "no_attribute v attr =
     Exc AttributeError (quoted (type_name v) @ '' object has no attribute '' @ quoted attr)"

definition not_iterable :: "json \<Rightarrow> py_error" where
  "not_iterable v = Exc TypeError (quoted (type_name v) @ '' object is not iterable'')"

definition not_subscriptable :: "json \<Rightarrow> py_error" where
  "not_subscriptable v = Exc TypeError (quoted (type_name v) @ '' object is not subscriptable'')"

text \<open>Truth value testing, as \<open>if x\<close> and \<open>not x\<close> do it.\<close>

fun truthy :: "json \<Rightarrow> bool" where
  "truthy JNull = False"
| "truthy (JBool b) = b"
| "truthy (JInt i) = (i \<noteq> 0)"
| "truthy (JFloat r) = (r \<noteq> 0)"
| "truthy (JStr s) = (s \<noteq> [])"
| "truthy (JList xs) = (xs \<noteq> [])"
| "truthy (JDict kvs) = (kvs \<noteq> [])"

text \<open>\<open>d.get(k, default)\<close> on a dict, and on any value: only a dict has \<open>get\<close>.\<close>

definition dict_get :: "(string \<times> json) list \<Rightarrow> string \<Rightarrow> json \<Rightarrow> json" where
  "dict_get kvs k dflt = (case map_of kvs k of Some v \<Rightarrow> v | None \<Rightarrow> dflt)"

fun py_get :: "json \<Rightarrow> string \<Rightarrow> json \<Rightarrow> py_error + json" where
  "py_get (JDict kvs) k dflt = Inr (dict_get kvs k dflt)"
| "py_get v k dflt = Inl (no_attribute v ''get'')"

text \<open>\<open>x[k]\<close> with a string key.\<close>

fun py_item :: "json \<Rightarrow> string \<Rightarrow> py_error + json" where
  "py_item (JDict kvs) k =
     (case map_of kvs k of Some v \<Rightarrow> Inr v | None \<Rightarrow> Inl (Exc KeyError (quoted k)))"
| "py_item (JList xs) k = Inl (Exc TypeError ''list indices must be integers or slices, not str'')"
| "py_item (JStr s) k = Inl (Exc TypeError (''string indices must be integers, not '' @ quoted ''str''))"
| "py_item v k = Inl (not_subscriptable v)"

text \<open>\<open>x[0]\<close>. A dict from JSON has string keys only, so the key \<open>0\<close> is never present.\<close>

fun py_index0 :: "json \<Rightarrow> py_error + json" where
  "py_index0 (JList (x # xs)) = Inr x"
| "py_index0 (JList []) = Inl (Exc IndexError ''list index out of range'')"
| "py_index0 (JStr (c # cs)) = Inr (JStr [c])"
| "py_index0 (JStr []) = Inl (Exc IndexError ''string index out of range'')"
| "py_index0 (JDict kvs) = Inl (Exc KeyError ''0'')"
| "py_index0 v = Inl (not_subscriptable v)"

text \<open>Iteration, as a \<open>for\<close> clause does it: a dict yields its keys, a string its characters.\<close>

fun py_iter :: "json \<Rightarrow> py_error + json list" where
  "py_iter (JList xs) = Inr xs"
| "py_iter (JDict kvs) = Inr (map (\<lambda>kv. JStr (fst kv)) kvs)"
| "py_iter (JStr s) = Inr (map (\<lambda>c. JStr [c]) s)"
| "py_iter v = Inl (not_iterable v)"

text \<open>
  \<open>str.lower\<close> on strings of ASCII characters. Python also folds letters outside ASCII
  (the Kelvin sign to \<open>k\<close>, for one); here every byte that is no ASCII capital is left as
  it is, so the model follows the code on ASCII arguments only.
\<close>

definition lower_char :: "char \<Rightarrow> char" where
  "lower_char c =
     (case map_of (zip ''ABCDEFGHIJKLMNOPQRSTUVWXYZ'' ''abcdefghijklmnopqrstuvwxyz'') c of
        Some l \<Rightarrow> l
      | None \<Rightarrow> c)"

definition lower :: "string \<Rightarrow> string" where
  "lower s = map lower_char s"

fun py_lower :: "json \<Rightarrow> py_error + string" where
  "py_lower (JStr s) = Inr (lower s)"
| "py_lower v = Inl (no_attribute v ''lower'')"

text \<open>\<open>needle in hay\<close> on strings.\<close>

fun str_contains :: "string \<Rightarrow> string \<Rightarrow> bool" where
  "str_contains needle [] = (needle = [])"
| "str_contains needle (c # cs) =
     (take (length needle) (c # cs) = needle \<or> str_contains needle cs)"

section \<open>The clock, the sample file and computations on them\<close>

text \<open>
  A naive \<open>datetime\<close> is the number of microseconds since 0001-01-01T00:00:00, the least
  value the type has. Subtracting a \<open>timedelta\<close> below that raises \<open>OverflowError\<close>.
  \<open>isoformat\<close> prints \<open>YYYY-MM-DDTHH:MM:SS\<close> and, when the microseconds are not zero,
  \<open>.ffffff\<close>; the date comes from the day number by the proleptic Gregorian calendar.
\<close>

type_synonym datetime = nat

definition year_of_era :: "nat \<Rightarrow> nat" where
  "year_of_era doe = (doe + doe div 36524 - doe div 1460 - doe div 146096) div 365"

definition day_of_year :: "nat \<Rightarrow> nat \<Rightarrow> nat" where
  "day_of_year doe yoe = doe + yoe div 100 - 365 * yoe - yoe div 4"

definition month_index :: "nat \<Rightarrow> nat" where
  "month_index doy = (5 * doy + 2) div 153"

definition civil_of :: "nat \<Rightarrow> nat \<Rightarrow> nat \<Rightarrow> nat \<Rightarrow> nat \<times> nat \<times> nat" where
  "civil_of era yoe doy mp =
     (if mp < 10 then (yoe + era * 400, mp + 3, doy + 1 - (153 * mp + 2) div 5)
      else (yoe + era * 400 + 1, mp - 9, doy + 1 - (153 * mp + 2) div 5))"

definition civil_of_era :: "nat \<Rightarrow> nat \<Rightarrow> nat \<times> nat \<times> nat" where
  "civil_of_era era doe =
     civil_of era (year_of_era doe) (day_of_year doe (year_of_era doe))
       (month_index (day_of_year doe (year_of_era doe)))"

text \<open>
  Year, month and day of the day number \<open>d\<close> (0 is 0001-01-01): days are counted from
  0000-03-01 in eras of 400 years, and months from March.
\<close>

definition civil_from_days :: "nat \<Rightarrow> nat \<times> nat \<times> nat" where
  "civil_from_days d = civil_of_era ((d + 306) div 146097) ((d + 306) mod 146097)"

definition digit :: "nat \<Rightarrow> char" where
  "digit k = ''0123456789'' ! (k mod 10)"

definition pad2 :: "nat \<Rightarrow> string" where
  "pad2 n = [digit (n div 10), digit n]"

definition pad4 :: "nat \<Rightarrow> string" where
  "pad4 n = [digit (n div 1000), digit (n div 100), digit (n div 10), digit n]"

definition pad6 :: "nat \<Rightarrow> string" where
  "pad6 n = [digit (n div 100000), digit (n div 10000), digit (n div 1000),
             digit (n div 100), digit (n div 10), digit n]"

definition date_string :: "nat \<times> nat \<times> nat \<Rightarrow> string" where
  "date_string ymd = pad4 (fst ymd) @ ''-'' @ pad2 (fst (snd ymd)) @ ''-'' @ pad2 (snd (snd ymd))"

definition time_string :: "nat \<Rightarrow> string" where
  "time_string s = pad2 (s div 3600 mod 24) @ '':'' @ pad2 (s div 60 mod 60) @ '':'' @ pad2 (s mod 60)"

definition fraction_string :: "nat \<Rightarrow> string" where
  "fraction_string us = (if us = 0 then [] else ''.'' @ pad6 us)"

definition isoformat :: "datetime \<Rightarrow> string" where
  "isoformat t =
     date_string (civil_from_days (t div 1000000 div 86400)) @ ''T''
       @ time_string (t div 1000000) @ fraction_string (t mod 1000000)"

definition minus_hours :: "datetime \<Rightarrow> nat \<Rightarrow> py_error + datetime" where
  "minus_hours t h =
     (if t < h * 3600000000 then Inl (Exc OverflowError ''date value out of range'')
      else Inr (t - h * 3600000000))"

text \<open>
  What \<open>open("data/sample_timeseries.json")\<close> and \<open>json.load\<close> find: no file, a file that
  cannot be opened or parsed (with the exception raised), or the parsed value.
\<close>

datatype file_state =
    FileNotFound
  | LoadFails py_error
  | Loaded json

text \<open>
  The world a request runs in: the sample file, read but never written by the serving
  path; the clock, as the readings the next calls of \<open>datetime.utcnow()\<close> will return;
  and the names of the connectors that route handlers have called so far, in order.
\<close>

record world =
  sample_file :: file_state
  clock :: "nat \<Rightarrow> datetime"
  consulted :: "string list"

definition utcnow :: "world \<Rightarrow> datetime \<times> world" where
  "utcnow w = (clock w 0, w\<lparr>clock := (\<lambda>n. clock w (Suc n))\<rparr>)"

text \<open>
  A call returns a value or raises, and leaves a world: \<open>py_bind\<close> sequences two steps,
  \<open>py_try\<close> is \<open>try: ... except Exception as e: ...\<close>, \<open>py_lift\<close> a step that does not touch
  the world, \<open>py_map\<close> a list comprehension.
\<close>

type_synonym 'a comp = "world \<Rightarrow> (py_error + 'a) \<times> world"

definition py_return :: "'a \<Rightarrow> 'a comp" where
  "py_return v w = (Inr v, w)"

definition py_lift :: "py_error + 'a \<Rightarrow> 'a comp" where
  "py_lift r w = (r, w)"

definition py_bind :: "'a comp \<Rightarrow> ('a \<Rightarrow> 'b comp) \<Rightarrow> 'b comp" where
  "py_bind m f w = (case m w of (Inl e, w') \<Rightarrow> (Inl e, w') | (Inr v, w') \<Rightarrow> f v w')"

definition py_try :: "'a comp \<Rightarrow> (py_error \<Rightarrow> 'a comp) \<Rightarrow> 'a comp" where
  "py_try m handler w = (case m w of (Inl e, w') \<Rightarrow> handler e w' | (Inr v, w') \<Rightarrow> (Inr v, w'))"

definition py_now :: "datetime comp" where
  "py_now w = (Inr (fst (utcnow w)), snd (utcnow w))"

primrec py_map :: "('a \<Rightarrow> 'b comp) \<Rightarrow> 'a list \<Rightarrow> 'b list comp" where
  "py_map f [] = py_return []"
| "py_map f (x # xs) = py_bind (f x) (\<lambda>y. py_bind (py_map f xs) (\<lambda>ys. py_return (y # ys)))"

text \<open>The same for steps that do not touch the world: a loop body or a filter condition.\<close>

primrec sum_map :: "('a \<Rightarrow> py_error + 'b) \<Rightarrow> 'a list \<Rightarrow> py_error + 'b list" where
  "sum_map f [] = Inr []"
| "sum_map f (x # xs) =
     (case f x of
        Inl e \<Rightarrow> Inl e
      | Inr y \<Rightarrow> (case sum_map f xs of Inl e \<Rightarrow> Inl e | Inr ys \<Rightarrow> Inr (y # ys)))"

primrec sum_filter :: "('a \<Rightarrow> py_error + bool) \<Rightarrow> 'a list \<Rightarrow> py_error + 'a list" where
  "sum_filter p [] = Inr []"
| "sum_filter p (x # xs) =
     (case p x of
        Inl e \<Rightarrow> Inl e
      | Inr b \<Rightarrow>
          (case sum_filter p xs of
             Inl e \<Rightarrow> Inl e
           | Inr ys \<Rightarrow> Inr (if b then x # ys else ys)))"

text \<open>A route handler calling a method of the connector \<open>name\<close>.\<close>

definition consult :: "string \<Rightarrow> 'a comp \<Rightarrow> 'a comp" where
  "consult name m w = m (w\<lparr>consulted := consulted w @ [name]\<rparr>)"

text \<open>An optional string argument as a value: \<open>None\<close> or the string.\<close>

definition opt_str :: "string option \<Rightarrow> json" where
  "opt_str a = (case a of None \<Rightarrow> JNull | Some s \<Rightarrow> JStr s)"

section \<open>The Kalshi connector\<close>

text \<open>
  src/ingestion/kalshi.py. \<open>__init__\<close> reads two environment variables; the connector is
  in mock mode unless both are set and not empty. Logging is not modelled.
\<close>

record KalshiConnector =
  kalshi_base_url :: string
  kalshi_api_key :: "string option"
  kalshi_user_id :: "string option"
  kalshi_mock_mode :: bool

definition kalshi_init :: "(string \<Rightarrow> string option) \<Rightarrow> KalshiConnector" where
  "kalshi_init getenv =
     \<lparr>kalshi_base_url = ''https://trading-api.kalshi.com/trade-api/v2'',
      kalshi_api_key = getenv ''KALSHI_API_KEY'',
      kalshi_user_id = getenv ''KALSHI_USER_ID'',
      kalshi_mock_mode =
        (\<not> (truthy (opt_str (getenv ''KALSHI_API_KEY''))
            \<and> truthy (opt_str (getenv ''KALSHI_USER_ID''))))\<rparr>"

definition kalshi_fallback :: json where
  "kalshi_fallback =
     JDict [(''markets'', JList [
       JDict [(''id'', JStr ''KALSHI-PRES2024''),
              (''title'', JStr ''Will Joe Biden win the 2024 US Presidential Election?''),
              (''description'', JStr ''Market resolves to Yes if Joe Biden wins''),
              (''provider'', JStr ''kalshi''),
              (''status'', JStr ''active''),
              (''category'', JStr ''politics''),
              (''created_at'', JStr ''2024-01-01T00:00:00Z''),
              (''close_date'', JStr ''2024-11-05T23:59:59Z''),
              (''outcomes'', JList [
                 JDict [(''id'', JStr ''yes''), (''name'', JStr ''Yes''),
                        (''price'', JFloat (65 / 100)), (''volume'', JFloat (1542050 / 100))],
                 JDict [(''id'', JStr ''no''), (''name'', JStr ''No''),
                        (''price'', JFloat (35 / 100)), (''volume'', JFloat (893025 / 100))]]),
              (''total_volume'', JFloat (2435075 / 100))]])]"

definition kalshi_load_sample_data :: "json comp" where
  "kalshi_load_sample_data w =
     (case sample_file w of
        FileNotFound \<Rightarrow> (Inr kalshi_fallback, w)
      | LoadFails e \<Rightarrow> (Inl e, w)
      | Loaded j \<Rightarrow> (Inr j, w))"

definition kalshi_normalize_market :: "json \<Rightarrow> json comp" where
  "kalshi_normalize_market raw_market =
     (case raw_market of
        JDict kvs \<Rightarrow>
          py_bind py_now (\<lambda>now.
            py_return (JDict [
              (''id'', dict_get kvs ''id'' (JStr '''')),
              (''title'', dict_get kvs ''title'' (JStr '''')),
              (''description'', dict_get kvs ''description'' (JStr '''')),
              (''provider'', JStr ''kalshi''),
              (''status'', dict_get kvs ''status'' (JStr ''active'')),
              (''category'', dict_get kvs ''category'' (JStr '''')),
              (''created_at'', dict_get kvs ''created_at'' (JStr (isoformat now))),
              (''close_date'', dict_get kvs ''close_date'' JNull),
              (''settle_date'', dict_get kvs ''settle_date'' JNull),
              (''outcomes'', dict_get kvs ''outcomes'' (JList [])),
              (''total_volume'', dict_get kvs ''total_volume'' (JInt 0)),
              (''liquidity'', dict_get kvs ''liquidity'' (JInt 0))]))
      | _ \<Rightarrow> py_lift (Inl (no_attribute raw_market ''get'')))"

text \<open>
  The body both branches of \<open>get_markets\<close> run: load the sample data, take its
  \<open>markets\<close>, normalise each.
\<close>

definition kalshi_sample_markets :: "json list comp" where
  "kalshi_sample_markets =
     py_bind kalshi_load_sample_data (\<lambda>sample_data.
     py_bind (py_lift (py_get sample_data ''markets'' (JList []))) (\<lambda>ms.
     py_bind (py_lift (py_iter ms)) (\<lambda>xs.
     py_map kalshi_normalize_market xs)))"

definition kalshi_get_markets :: "KalshiConnector \<Rightarrow> json list comp" where
  "kalshi_get_markets self =
     py_try (if kalshi_mock_mode self then kalshi_sample_markets else kalshi_sample_markets)
       (\<lambda>e. py_return [])"

text \<open>The loop of \<open>get_market\<close>: the first market whose \<open>id\<close> equals the argument, or \<open>None\<close>.\<close>

fun find_market :: "json list \<Rightarrow> string \<Rightarrow> py_error + json" where
  "find_market [] market_id = Inr JNull"
| "find_market (market # rest) market_id =
     (case py_item market ''id'' of
        Inl e \<Rightarrow> Inl e
      | Inr v \<Rightarrow> if v = JStr market_id then Inr market else find_market rest market_id)"

definition kalshi_get_market :: "KalshiConnector \<Rightarrow> string \<Rightarrow> json comp" where
  "kalshi_get_market self market_id =
     py_try
       (py_bind (kalshi_get_markets self) (\<lambda>markets. py_lift (find_market markets market_id)))
       (\<lambda>e. py_return JNull)"

definition kalshi_get_market_price :: "KalshiConnector \<Rightarrow> string \<Rightarrow> json comp" where
  "kalshi_get_market_price self market_id =
     py_try
       (py_bind (kalshi_get_market self market_id) (\<lambda>market.
          if \<not> truthy market then py_return JNull
          else
            py_bind py_now (\<lambda>now.
            py_bind (py_lift (py_get market ''outcomes'' (JList []))) (\<lambda>outcomes.
            py_return (JDict [
              (''market_id'', JStr market_id),
              (''timestamp'', JStr (isoformat now)),
              (''outcomes'', outcomes)])))))
       (\<lambda>e. py_return JNull)"

text \<open>
  One pass of the loop of \<open>get_market_timeseries\<close>. For \<open>i\<close> from 0 to 23, Python prints the
  double \<open>0.60 + (i * 0.001)\<close> as the decimal sum itself, 0.6, 0.601, ..., 0.623.
\<close>

definition kalshi_data_point :: "datetime \<Rightarrow> nat \<Rightarrow> py_error + json" where
  "kalshi_data_point now i =
     (case minus_hours now (23 - i) of
        Inl e \<Rightarrow> Inl e
      | Inr timestamp \<Rightarrow>
          Inr (JDict [
            (''timestamp'', JStr (isoformat timestamp)),
            (''price'', JFloat (60 / 100 + of_nat i * (1 / 1000))),
            (''volume'', JInt (100 + int i * 10))]))"

definition kalshi_get_market_timeseries ::
  "KalshiConnector \<Rightarrow> string \<Rightarrow> string option \<Rightarrow> string option \<Rightarrow> string option \<Rightarrow> json comp" where
  "kalshi_get_market_timeseries self market_id start end' interval =
     py_try
       (if kalshi_mock_mode self then
          py_bind py_now (\<lambda>now.
          py_bind (py_lift (sum_map (kalshi_data_point now) [0 ..< 24])) (\<lambda>data_points.
          py_return (JDict [
            (''market_id'', JStr market_id),
            (''outcome_id'', JStr ''yes''),
            (''interval'', opt_str interval),
            (''data_points'', JList data_points)])))
        else py_return JNull)
       (\<lambda>e. py_return JNull)"

definition kalshi_get_market_orderbook ::
  "KalshiConnector \<Rightarrow> string \<Rightarrow> int option \<Rightarrow> json comp" where
  "kalshi_get_market_orderbook self market_id depth =
     py_try
       (if kalshi_mock_mode self then
          py_bind py_now (\<lambda>now.
          py_return (JDict [
            (''market_id'', JStr market_id),
            (''outcome_id'', JStr ''yes''),
            (''timestamp'', JStr (isoformat now)),
            (''bids'', JList [
               JDict [(''price'', JFloat (64 / 100)), (''size'', JFloat 100)],
               JDict [(''price'', JFloat (63 / 100)), (''size'', JFloat 250)]]),
            (''asks'', JList [
               JDict [(''price'', JFloat (66 / 100)), (''size'', JFloat 150)],
               JDict [(''price'', JFloat (67 / 100)), (''size'', JFloat 200)]]),
            (''spread'', JFloat (2 / 100))]))
        else py_return JNull)
       (\<lambda>e. py_return JNull)"

definition kalshi_get_market_events ::
  "KalshiConnector \<Rightarrow> string \<Rightarrow> string option \<Rightarrow> int option \<Rightarrow> json list comp" where
  "kalshi_get_market_events self market_id since limit =
     py_try
       (if kalshi_mock_mode self then
          py_bind py_now (\<lambda>now.
          py_return [
            JDict [
              (''id'', JStr ''evt_kalshi_123''),
              (''market_id'', JStr market_id),
              (''event_type'', JStr ''trade''),
              (''timestamp'', JStr (isoformat now)),
              (''data'', JDict [
                 (''outcome_id'', JStr ''yes''),
                 (''price'', JFloat (65 / 100)),
                 (''volume'', JFloat 50),
                 (''side'', JStr ''buy'')])]])
        else py_return [])
       (\<lambda>e. py_return [])"

definition kalshi_sync_data :: "KalshiConnector \<Rightarrow> json comp" where
  "kalshi_sync_data self =
     py_try
       (py_bind (kalshi_get_markets self) (\<lambda>markets.
        py_bind py_now (\<lambda>now.
        py_return (JDict [
          (''provider'', JStr ''kalshi''),
          (''markets_synced'', JInt (int (length markets))),
          (''status'', JStr ''success''),
          (''timestamp'', JStr (isoformat now))]))))
       (\<lambda>e.
        py_bind py_now (\<lambda>now.
        py_return (JDict [
          (''provider'', JStr ''kalshi''),
          (''markets_synced'', JInt 0),
          (''status'', JStr ''error''),
          (''error'', JStr (str_of_error e)),
          (''timestamp'', JStr (isoformat now))])))"

section \<open>The Polymarket connector\<close>

text \<open>
  src/ingestion/polymarket.py. The connector is in mock mode unless \<open>POLYMARKET_API_KEY\<close>
  is set and not empty.
\<close>

record PolymarketConnector =
  polymarket_base_url :: string
  polymarket_api_key :: "string option"
  polymarket_mock_mode :: bool

definition polymarket_init :: "(string \<Rightarrow> string option) \<Rightarrow> PolymarketConnector" where
  "polymarket_init getenv =
     \<lparr>polymarket_base_url = ''https://clob.polymarket.com'',
      polymarket_api_key = getenv ''POLYMARKET_API_KEY'',
      polymarket_mock_mode = (\<not> truthy (opt_str (getenv ''POLYMARKET_API_KEY'')))\<rparr>"

definition polymarket_fallback :: json where
  "polymarket_fallback =
     JDict [(''markets'', JList [
       JDict [(''id'', JStr ''POLY-CRYPTO2024''),
              (''title'', JStr ''Will Bitcoin reach $100,000 by end of 2024?''),
              (''description'', JStr ''Market resolves to Yes if Bitcoin reaches $100k''),
              (''provider'', JStr ''polymarket''),
              (''status'', JStr ''active''),
              (''category'', JStr ''crypto''),
              (''created_at'', JStr ''2024-01-01T00:00:00Z''),
              (''close_date'', JStr ''2024-12-31T23:59:59Z''),
              (''outcomes'', JList [
                 JDict [(''id'', JStr ''yes''), (''name'', JStr ''Yes''),
                        (''price'', JFloat (42 / 100)), (''volume'', JFloat (2875080 / 100))],
                 JDict [(''id'', JStr ''no''), (''name'', JStr ''No''),
                        (''price'', JFloat (58 / 100)), (''volume'', JFloat (1924060 / 100))]]),
              (''total_volume'', JFloat (4799140 / 100))]])]"

definition polymarket_load_sample_data :: "json comp" where
  "polymarket_load_sample_data w =
     (case sample_file w of
        FileNotFound \<Rightarrow> (Inr polymarket_fallback, w)
      | LoadFails e \<Rightarrow> (Inl e, w)
      | Loaded j \<Rightarrow> (Inr j, w))"

text \<open>
  The default of \<open>category\<close>:
  \<^verbatim>\<open>raw_market.get("tags", [""])[0] if raw_market.get("tags") else ""\<close>,
  computed before the lookup of \<open>category\<close> whether or not that key is present.
\<close>

definition polymarket_category_default :: "(string \<times> json) list \<Rightarrow> py_error + json" where
  "polymarket_category_default kvs =
     (if truthy (dict_get kvs ''tags'' JNull)
      then py_index0 (dict_get kvs ''tags'' (JList [JStr '''']))
      else Inr (JStr ''''))"

definition polymarket_normalize_market :: "json \<Rightarrow> json comp" where
  "polymarket_normalize_market raw_market =
     (case raw_market of
        JDict kvs \<Rightarrow>
          py_bind (py_lift (polymarket_category_default kvs)) (\<lambda>category_default.
          py_bind py_now (\<lambda>now.
            py_return (JDict [
              (''id'', dict_get kvs ''id'' (JStr '''')),
              (''title'', dict_get kvs ''title'' (dict_get kvs ''question'' (JStr ''''))),
              (''description'', dict_get kvs ''description'' (JStr '''')),
              (''provider'', JStr ''polymarket''),
              (''status'', dict_get kvs ''status'' (JStr ''active'')),
              (''category'', dict_get kvs ''category'' category_default),
              (''created_at'', dict_get kvs ''created_at'' (JStr (isoformat now))),
              (''close_date'', dict_get kvs ''close_date'' (dict_get kvs ''end_date'' JNull)),
              (''settle_date'', dict_get kvs ''settle_date'' JNull),
              (''outcomes'', dict_get kvs ''outcomes'' (JList [])),
              (''total_volume'', dict_get kvs ''total_volume'' (dict_get kvs ''volume'' (JInt 0))),
              (''liquidity'', dict_get kvs ''liquidity'' (JInt 0))])))
      | _ \<Rightarrow> py_lift (Inl (no_attribute raw_market ''get'')))"

definition polymarket_sample_markets :: "json list comp" where
  "polymarket_sample_markets =
     py_bind polymarket_load_sample_data (\<lambda>sample_data.
     py_bind (py_lift (py_get sample_data ''markets'' (JList []))) (\<lambda>ms.
     py_bind (py_lift (py_iter ms)) (\<lambda>xs.
     py_map polymarket_normalize_market xs)))"

definition polymarket_get_markets :: "PolymarketConnector \<Rightarrow> json list comp" where
  "polymarket_get_markets self =
     py_try
       (if polymarket_mock_mode self then polymarket_sample_markets
        else polymarket_sample_markets)
       (\<lambda>e. py_return [])"

definition polymarket_get_market :: "PolymarketConnector \<Rightarrow> string \<Rightarrow> json comp" where
  "polymarket_get_market self market_id =
     py_try
       (py_bind (polymarket_get_markets self) (\<lambda>markets.
          py_lift (find_market markets market_id)))
       (\<lambda>e. py_return JNull)"

definition polymarket_get_market_price :: "PolymarketConnector \<Rightarrow> string \<Rightarrow> json comp" where
  "polymarket_get_market_price self market_id =
     py_try
       (py_bind (polymarket_get_market self market_id) (\<lambda>market.
          if \<not> truthy market then py_return JNull
          else
            py_bind py_now (\<lambda>now.
            py_bind (py_lift (py_get market ''outcomes'' (JList []))) (\<lambda>outcomes.
            py_return (JDict [
              (''market_id'', JStr market_id),
              (''timestamp'', JStr (isoformat now)),
              (''outcomes'', outcomes)])))))
       (\<lambda>e. py_return JNull)"

text \<open>
  The price of point \<open>i\<close>, for \<open>i\<close> from 0 to 23 as in the loop: the double that
  \<open>0.42 + (i * 0.002)\<close> evaluates to, the product and the sum each rounded to the nearest
  double. Up to \<open>i = 14\<close> Python prints it as the decimal sum. From \<open>i = 15\<close> on the
  rounded sum is a double just below the decimal sum: 0.44999999999999996 for 15, and so
  on in steps of 0.002 up to 0.45999999999999996 for 20, then 0.46199999999999997,
  0.46399999999999997 and 0.46599999999999997.
\<close>

definition polymarket_price :: "nat \<Rightarrow> rat" where
  "polymarket_price i =
     42 / 100 + of_nat i * (2 / 1000)
       - (if i < 15 then 0 else if i < 21 then 4 / 10 ^ 17 else 3 / 10 ^ 17)"

definition polymarket_data_point :: "datetime \<Rightarrow> nat \<Rightarrow> py_error + json" where
  "polymarket_data_point now i =
     (case minus_hours now (23 - i) of
        Inl e \<Rightarrow> Inl e
      | Inr timestamp \<Rightarrow>
          Inr (JDict [
            (''timestamp'', JStr (isoformat timestamp)),
            (''price'', JFloat (polymarket_price i)),
            (''volume'', JInt (150 + int i * 15))]))"

definition polymarket_get_market_timeseries ::
  "PolymarketConnector \<Rightarrow> string \<Rightarrow> string option \<Rightarrow> string option \<Rightarrow> string option
     \<Rightarrow> json comp" where
  "polymarket_get_market_timeseries self market_id start end' interval =
     py_try
       (if polymarket_mock_mode self then
          py_bind py_now (\<lambda>now.
          py_bind (py_lift (sum_map (polymarket_data_point now) [0 ..< 24])) (\<lambda>data_points.
          py_return (JDict [
            (''market_id'', JStr market_id),
            (''outcome_id'', JStr ''yes''),
            (''interval'', opt_str interval),
            (''data_points'', JList data_points)])))
        else py_return JNull)
       (\<lambda>e. py_return JNull)"

definition polymarket_get_market_orderbook ::
  "PolymarketConnector \<Rightarrow> string \<Rightarrow> int option \<Rightarrow> json comp" where
  "polymarket_get_market_orderbook self market_id depth =
     py_try
       (if polymarket_mock_mode self then
          py_bind py_now (\<lambda>now.
          py_return (JDict [
            (''market_id'', JStr market_id),
            (''outcome_id'', JStr ''yes''),
            (''timestamp'', JStr (isoformat now)),
            (''bids'', JList [
               JDict [(''price'', JFloat (41 / 100)), (''size'', JFloat 200)],
               JDict [(''price'', JFloat (40 / 100)), (''size'', JFloat 350)]]),
            (''asks'', JList [
               JDict [(''price'', JFloat (43 / 100)), (''size'', JFloat 180)],
               JDict [(''price'', JFloat (44 / 100)), (''size'', JFloat 220)]]),
            (''spread'', JFloat (2 / 100))]))
        else py_return JNull)
       (\<lambda>e. py_return JNull)"

definition polymarket_get_market_events ::
  "PolymarketConnector \<Rightarrow> string \<Rightarrow> string option \<Rightarrow> int option \<Rightarrow> json list comp" where
  "polymarket_get_market_events self market_id since limit =
     py_try
       (if polymarket_mock_mode self then
          py_bind py_now (\<lambda>now.
          py_return [
            JDict [
              (''id'', JStr ''evt_poly_456''),
              (''market_id'', JStr market_id),
              (''event_type'', JStr ''trade''),
              (''timestamp'', JStr (isoformat now)),
              (''data'', JDict [
                 (''outcome_id'', JStr ''yes''),
                 (''price'', JFloat (42 / 100)),
                 (''volume'', JFloat 75),
                 (''side'', JStr ''sell'')])]])
        else py_return [])
       (\<lambda>e. py_return [])"

definition polymarket_sync_data :: "PolymarketConnector \<Rightarrow> json comp" where
  "polymarket_sync_data self =
     py_try
       (py_bind (polymarket_get_markets self) (\<lambda>markets.
        py_bind py_now (\<lambda>now.
        py_return (JDict [
          (''provider'', JStr ''polymarket''),
          (''markets_synced'', JInt (int (length markets))),
          (''status'', JStr ''success''),
          (''timestamp'', JStr (isoformat now))]))))
       (\<lambda>e.
        py_bind py_now (\<lambda>now.
        py_return (JDict [
          (''provider'', JStr ''polymarket''),
          (''markets_synced'', JInt 0),
          (''status'', JStr ''error''),
          (''error'', JStr (str_of_error e)),
          (''timestamp'', JStr (isoformat now))])))"

section \<open>The route handlers\<close>

text \<open>
  src/api/routes/markets.py and src/api/routes/ingest.py. A handler returns the dict that
  FastAPI sends with status 200, or raises \<open>HTTPException\<close>. The two connectors are the
  module's singletons, here arguments.
\<close>

definition create_envelope :: "json \<Rightarrow> bool \<Rightarrow> json \<Rightarrow> json" where
  "create_envelope data ok meta =
     JDict [(''ok'', JBool ok),
            (''meta'', if truthy meta then meta else JDict []),
            (''data'', data)]"

text \<open>\<open>not provider or provider.lower() == name\<close>.\<close>

definition provider_selected :: "string option \<Rightarrow> string \<Rightarrow> bool" where
  "provider_selected provider name =
     (\<not> truthy (opt_str provider)
      \<or> (case provider of None \<Rightarrow> False | Some p \<Rightarrow> lower p = name))"

text \<open>\<open>m.get("status", "").lower() == status.lower()\<close> and \<open>q.lower() in m.get("title", "").lower()\<close>.\<close>

definition status_matches :: "string \<Rightarrow> json \<Rightarrow> py_error + bool" where
  "status_matches status m =
     (case py_get m ''status'' (JStr '''') of
        Inl e \<Rightarrow> Inl e
      | Inr v \<Rightarrow> (case py_lower v of Inl e \<Rightarrow> Inl e | Inr s \<Rightarrow> Inr (s = lower status)))"

definition title_matches :: "string \<Rightarrow> json \<Rightarrow> py_error + bool" where
  "title_matches q m =
     (case py_get m ''title'' (JStr '''') of
        Inl e \<Rightarrow> Inl e
      | Inr v \<Rightarrow> (case py_lower v of Inl e \<Rightarrow> Inl e | Inr t \<Rightarrow> Inr (str_contains (lower q) t)))"

text \<open>The two filters of the list handler: \<open>if status: ...\<close> and \<open>if q: ...\<close>.\<close>

definition filter_by_status :: "string option \<Rightarrow> json list \<Rightarrow> py_error + json list" where
  "filter_by_status status markets =
     (if truthy (opt_str status)
      then (case status of
              Some s \<Rightarrow> sum_filter (status_matches s) markets
            | None \<Rightarrow> Inr markets)
      else Inr markets)"

definition filter_by_query :: "string option \<Rightarrow> json list \<Rightarrow> py_error + json list" where
  "filter_by_query q markets =
     (if truthy (opt_str q)
      then (case q of
              Some s \<Rightarrow> sum_filter (title_matches s) markets
            | None \<Rightarrow> Inr markets)
      else Inr markets)"

definition route_get_markets ::
  "KalshiConnector \<Rightarrow> PolymarketConnector \<Rightarrow> string option \<Rightarrow> string option \<Rightarrow> string option
     \<Rightarrow> json comp" where
  "route_get_markets kalshi_connector polymarket_connector provider status q =
     py_try
       (py_bind (if provider_selected provider ''kalshi''
                 then consult ''kalshi'' (kalshi_get_markets kalshi_connector)
                 else py_return []) (\<lambda>kalshi_markets.
        py_bind (if provider_selected provider ''polymarket''
                 then consult ''polymarket'' (polymarket_get_markets polymarket_connector)
                 else py_return []) (\<lambda>polymarket_markets.
        py_bind (py_lift (filter_by_status status (kalshi_markets @ polymarket_markets)))
          (\<lambda>markets1.
        py_bind (py_lift (filter_by_query q markets1)) (\<lambda>markets.
        py_return
          (create_envelope (JList markets) True
             (JDict [(''total'', JInt (int (length markets))),
                     (''providers'',
                        if \<not> truthy (opt_str provider)
                        then JList [JStr ''kalshi'', JStr ''polymarket'']
                        else JList [opt_str provider])])))))))
       (\<lambda>e. py_lift (Inl (HTTPException 500 ''Failed to fetch markets'')))"

definition route_get_market ::
  "KalshiConnector \<Rightarrow> PolymarketConnector \<Rightarrow> string \<Rightarrow> json comp" where
  "route_get_market kalshi_connector polymarket_connector market_id =
     py_try
       (py_bind (consult ''kalshi'' (kalshi_get_market kalshi_connector market_id)) (\<lambda>market0.
        py_bind (if \<not> truthy market0
                 then consult ''polymarket''
                        (polymarket_get_market polymarket_connector market_id)
                 else py_return market0) (\<lambda>market.
        if \<not> truthy market then py_lift (Inl (HTTPException 404 ''Market not found''))
        else py_return
               (create_envelope market True (JDict [(''market_id'', JStr market_id)])))))
       (\<lambda>e. case e of
               HTTPException code detail \<Rightarrow> py_lift (Inl e)
             | Exc c msg \<Rightarrow> py_lift (Inl (HTTPException 500 ''Failed to fetch market'')))"

definition sync_provider_data ::
  "KalshiConnector \<Rightarrow> PolymarketConnector \<Rightarrow> string \<Rightarrow> json comp" where
  "sync_provider_data kalshi_connector polymarket_connector provider0 =
     py_try
       (py_bind (if lower provider0 = ''kalshi''
                 then consult ''kalshi'' (kalshi_sync_data kalshi_connector)
                 else if lower provider0 = ''polymarket''
                 then consult ''polymarket'' (polymarket_sync_data polymarket_connector)
                 else py_lift (Inl (HTTPException 400
                        (''Unknown provider: '' @ lower provider0
                           @ ''. Supported: kalshi, polymarket'')))) (\<lambda>result.
        py_bind py_now (\<lambda>now.
        py_return
          (create_envelope result True
             (JDict [(''provider'', JStr (lower provider0)),
                     (''sync_timestamp'', JStr (isoformat now)),
                     (''status'', JStr ''completed'')])))))
       (\<lambda>e. case e of
               HTTPException code detail \<Rightarrow> py_lift (Inl e)
             | Exc c msg \<Rightarrow>
                 py_lift (Inl (HTTPException 500
                    (''Failed to sync data for provider '' @ lower provider0))))"

section \<open>The sample dataset\<close>

text \<open>
  \<open>generate_sample_markets\<close> of src/data/gen_sample.py: the markets that the generator
  writes to the sample file, two tagged \<open>kalshi\<close> and one tagged \<open>polymarket\<close>.
\<close>

definition generate_sample_markets :: "json list" where
  "generate_sample_markets =
     [JDict [(''id'', JStr ''KALSHI-PRES2024''),
             (''title'', JStr ''Will Joe Biden win the 2024 US Presidential Election?''),
             (''description'',
                JStr ''Market resolves to Yes if Joe Biden wins the 2024 presidential election''),
             (''provider'', JStr ''kalshi''),
             (''status'', JStr ''active''),
             (''category'', JStr ''politics''),
             (''created_at'', JStr ''2024-01-01T00:00:00Z''),
             (''close_date'', JStr ''2024-11-05T23:59:59Z''),
             (''settle_date'', JStr ''2024-11-06T12:00:00Z''),
             (''outcomes'', JList [
                JDict [(''id'', JStr ''yes''), (''name'', JStr ''Yes''),
                       (''price'', JFloat (65 / 100)), (''volume'', JFloat (1542050 / 100))],
                JDict [(''id'', JStr ''no''), (''name'', JStr ''No''),
                       (''price'', JFloat (35 / 100)), (''volume'', JFloat (893025 / 100))]]),
             (''total_volume'', JFloat (2435075 / 100)),
             (''liquidity'', JFloat (542030 / 100))],
      JDict [(''id'', JStr ''POLY-CRYPTO2024''),
             (''title'', JStr ''Will Bitcoin reach $100,000 by end of 2024?''),
             (''description'',
                JStr ''Market resolves to Yes if Bitcoin reaches $100,000 USD by December 31, 2024''),
             (''provider'', JStr ''polymarket''),
             (''status'', JStr ''active''),
             (''category'', JStr ''crypto''),
             (''created_at'', JStr ''2024-01-01T00:00:00Z''),
             (''close_date'', JStr ''2024-12-31T23:59:59Z''),
             (''settle_date'', JStr ''2025-01-01T12:00:00Z''),
             (''outcomes'', JList [
                JDict [(''id'', JStr ''yes''), (''name'', JStr ''Yes''),
                       (''price'', JFloat (42 / 100)), (''volume'', JFloat (2875080 / 100))],
                JDict [(''id'', JStr ''no''), (''name'', JStr ''No''),
                       (''price'', JFloat (58 / 100)), (''volume'', JFloat (1924060 / 100))]]),
             (''total_volume'', JFloat (4799140 / 100)),
             (''liquidity'', JFloat (875020 / 100))],
      JDict [(''id'', JStr ''KALSHI-TECH2024''),
             (''title'', JStr ''Will Apple stock reach $250 by end of 2024?''),
             (''description'',
                JStr ''Market resolves to Yes if AAPL closes above $250 on any trading day in 2024''),
             (''provider'', JStr ''kalshi''),
             (''status'', JStr ''active''),
             (''category'', JStr ''stocks''),
             (''created_at'', JStr ''2024-01-15T00:00:00Z''),
             (''close_date'', JStr ''2024-12-31T21:00:00Z''),
             (''settle_date'', JStr ''2025-01-02T09:00:00Z''),
             (''outcomes'', JList [
                JDict [(''id'', JStr ''yes''), (''name'', JStr ''Yes''),
                       (''price'', JFloat (73 / 100)), (''volume'', JFloat (1289030 / 100))],
                JDict [(''id'', JStr ''no''), (''name'', JStr ''No''),
                       (''price'', JFloat (27 / 100)), (''volume'', JFloat (456070 / 100))]]),
             (''total_volume'', JFloat 17451),
             (''liquidity'', JFloat (324080 / 100))]]"

text \<open>
  \<open>generate_sample_data\<close>: the content of the sample file. The price series, drawn from
  a random generator, and the time of generation are arguments.
\<close>

definition generate_sample_data :: "json \<Rightarrow> datetime \<Rightarrow> json" where
  "generate_sample_data timeseries now =
     JDict [(''markets'', JList generate_sample_markets),
            (''timeseries'', timeseries),
            (''generated_at'', JStr (isoformat now @ ''Z'')),
            (''version'', JStr ''1.0.0'')]"

text \<open>The keys of a dict, in order (no other value has keys).\<close>

fun keys :: "json \<Rightarrow> string list" where
  "keys (JDict kvs) = map fst kvs"
| "keys v = []"

text \<open>The field \<open>k\<close> of the value a call returned.\<close>

definition returned_item :: "py_error + json \<Rightarrow> string \<Rightarrow> py_error + json" where
  "returned_item r k = (case r of Inl e \<Rightarrow> Inl e | Inr v \<Rightarrow> py_item v k)"

section \<open>Values stamped from the clock\<close>

text \<open>
  The record \<open>r\<close> with its entry \<open>k\<close> set to the ISO form of the time \<open>t\<close>. Only the
  entries of the record itself are looked at, not those of the records inside it; a
  value that is no dict, and a dict without the entry, stay as they are.
\<close>

fun stamped :: "string \<Rightarrow> datetime \<Rightarrow> json \<Rightarrow> json" where
  "stamped k t (JDict kvs) =
     JDict (map (\<lambda>kv. if fst kv = k then (k, JStr (isoformat t)) else kv) kvs)"
| "stamped k t v = v"

text \<open>
  A list of market records of which the flagged ones take their \<open>created_at\<close> from the
  clock: the record at position \<open>i\<close> from reading number \<open>i\<close>. The records that are not
  flagged are taken as they are.
\<close>

fun stamped_markets :: "(bool \<times> json) list \<Rightarrow> (nat \<Rightarrow> datetime) \<Rightarrow> json list" where
  "stamped_markets [] c = []"
| "stamped_markets ((s, r) # ts) c =
     (if s then stamped ''created_at'' (c 0) r else r) # stamped_markets ts (\<lambda>n. c (Suc n))"

text \<open>The world after \<open>n\<close> readings of the clock.\<close>

definition advance :: "nat \<Rightarrow> world \<Rightarrow> world" where
  "advance n w = w\<lparr>clock := (\<lambda>i. clock w (i + n))\<rparr>"

section \<open>Concrete worlds for the closed examples\<close>

text \<open>
  The environment the test suite sets, with empty keys; midnight of 2024-01-01 as a clock
  reading; a clock that advances by a millisecond between readings; and a world from a
  sample file and a first reading.
\<close>

definition test_environ :: "string \<Rightarrow> string option" where
  "test_environ name =
     (if name = ''KALSHI_API_KEY'' \<or> name = ''POLYMARKET_API_KEY'' then Some '''' else None)"

definition jan_2024 :: datetime where
  "jan_2024 = 738885 * 86400000000"

definition ticking :: "datetime \<Rightarrow> nat \<Rightarrow> datetime" where
  "ticking t0 n = t0 + n * 1000"

definition world_at :: "file_state \<Rightarrow> datetime \<Rightarrow> world" where
  "world_at file t0 = \<lparr>sample_file = file, clock = ticking t0, consulted = []\<rparr>"

text \<open>
  The world of the shipped sample file (its price series left empty here), and the
  connectors of a process without credentials.
\<close>

definition sample_world :: world where
  "sample_world = world_at (Loaded (generate_sample_data (JDict []) jan_2024)) jan_2024"

definition mock_kalshi :: KalshiConnector where
  "mock_kalshi = kalshi_init test_environ"

definition mock_polymarket :: PolymarketConnector where
  "mock_polymarket = polymarket_init test_environ"

text \<open>A world whose sample file exists and is no JSON, so that \<open>json.load\<close> raises.\<close>

definition broken_world :: world where
  "broken_world =
     world_at (LoadFails (Exc JSONDecodeError ''Expecting value: line 1 column 1 (char 0)''))
       jan_2024"

section \<open>Properties of the retry wrapper\<close>

lemma upt3: "[0 ..< (3::nat)] = [0, Suc 0, Suc (Suc 0)]"
  by (simp add: upt_rec numeral_3_eq_3)

lemma async_retry_3_unrolled:
  "async_retry sleep func 3 base w =
     (case func w of
        (Returns v, w0) \<Rightarrow> (Returns (Some v), w0, backoff_trace 3 base 0 [])
      | (RaisesBase b, w0) \<Rightarrow> (RaisesBase b, w0, backoff_trace 3 base 0 [])
      | (Raises e0, w0) \<Rightarrow>
          (case func (sleep (base * 2 ^ 0) w0) of
             (Returns v, w1) \<Rightarrow> (Returns (Some v), w1, backoff_trace 3 base 0 [e0])
           | (RaisesBase b, w1) \<Rightarrow> (RaisesBase b, w1, backoff_trace 3 base 0 [e0])
           | (Raises e1, w1) \<Rightarrow>
               (case func (sleep (base * 2 ^ 1) w1) of
                  (Returns v, w2) \<Rightarrow> (Returns (Some v), w2, backoff_trace 3 base 0 [e0, e1])
                | (RaisesBase b, w2) \<Rightarrow> (RaisesBase b, w2, backoff_trace 3 base 0 [e0, e1])
                | (Raises e2, w2) \<Rightarrow> (Raises e2, w2, backoff_trace 3 base 0 [e0, e1]))))"
  unfolding async_retry_def
  by (simp add: upt3 Let_def split: prod.splits outcome.splits)

text \<open>
  For any number \<open>n\<close> of permitted attempts and any starting index \<open>k < n\<close>, the loop's
  events are those of some run of fewer than \<open>n - k\<close> failed attempts followed by one last
  attempt: by induction on the number of attempts left.
\<close>

lemma retry_loop_trace:
  "k < n \<Longrightarrow> \<exists>es. length es < n - k \<and>
     snd (snd (retry_loop sleep func (int n) base [k ..< n] w)) = backoff_trace (int n) base k es"
proof (induction "n - k" arbitrary: k w)
  case 0
  then show ?case by simp
next
  case (Suc d)
  obtain r w' where fw: "func w = (r, w')" by (cases "func w")
  have unf: "[k ..< n] = k # [Suc k ..< n]" using Suc.prems by (simp add: upt_conv_Cons)
  show ?case
  proof (cases r)
    case (Returns v)
    with fw unf Suc.prems show ?thesis by (intro exI[of _ "[]"]) simp
  next
    case (RaisesBase b)
    with fw unf Suc.prems show ?thesis by (intro exI[of _ "[]"]) simp
  next
    case (Raises e)
    show ?thesis
    proof (cases "int k = int n - 1")
      case True
      with fw unf Raises Suc.prems show ?thesis by (intro exI[of _ "[]"]) simp
    next
      case False
      then have lt: "Suc k < n" using Suc.prems by linarith
      have d: "d = n - Suc k" using Suc.hyps(2) by simp
      from Suc.hyps(1)[OF d lt, of "sleep (base * 2 ^ k) w'"]
      obtain es where es: "length es < n - Suc k"
        and tr: "snd (snd (retry_loop sleep func (int n) base [Suc k ..< n] (sleep (base * 2 ^ k) w')))
                   = backoff_trace (int n) base (Suc k) es"
        by blast
      show ?thesis
      proof (intro exI[of _ "e # es"] conjI)
        show "length (e # es) < n - k" using es by simp
        show "snd (snd (retry_loop sleep func (int n) base [k ..< n] w)) =
                backoff_trace (int n) base k (e # es)"
          using fw Raises False tr unf
          by (auto simp: Let_def split: prod.splits)
      qed
    qed
  qed
qed

lemma attempts_backoff_trace:
  "length (filter is_Attempt (backoff_trace m base k es)) = Suc (length es)"
  by (induction es arbitrary: k) simp_all

text \<open>
  C1. With the default of three attempts, for every function, base delay and world: the
  events of the wrapper are attempt 0, then for each failed attempt \<open>k\<close> that is retried a
  warning and a sleep of \<open>base \<times> 2^k\<close> followed by attempt \<open>k + 1\<close>, with at most two
  such retries, so at most three attempts are made; and when all three attempts raise, the
  wrapper raises the exception of the third attempt, without sleeping after it.
\<close>

theorem async_retry_three_attempts:
  "(\<exists>es. length es \<le> 2 \<and>
      snd (snd (async_retry sleep func 3 base w)) = backoff_trace 3 base 0 es)
   \<and> length (filter is_Attempt (snd (snd (async_retry sleep func 3 base w)))) \<le> 3
   \<and> (func w = (Raises e0, w0) \<longrightarrow>
        func (sleep (base * 2 ^ 0) w0) = (Raises e1, w1) \<longrightarrow>
        func (sleep (base * 2 ^ 1) w1) = (Raises e2, w2) \<longrightarrow>
          async_retry sleep func 3 base w =
            (Raises e2, w2,
             [Attempt 0, Warning 1 3 (base * 2 ^ 0) e0, Sleep (base * 2 ^ 0),
              Attempt 1, Warning 2 3 (base * 2 ^ 1) e1, Sleep (base * 2 ^ 1),
              Attempt 2]))"
proof (intro conjI impI)
  have "\<exists>es. length es < 3 - 0 \<and>
     snd (snd (retry_loop sleep func (int 3) base [0 ..< 3] w)) = backoff_trace (int 3) base 0 es"
    by (rule retry_loop_trace) simp
  then obtain es where es: "length es < 3"
    and tr: "snd (snd (async_retry sleep func 3 base w)) = backoff_trace 3 base 0 es"
    by (auto simp: async_retry_def)
  from es tr show "\<exists>es. length es \<le> 2 \<and>
      snd (snd (async_retry sleep func 3 base w)) = backoff_trace 3 base 0 es"
    by (intro exI[of _ es]) simp
  from es tr show "length (filter is_Attempt (snd (snd (async_retry sleep func 3 base w)))) \<le> 3"
    by (simp add: attempts_backoff_trace)
next
  assume "func w = (Raises e0, w0)" "func (sleep (base * 2 ^ 0) w0) = (Raises e1, w1)"
    "func (sleep (base * 2 ^ 1) w1) = (Raises e2, w2)"
  then show "async_retry sleep func 3 base w =
            (Raises e2, w2,
             [Attempt 0, Warning 1 3 (base * 2 ^ 0) e0, Sleep (base * 2 ^ 0),
              Attempt 1, Warning 2 3 (base * 2 ^ 1) e1, Sleep (base * 2 ^ 1),
              Attempt 2])"
    by (simp add: async_retry_3_unrolled)
qed

theorem async_retry_three_attempts_witness:
  "flaky 5 (0, 0) = (Raises ''boom'', (1, 0))
   \<and> flaky 5 (clock_sleep (1 * 2 ^ 0) (1, 0)) = (Raises ''boom!'', (2, 1))
   \<and> flaky 5 (clock_sleep (1 * 2 ^ 1) (2, 1)) = (Raises ''boom!!'', (3, 3))
   \<and> async_retry clock_sleep (flaky 5) 3 1 (0, 0) =
       (Raises ''boom!!'', (3, 3),
        [Attempt 0, Warning 1 3 1 ''boom'', Sleep 1,
         Attempt 1, Warning 2 3 2 ''boom!'', Sleep 2, Attempt 2])"
proof -
  have h0: "flaky 5 (0, 0) = (Raises ''boom'', (1, 0))" by (simp add: flaky_def)
  have h1: "flaky 5 (clock_sleep (1 * 2 ^ 0) (1, 0)) = (Raises ''boom!'', (2, 1))"
    by (simp add: flaky_def clock_sleep_def)
  have h2: "flaky 5 (clock_sleep (1 * 2 ^ 1) (2, 1)) = (Raises ''boom!!'', (3, 3))"
    by (simp add: flaky_def clock_sleep_def numeral_2_eq_2)
  from async_retry_three_attempts
         [of clock_sleep "flaky 5" 1 "(0, 0)" "''boom''" "(1, 0)" "''boom!''" "(2, 1)"
             "''boom!!''" "(3, 3)"]
    h0 h1 h2
  show ?thesis by simp
qed

text \<open>
  C2. A function whose first two calls raise and whose third call returns \<open>v\<close>: the
  wrapper with three attempts returns \<open>v\<close>, and it slept exactly twice before, once after
  each failed attempt, for \<open>base \<times> 2^0\<close> and \<open>base \<times> 2^1\<close>.
\<close>

theorem async_retry_fail_twice_then_succeed:
  assumes "func w = (Raises e0, w0)"
    and "func (sleep (base * 2 ^ 0) w0) = (Raises e1, w1)"
    and "func (sleep (base * 2 ^ 1) w1) = (Returns v, w2)"
  shows "fst (async_retry sleep func 3 base w) = Returns (Some v)
    \<and> length (filter is_Sleep (snd (snd (async_retry sleep func 3 base w)))) = 2
    \<and> snd (snd (async_retry sleep func 3 base w)) =
         [Attempt 0, Warning 1 3 (base * 2 ^ 0) e0, Sleep (base * 2 ^ 0),
          Attempt 1, Warning 2 3 (base * 2 ^ 1) e1, Sleep (base * 2 ^ 1),
          Attempt 2]"
  using assms by (simp add: async_retry_3_unrolled)

theorem async_retry_fail_twice_then_succeed_witness:
  "flaky 2 (0, 0) = (Raises ''boom'', (1, 0))
   \<and> flaky 2 (clock_sleep (1 * 2 ^ 0) (1, 0)) = (Raises ''boom!'', (2, 1))
   \<and> flaky 2 (clock_sleep (1 * 2 ^ 1) (2, 1)) = (Returns ''ok'', (3, 3))
   \<and> fst (async_retry clock_sleep (flaky 2) 3 1 (0, 0)) = Returns (Some ''ok'')
   \<and> length (filter is_Sleep (snd (snd (async_retry clock_sleep (flaky 2) 3 1 (0, 0))))) = 2"
proof -
  have h0: "flaky 2 (0, 0) = (Raises ''boom'', (1, 0))" by (simp add: flaky_def)
  have h1: "flaky 2 (clock_sleep (1 * 2 ^ 0) (1, 0)) = (Raises ''boom!'', (2, 1))"
    by (simp add: flaky_def clock_sleep_def)
  have h2: "flaky 2 (clock_sleep (1 * 2 ^ 1) (2, 1)) = (Returns ''ok'', (3, 3))"
    by (simp add: flaky_def clock_sleep_def numeral_2_eq_2)
  from async_retry_fail_twice_then_succeed [OF h0 h1 h2] h0 h1 h2
  show ?thesis by simp
qed

section \<open>Computations: helper facts\<close>

lemmas py_defs = py_bind_def py_return_def py_lift_def py_try_def py_now_def utcnow_def consult_def

lemma py_map_all:
  assumes "py_map f xs w = (Inr ys, w')"
    and step: "\<And>x w y w'. f x w = (Inr y, w') \<Longrightarrow> P y"
  shows "\<forall>y\<in>set ys. P y"
  using assms(1)
proof (induction xs arbitrary: w ys w')
  case Nil
  then show ?case by (simp add: py_return_def)
next
  case (Cons x xs)
  from Cons.prems obtain y w1 zs where
    fx: "f x w = (Inr y, w1)" and rest: "py_map f xs w1 = (Inr zs, w')" and ys: "ys = y # zs"
    by (auto simp: py_bind_def py_return_def split: prod.splits sum.splits)
  from step[OF fx] Cons.IH[OF rest] ys show ?case by simp
qed

lemma sum_filter_subset: "sum_filter p xs = Inr ys \<Longrightarrow> set ys \<subseteq> set xs"
  by (induction xs arbitrary: ys) (auto split: sum.splits if_splits)

section \<open>The provider tag of market records\<close>

lemma kalshi_normalize_provider:
  "kalshi_normalize_market raw w = (Inr out, w') \<Longrightarrow> py_item out ''provider'' = Inr (JStr ''kalshi'')"
  by (cases raw) (auto simp: kalshi_normalize_market_def py_defs)

lemma polymarket_normalize_provider:
  "polymarket_normalize_market raw w = (Inr out, w') \<Longrightarrow>
     py_item out ''provider'' = Inr (JStr ''polymarket'')"
  by (cases raw) (auto simp: polymarket_normalize_market_def py_defs split: sum.splits)

lemma kalshi_get_markets_cases:
  "kalshi_get_markets self w =
     (case kalshi_sample_markets w of (Inl e, w') \<Rightarrow> (Inr [], w') | (Inr ms, w') \<Rightarrow> (Inr ms, w'))"
  by (simp add: kalshi_get_markets_def py_try_def py_return_def split: prod.splits sum.splits)

lemma polymarket_get_markets_cases:
  "polymarket_get_markets self w =
     (case polymarket_sample_markets w of
        (Inl e, w') \<Rightarrow> (Inr [], w')
      | (Inr ms, w') \<Rightarrow> (Inr ms, w'))"
  by (simp add: polymarket_get_markets_def py_try_def py_return_def split: prod.splits sum.splits)

lemma kalshi_sample_markets_provider:
  assumes "kalshi_sample_markets w = (Inr ms, w')"
  shows "\<forall>m\<in>set ms. py_item m ''provider'' = Inr (JStr ''kalshi'')"
proof -
  from assms obtain xs w1 where "py_map kalshi_normalize_market xs w1 = (Inr ms, w')"
    unfolding kalshi_sample_markets_def
    by (auto simp: py_bind_def py_lift_def split: prod.splits sum.splits)
  then show ?thesis
    by (rule py_map_all) (rule kalshi_normalize_provider)
qed

lemma polymarket_sample_markets_provider:
  assumes "polymarket_sample_markets w = (Inr ms, w')"
  shows "\<forall>m\<in>set ms. py_item m ''provider'' = Inr (JStr ''polymarket'')"
proof -
  from assms obtain xs w1 where "py_map polymarket_normalize_market xs w1 = (Inr ms, w')"
    unfolding polymarket_sample_markets_def
    by (auto simp: py_bind_def py_lift_def split: prod.splits sum.splits)
  then show ?thesis
    by (rule py_map_all) (rule polymarket_normalize_provider)
qed

lemma kalshi_get_markets_total: "\<exists>ms. fst (kalshi_get_markets self w) = Inr ms"
  by (simp add: kalshi_get_markets_cases split: prod.splits sum.splits)

lemma polymarket_get_markets_total: "\<exists>ms. fst (polymarket_get_markets self w) = Inr ms"
  by (simp add: polymarket_get_markets_cases split: prod.splits sum.splits)

lemma kalshi_get_markets_provider:
  "kalshi_get_markets self w = (Inr ms, w') \<Longrightarrow>
     \<forall>m\<in>set ms. py_item m ''provider'' = Inr (JStr ''kalshi'')"
  by (auto simp: kalshi_get_markets_cases split: prod.splits sum.splits
           dest: kalshi_sample_markets_provider)

lemma polymarket_get_markets_provider:
  "polymarket_get_markets self w = (Inr ms, w') \<Longrightarrow>
     \<forall>m\<in>set ms. py_item m ''provider'' = Inr (JStr ''polymarket'')"
  by (auto simp: polymarket_get_markets_cases split: prod.splits sum.splits
           dest: polymarket_sample_markets_provider)

lemma kalshi_get_markets_tagged:
  "\<exists>ms. fst (kalshi_get_markets self w) = Inr ms
     \<and> (\<forall>m\<in>set ms. py_item m ''provider'' = Inr (JStr ''kalshi''))"
  using kalshi_get_markets_provider[of self w] kalshi_get_markets_total[of self w]
  by (metis prod.collapse)

lemma polymarket_get_markets_tagged:
  "\<exists>ms. fst (polymarket_get_markets self w) = Inr ms
     \<and> (\<forall>m\<in>set ms. py_item m ''provider'' = Inr (JStr ''polymarket''))"
  using polymarket_get_markets_provider[of self w] polymarket_get_markets_total[of self w]
  by (metis prod.collapse)

lemma kalshi_normalize_dict:
  "\<exists>out w'. kalshi_normalize_market (JDict kvs) w = (Inr out, w')
     \<and> py_item out ''provider'' = Inr (JStr ''kalshi'')
     \<and> py_item out ''id'' = Inr (dict_get kvs ''id'' (JStr ''''))"
  by (simp add: kalshi_normalize_market_def py_defs)

lemma polymarket_normalize_dict:
  "(case polymarket_category_default kvs of
      Inl e \<Rightarrow> fst (polymarket_normalize_market (JDict kvs) w) = Inl e
    | Inr c \<Rightarrow>
        (\<exists>out w'. polymarket_normalize_market (JDict kvs) w = (Inr out, w')
           \<and> py_item out ''provider'' = Inr (JStr ''polymarket'')
           \<and> py_item out ''id'' = Inr (dict_get kvs ''id'' (JStr ''''))))"
  by (simp add: polymarket_normalize_market_def py_defs split: sum.splits)

section \<open>The ids of the markets a connector returns\<close>

lemma kalshi_py_map_ids:
  "\<forall>raw\<in>set raws. \<exists>kvs. raw = JDict kvs \<Longrightarrow>
   \<exists>ms w'. py_map kalshi_normalize_market raws w = (Inr ms, w')
     \<and> map (\<lambda>m. py_item m ''id'') ms = map (\<lambda>raw. py_get raw ''id'' (JStr '''')) raws"
proof (induction raws arbitrary: w)
  case Nil
  show ?case by (simp add: py_return_def)
next
  case (Cons raw raws)
  then obtain kvs where raw: "raw = JDict kvs" by auto
  from kalshi_normalize_dict[of kvs w] obtain out w1 where
    out: "kalshi_normalize_market (JDict kvs) w = (Inr out, w1)"
    and oid: "py_item out ''id'' = Inr (dict_get kvs ''id'' (JStr ''''))"
    by blast
  from Cons obtain ms w2 where
    rest: "py_map kalshi_normalize_market raws w1 = (Inr ms, w2)"
    and ids: "map (\<lambda>m. py_item m ''id'') ms = map (\<lambda>raw. py_get raw ''id'' (JStr '''')) raws"
    by (metis list.set_intros(2))
  from raw out oid rest ids show ?case
    by (simp add: py_bind_def py_return_def)
qed

lemma polymarket_py_map_ids:
  "\<forall>raw\<in>set raws. \<exists>kvs. raw = JDict kvs \<and> map_of kvs ''tags'' = None \<Longrightarrow>
   \<exists>ms w'. py_map polymarket_normalize_market raws w = (Inr ms, w')
     \<and> map (\<lambda>m. py_item m ''id'') ms = map (\<lambda>raw. py_get raw ''id'' (JStr '''')) raws"
proof (induction raws arbitrary: w)
  case Nil
  show ?case by (simp add: py_return_def)
next
  case (Cons raw raws)
  then obtain kvs where raw: "raw = JDict kvs" and tags: "map_of kvs ''tags'' = None" by auto
  from tags have "polymarket_category_default kvs = Inr (JStr '''')"
    by (simp add: polymarket_category_default_def dict_get_def)
  with polymarket_normalize_dict[of kvs w] obtain out w1 where
    out: "polymarket_normalize_market (JDict kvs) w = (Inr out, w1)"
    and oid: "py_item out ''id'' = Inr (dict_get kvs ''id'' (JStr ''''))"
    by auto
  from Cons obtain ms w2 where
    rest: "py_map polymarket_normalize_market raws w1 = (Inr ms, w2)"
    and ids: "map (\<lambda>m. py_item m ''id'') ms = map (\<lambda>raw. py_get raw ''id'' (JStr '''')) raws"
    by (metis list.set_intros(2))
  from raw out oid rest ids show ?case
    by (simp add: py_bind_def py_return_def)
qed

lemma kalshi_get_markets_ids:
  assumes "sample_file w = Loaded sample_data"
    and "py_get sample_data ''markets'' (JList []) = Inr (JList raws)"
    and "\<forall>raw\<in>set raws. \<exists>kvs. raw = JDict kvs"
  shows "\<exists>ms. fst (kalshi_get_markets kc w) = Inr ms
     \<and> map (\<lambda>m. py_item m ''id'') ms = map (\<lambda>raw. py_get raw ''id'' (JStr '''')) raws"
proof -
  from kalshi_py_map_ids[OF assms(3), of w] obtain ms w' where
    "py_map kalshi_normalize_market raws w = (Inr ms, w')"
    and ids: "map (\<lambda>m. py_item m ''id'') ms = map (\<lambda>raw. py_get raw ''id'' (JStr '''')) raws"
    by blast
  with assms(1,2) have "fst (kalshi_get_markets kc w) = Inr ms"
    by (simp add: kalshi_get_markets_cases kalshi_sample_markets_def kalshi_load_sample_data_def
                  py_bind_def py_lift_def)
  with ids show ?thesis by blast
qed

lemma polymarket_get_markets_ids:
  assumes "sample_file w = Loaded sample_data"
    and "py_get sample_data ''markets'' (JList []) = Inr (JList raws)"
    and "\<forall>raw\<in>set raws. \<exists>kvs. raw = JDict kvs \<and> map_of kvs ''tags'' = None"
  shows "\<exists>ms. fst (polymarket_get_markets pc w) = Inr ms
     \<and> map (\<lambda>m. py_item m ''id'') ms = map (\<lambda>raw. py_get raw ''id'' (JStr '''')) raws"
proof -
  from polymarket_py_map_ids[OF assms(3), of w] obtain ms w' where
    "py_map polymarket_normalize_market raws w = (Inr ms, w')"
    and ids: "map (\<lambda>m. py_item m ''id'') ms = map (\<lambda>raw. py_get raw ''id'' (JStr '''')) raws"
    by blast
  with assms(1,2) have "fst (polymarket_get_markets pc w) = Inr ms"
    by (simp add: polymarket_get_markets_cases polymarket_sample_markets_def
                  polymarket_load_sample_data_def py_bind_def py_lift_def)
  with ids show ?thesis by blast
qed

text \<open>The markets of the generator's sample file, as each connector returns them.\<close>

lemma sample_world_file:
  "sample_file sample_world = Loaded (generate_sample_data (JDict []) jan_2024)"
  "py_get (generate_sample_data (JDict []) jan_2024) ''markets'' (JList [])
     = Inr (JList generate_sample_markets)"
  by (simp_all add: sample_world_def world_at_def generate_sample_data_def dict_get_def)

lemma sample_markets_are_dicts:
  "\<forall>raw\<in>set generate_sample_markets. \<exists>kvs. raw = JDict kvs \<and> map_of kvs ''tags'' = None"
  by (simp add: generate_sample_markets_def)

lemma sample_markets_ids:
  "map (\<lambda>raw. py_get raw ''id'' (JStr '''')) generate_sample_markets =
     [Inr (JStr ''KALSHI-PRES2024''), Inr (JStr ''POLY-CRYPTO2024''),
      Inr (JStr ''KALSHI-TECH2024'')]"
  by (simp add: generate_sample_markets_def dict_get_def)

lemma kalshi_sample_world_ids:
  "\<exists>ms. fst (kalshi_get_markets kc sample_world) = Inr ms
     \<and> map (\<lambda>m. py_item m ''id'') ms =
         [Inr (JStr ''KALSHI-PRES2024''), Inr (JStr ''POLY-CRYPTO2024''),
          Inr (JStr ''KALSHI-TECH2024'')]"
  using kalshi_get_markets_ids[OF sample_world_file, of kc] sample_markets_are_dicts
    sample_markets_ids
  by (metis (no_types, lifting))

lemma polymarket_sample_world_ids:
  "\<exists>ms. fst (polymarket_get_markets pc sample_world) = Inr ms
     \<and> map (\<lambda>m. py_item m ''id'') ms =
         [Inr (JStr ''KALSHI-PRES2024''), Inr (JStr ''POLY-CRYPTO2024''),
          Inr (JStr ''KALSHI-TECH2024'')]"
  using polymarket_get_markets_ids[OF sample_world_file sample_markets_are_dicts, of pc]
    sample_markets_ids
  by simp

section \<open>Unfolding sets for the closed examples\<close>

lemmas kalshi_defs =
  kalshi_get_markets_def kalshi_sample_markets_def kalshi_load_sample_data_def
  kalshi_normalize_market_def kalshi_init_def kalshi_get_market_def kalshi_get_market_price_def
  kalshi_get_market_orderbook_def kalshi_get_market_events_def kalshi_sync_data_def
  kalshi_fallback_def mock_kalshi_def

lemmas polymarket_defs =
  polymarket_get_markets_def polymarket_sample_markets_def polymarket_load_sample_data_def
  polymarket_normalize_market_def polymarket_init_def polymarket_get_market_def
  polymarket_get_market_price_def polymarket_get_market_orderbook_def
  polymarket_get_market_events_def polymarket_sync_data_def polymarket_fallback_def
  polymarket_category_default_def mock_polymarket_def

lemmas world_defs =
  world_at_def ticking_def test_environ_def dict_get_def opt_str_def
  generate_sample_data_def generate_sample_markets_def sample_world_def
  broken_world_def

lemmas route_defs =
  route_get_markets_def route_get_market_def sync_provider_data_def provider_selected_def
  create_envelope_def status_matches_def title_matches_def lower_def lower_char_def
  filter_by_status_def filter_by_query_def

text \<open>
  C9. For every raw market dict, the Kalshi normalisation returns a record whose
  \<open>provider\<close> is \<open>"kalshi"\<close>; the Polymarket normalisation either raises (a \<open>tags\<close>
  value that is truthy and cannot be indexed) or returns a record whose \<open>provider\<close> is
  \<open>"polymarket"\<close>; neither looks at the \<open>provider\<close> of the raw dict. So every market
  that \<open>get_markets\<close> of a connector returns carries that connector's name, whatever the
  sample file says.
\<close>

theorem normalize_market_provider_constant:
  "(\<exists>out w'. kalshi_normalize_market (JDict kvs) w = (Inr out, w')
      \<and> py_item out ''provider'' = Inr (JStr ''kalshi''))
   \<and> (case polymarket_category_default kvs of
         Inl e \<Rightarrow> fst (polymarket_normalize_market (JDict kvs) w) = Inl e
       | Inr c \<Rightarrow>
           (\<exists>out w'. polymarket_normalize_market (JDict kvs) w = (Inr out, w')
              \<and> py_item out ''provider'' = Inr (JStr ''polymarket'')))
   \<and> (\<exists>ms. fst (kalshi_get_markets kc w) = Inr ms
         \<and> (\<forall>m\<in>set ms. py_item m ''provider'' = Inr (JStr ''kalshi'')))
   \<and> (\<exists>ms. fst (polymarket_get_markets pc w) = Inr ms
         \<and> (\<forall>m\<in>set ms. py_item m ''provider'' = Inr (JStr ''polymarket'')))"
proof (intro conjI)
  show "\<exists>out w'. kalshi_normalize_market (JDict kvs) w = (Inr out, w')
      \<and> py_item out ''provider'' = Inr (JStr ''kalshi'')"
    using kalshi_normalize_dict[of kvs w] by blast
  show "case polymarket_category_default kvs of
         Inl e \<Rightarrow> fst (polymarket_normalize_market (JDict kvs) w) = Inl e
       | Inr c \<Rightarrow>
           (\<exists>out w'. polymarket_normalize_market (JDict kvs) w = (Inr out, w')
              \<and> py_item out ''provider'' = Inr (JStr ''polymarket''))"
    using polymarket_normalize_dict[of kvs w] by (auto split: sum.splits)
  show "\<exists>ms. fst (kalshi_get_markets kc w) = Inr ms
         \<and> (\<forall>m\<in>set ms. py_item m ''provider'' = Inr (JStr ''kalshi''))"
    by (rule kalshi_get_markets_tagged)
  show "\<exists>ms. fst (polymarket_get_markets pc w) = Inr ms
         \<and> (\<forall>m\<in>set ms. py_item m ''provider'' = Inr (JStr ''polymarket''))"
    by (rule polymarket_get_markets_tagged)
qed

text \<open>
  On the generator's sample file both connectors return all three markets, each under its
  own name: Kalshi relabels \<open>POLY-CRYPTO2024\<close>, whose raw \<open>provider\<close> is
  \<open>"polymarket"\<close>, and Polymarket relabels the two \<open>KALSHI-\<close> markets.
\<close>

theorem normalize_market_provider_constant_witness:
  "map (\<lambda>m. py_item m ''provider'') generate_sample_markets =
     [Inr (JStr ''kalshi''), Inr (JStr ''polymarket''), Inr (JStr ''kalshi'')]
   \<and> (\<exists>ms. fst (kalshi_get_markets mock_kalshi sample_world) = Inr ms
         \<and> map (\<lambda>m. py_item m ''id'') ms =
             [Inr (JStr ''KALSHI-PRES2024''), Inr (JStr ''POLY-CRYPTO2024''),
              Inr (JStr ''KALSHI-TECH2024'')]
         \<and> (\<forall>m\<in>set ms. py_item m ''provider'' = Inr (JStr ''kalshi'')))
   \<and> (\<exists>ms. fst (polymarket_get_markets mock_polymarket sample_world) = Inr ms
         \<and> map (\<lambda>m. py_item m ''id'') ms =
             [Inr (JStr ''KALSHI-PRES2024''), Inr (JStr ''POLY-CRYPTO2024''),
              Inr (JStr ''KALSHI-TECH2024'')]
         \<and> (\<forall>m\<in>set ms. py_item m ''provider'' = Inr (JStr ''polymarket'')))"
proof -
  have raw: "map (\<lambda>m. py_item m ''provider'') generate_sample_markets =
     [Inr (JStr ''kalshi''), Inr (JStr ''polymarket''), Inr (JStr ''kalshi'')]"
    by (simp add: generate_sample_markets_def)
  have k: "(case fst (kalshi_get_markets mock_kalshi sample_world) of
              Inr ms \<Rightarrow> map (\<lambda>m. py_item m ''id'') ms | Inl e \<Rightarrow> []) =
             [Inr (JStr ''KALSHI-PRES2024''), Inr (JStr ''POLY-CRYPTO2024''),
              Inr (JStr ''KALSHI-TECH2024'')]"
    using kalshi_sample_world_ids[of mock_kalshi] by auto
  have p: "(case fst (polymarket_get_markets mock_polymarket sample_world) of
              Inr ms \<Rightarrow> map (\<lambda>m. py_item m ''id'') ms | Inl e \<Rightarrow> []) =
             [Inr (JStr ''KALSHI-PRES2024''), Inr (JStr ''POLY-CRYPTO2024''),
              Inr (JStr ''KALSHI-TECH2024'')]"
    using polymarket_sample_world_ids[of mock_polymarket] by auto
  from normalize_market_provider_constant[of "[]" sample_world mock_kalshi mock_polymarket]
  obtain ks ps where
    ks: "fst (kalshi_get_markets mock_kalshi sample_world) = Inr ks"
       "\<forall>m\<in>set ks. py_item m ''provider'' = Inr (JStr ''kalshi'')"
    and ps: "fst (polymarket_get_markets mock_polymarket sample_world) = Inr ps"
       "\<forall>m\<in>set ps. py_item m ''provider'' = Inr (JStr ''polymarket'')"
    by blast
  from k ks p ps raw show ?thesis by simp
qed

section \<open>What a connector call leaves of the world\<close>

text \<open>
  The connectors read the clock and the sample file; they never write the file nor the
  list of consulted connectors.
\<close>

lemma py_map_keeps:
  assumes "\<And>x w. consulted (snd (f x w)) = consulted w \<and> sample_file (snd (f x w)) = sample_file w"
  shows "consulted (snd (py_map f xs w)) = consulted w
       \<and> sample_file (snd (py_map f xs w)) = sample_file w"
proof (induction xs arbitrary: w)
  case Nil
  show ?case by (simp add: py_return_def)
next
  case (Cons x xs)
  obtain r w1 where fx: "f x w = (r, w1)" by (cases "f x w")
  with assms[of x w] have w1: "consulted w1 = consulted w" "sample_file w1 = sample_file w"
    by simp_all
  obtain r2 w2 where rest: "py_map f xs w1 = (r2, w2)" by (cases "py_map f xs w1")
  with Cons.IH[of w1] w1 have "consulted w2 = consulted w" "sample_file w2 = sample_file w"
    by simp_all
  with fx rest w1 show ?case
    by (simp add: py_bind_def py_return_def split: sum.splits)
qed

lemma kalshi_normalize_keeps:
  "consulted (snd (kalshi_normalize_market raw w)) = consulted w
   \<and> sample_file (snd (kalshi_normalize_market raw w)) = sample_file w"
  by (cases raw) (simp_all add: kalshi_normalize_market_def py_defs)

lemma polymarket_normalize_keeps:
  "consulted (snd (polymarket_normalize_market raw w)) = consulted w
   \<and> sample_file (snd (polymarket_normalize_market raw w)) = sample_file w"
  by (cases raw) (simp_all add: polymarket_normalize_market_def py_defs split: sum.splits)

lemma kalshi_sample_markets_keeps:
  "consulted (snd (kalshi_sample_markets w)) = consulted w
   \<and> sample_file (snd (kalshi_sample_markets w)) = sample_file w"
  using py_map_keeps[of kalshi_normalize_market, OF kalshi_normalize_keeps]
  by (simp add: kalshi_sample_markets_def kalshi_load_sample_data_def py_bind_def py_lift_def
           split: file_state.splits sum.splits)

lemma polymarket_sample_markets_keeps:
  "consulted (snd (polymarket_sample_markets w)) = consulted w
   \<and> sample_file (snd (polymarket_sample_markets w)) = sample_file w"
  using py_map_keeps[of polymarket_normalize_market, OF polymarket_normalize_keeps]
  by (simp add: polymarket_sample_markets_def polymarket_load_sample_data_def py_bind_def
                py_lift_def
           split: file_state.splits sum.splits)

lemma kalshi_get_markets_keeps:
  "consulted (snd (kalshi_get_markets self w)) = consulted w
   \<and> sample_file (snd (kalshi_get_markets self w)) = sample_file w"
  using kalshi_sample_markets_keeps[of w]
  by (auto simp: kalshi_get_markets_cases split: prod.splits sum.splits)

lemma polymarket_get_markets_keeps:
  "consulted (snd (polymarket_get_markets self w)) = consulted w
   \<and> sample_file (snd (polymarket_get_markets self w)) = sample_file w"
  using polymarket_sample_markets_keeps[of w]
  by (auto simp: polymarket_get_markets_cases split: prod.splits sum.splits)

lemma filter_by_status_subset: "filter_by_status status xs = Inr ys \<Longrightarrow> set ys \<subseteq> set xs"
  by (auto simp: filter_by_status_def split: option.splits if_splits dest: sum_filter_subset)

lemma filter_by_query_subset: "filter_by_query q xs = Inr ys \<Longrightarrow> set ys \<subseteq> set xs"
  by (auto simp: filter_by_query_def split: option.splits if_splits dest: sum_filter_subset)

lemma lower_kalshi_selects:
  assumes "lower p = ''kalshi''"
  shows "provider_selected (Some p) ''kalshi''" and "\<not> provider_selected (Some p) ''polymarket''"
    and "truthy (opt_str (Some p))"
  using assms by (auto simp: provider_selected_def opt_str_def lower_def)

text \<open>
  C8. For a query whose \<open>provider\<close> lowers to \<open>"kalshi"\<close>, with any \<open>status\<close> and \<open>q\<close>: the
  handler of \<open>GET /api/v1/markets\<close> either answers with an envelope whose \<open>data\<close> is a list
  of market records that all have \<open>provider\<close> equal to \<open>"kalshi"\<close>, or raises the
  \<open>HTTPException\<close> with status 500 (a filter met a \<open>status\<close> or \<open>title\<close> that is no
  string); only the Kalshi connector is consulted.
\<close>

theorem route_get_markets_provider_kalshi:
  assumes "lower p = ''kalshi''"
  shows "(case fst (route_get_markets kc pc (Some p) status q w) of
            Inr resp \<Rightarrow>
              (\<exists>ms. py_item resp ''data'' = Inr (JList ms)
                 \<and> (\<forall>m\<in>set ms. py_item m ''provider'' = Inr (JStr ''kalshi'')))
          | Inl e \<Rightarrow> e = HTTPException 500 ''Failed to fetch markets'')
         \<and> consulted (snd (route_get_markets kc pc (Some p) status q w))
             = consulted w @ [''kalshi'']"
proof -
  let ?w0 = "w\<lparr>consulted := consulted w @ [''kalshi'']\<rparr>"
  obtain ks w1 where run: "kalshi_get_markets kc ?w0 = (Inr ks, w1)"
    using kalshi_get_markets_total[of kc ?w0] by (cases "kalshi_get_markets kc ?w0") auto
  have tagged: "\<forall>m\<in>set ks. py_item m ''provider'' = Inr (JStr ''kalshi'')"
    using kalshi_get_markets_provider[OF run] .
  have w1: "consulted w1 = consulted w @ [''kalshi'']"
    using kalshi_get_markets_keeps[of kc ?w0] run by simp
  note sel = lower_kalshi_selects[OF assms]
  show ?thesis
  proof (cases "filter_by_status status ks")
    case (Inl e)
    with run w1 sel show ?thesis
      by (simp add: route_get_markets_def py_defs)
  next
    case (Inr m1)
    then have m1: "set m1 \<subseteq> set ks" by (rule filter_by_status_subset)
    show ?thesis
    proof (cases "filter_by_query q m1")
      case (Inl e)
      with Inr run w1 sel show ?thesis
        by (simp add: route_get_markets_def py_defs)
    next
      case m2: (Inr m2)
      then have "set m2 \<subseteq> set m1" by (rule filter_by_query_subset)
      with m1 tagged have "\<forall>m\<in>set m2. py_item m ''provider'' = Inr (JStr ''kalshi'')"
        by blast
      with m2 Inr run w1 sel show ?thesis
        by (simp add: route_get_markets_def py_defs create_envelope_def)
    qed
  qed
qed

theorem route_get_markets_provider_kalshi_witness:
  "lower ''kalshi'' = ''kalshi''
   \<and> (\<exists>resp m. fst (route_get_markets mock_kalshi mock_polymarket (Some ''kalshi'') None None
                       (world_at FileNotFound jan_2024)) = Inr resp
         \<and> py_item resp ''data'' = Inr (JList [m])
         \<and> py_item m ''id'' = Inr (JStr ''KALSHI-PRES2024'')
         \<and> py_item m ''provider'' = Inr (JStr ''kalshi''))
   \<and> consulted (snd (route_get_markets mock_kalshi mock_polymarket (Some ''kalshi'') None None
                       (world_at FileNotFound jan_2024))) = [''kalshi'']"
proof -
  have l: "lower ''kalshi'' = ''kalshi''" by (simp add: lower_def lower_char_def)
  have ev: "\<exists>resp m. fst (route_get_markets mock_kalshi mock_polymarket (Some ''kalshi'') None None
                       (world_at FileNotFound jan_2024)) = Inr resp
         \<and> py_item resp ''data'' = Inr (JList [m])
         \<and> py_item m ''id'' = Inr (JStr ''KALSHI-PRES2024'')"
    by (simp add: route_defs kalshi_defs py_defs world_defs)
  then obtain resp m where
    resp: "fst (route_get_markets mock_kalshi mock_polymarket (Some ''kalshi'') None None
                       (world_at FileNotFound jan_2024)) = Inr resp"
    and data: "py_item resp ''data'' = Inr (JList [m])"
    and mid: "py_item m ''id'' = Inr (JStr ''KALSHI-PRES2024'')"
    by blast
  from route_get_markets_provider_kalshi[OF l, of mock_kalshi mock_polymarket None None
         "world_at FileNotFound jan_2024"] resp data
  have "py_item m ''provider'' = Inr (JStr ''kalshi'')"
    and c: "consulted (snd (route_get_markets mock_kalshi mock_polymarket (Some ''kalshi'') None
              None (world_at FileNotFound jan_2024))) = [''kalshi'']"
    by (auto simp: world_at_def)
  with l resp data mid show ?thesis by blast
qed

section \<open>Order books, events and synchronisation\<close>

text \<open>
  C10. In mock mode, for every \<open>depth\<close> the order book of either connector has exactly two
  bids and two asks, and for every \<open>since\<close> and \<open>limit\<close> the events are a list of exactly
  one event; in any mode the result of \<open>get_market_orderbook\<close> does not depend on \<open>depth\<close>
  and the result of \<open>get_market_events\<close> does not depend on \<open>since\<close> or \<open>limit\<close>.
\<close>

theorem mock_orderbook_events_ignore_arguments:
  "(kalshi_mock_mode kc \<longrightarrow>
      (\<exists>ob bids asks. fst (kalshi_get_market_orderbook kc market_id depth w) = Inr ob
         \<and> py_item ob ''bids'' = Inr (JList bids) \<and> length bids = 2
         \<and> py_item ob ''asks'' = Inr (JList asks) \<and> length asks = 2)
      \<and> (\<exists>ev. fst (kalshi_get_market_events kc market_id since limit w) = Inr [ev]))
   \<and> (polymarket_mock_mode pc \<longrightarrow>
      (\<exists>ob bids asks. fst (polymarket_get_market_orderbook pc market_id depth w) = Inr ob
         \<and> py_item ob ''bids'' = Inr (JList bids) \<and> length bids = 2
         \<and> py_item ob ''asks'' = Inr (JList asks) \<and> length asks = 2)
      \<and> (\<exists>ev. fst (polymarket_get_market_events pc market_id since limit w) = Inr [ev]))
   \<and> kalshi_get_market_orderbook kc market_id depth w
       = kalshi_get_market_orderbook kc market_id depth' w
   \<and> polymarket_get_market_orderbook pc market_id depth w
       = polymarket_get_market_orderbook pc market_id depth' w
   \<and> kalshi_get_market_events kc market_id since limit w
       = kalshi_get_market_events kc market_id since' limit' w
   \<and> polymarket_get_market_events pc market_id since limit w
       = polymarket_get_market_events pc market_id since' limit' w"
  by (simp add: kalshi_get_market_orderbook_def kalshi_get_market_events_def
                polymarket_get_market_orderbook_def polymarket_get_market_events_def py_defs)

theorem mock_orderbook_events_ignore_arguments_witness:
  "kalshi_mock_mode mock_kalshi \<and> polymarket_mock_mode mock_polymarket
   \<and> (\<exists>ob bids asks.
         fst (kalshi_get_market_orderbook mock_kalshi ''KALSHI-PRES2024'' (Some 1)
                (world_at FileNotFound jan_2024)) = Inr ob
         \<and> py_item ob ''bids'' = Inr (JList bids) \<and> length bids = 2
         \<and> py_item ob ''asks'' = Inr (JList asks) \<and> length asks = 2)
   \<and> (\<exists>ev. fst (polymarket_get_market_events mock_polymarket ''POLY-CRYPTO2024'' None (Some 0)
                   (world_at FileNotFound jan_2024)) = Inr [ev])
   \<and> kalshi_get_market_orderbook mock_kalshi ''KALSHI-PRES2024'' (Some 1)
        (world_at FileNotFound jan_2024)
       = kalshi_get_market_orderbook mock_kalshi ''KALSHI-PRES2024'' (Some 500)
           (world_at FileNotFound jan_2024)"
proof -
  have k: "kalshi_mock_mode mock_kalshi"
    by (simp add: mock_kalshi_def kalshi_init_def test_environ_def opt_str_def)
  have p: "polymarket_mock_mode mock_polymarket"
    by (simp add: mock_polymarket_def polymarket_init_def test_environ_def opt_str_def)
  from mock_orderbook_events_ignore_arguments
         [of mock_kalshi "''KALSHI-PRES2024''" "Some 1" "world_at FileNotFound jan_2024"
             None None mock_polymarket "Some 500" None None] k
  have a: "\<exists>ob bids asks.
         fst (kalshi_get_market_orderbook mock_kalshi ''KALSHI-PRES2024'' (Some 1)
                (world_at FileNotFound jan_2024)) = Inr ob
         \<and> py_item ob ''bids'' = Inr (JList bids) \<and> length bids = 2
         \<and> py_item ob ''asks'' = Inr (JList asks) \<and> length asks = 2"
    and c: "kalshi_get_market_orderbook mock_kalshi ''KALSHI-PRES2024'' (Some 1)
        (world_at FileNotFound jan_2024)
       = kalshi_get_market_orderbook mock_kalshi ''KALSHI-PRES2024'' (Some 500)
           (world_at FileNotFound jan_2024)"
    by blast+
  from mock_orderbook_events_ignore_arguments
         [of mock_kalshi "''POLY-CRYPTO2024''" None "world_at FileNotFound jan_2024"
             None "Some 0" mock_polymarket None None None] p
  have b: "\<exists>ev. fst (polymarket_get_market_events mock_polymarket ''POLY-CRYPTO2024'' None (Some 0)
                   (world_at FileNotFound jan_2024)) = Inr [ev]"
    by blast
  from k p a b c show ?thesis by blast
qed

lemma kalshi_sync_data_cases:
  "kalshi_sync_data self w =
     (case kalshi_get_markets self w of
        (Inr markets, w') \<Rightarrow>
          (Inr (JDict [
             (''provider'', JStr ''kalshi''),
             (''markets_synced'', JInt (int (length markets))),
             (''status'', JStr ''success''),
             (''timestamp'', JStr (isoformat (clock w' 0)))]),
           w'\<lparr>clock := (\<lambda>n. clock w' (Suc n))\<rparr>)
      | (Inl e, w') \<Rightarrow>
          (Inr (JDict [
             (''provider'', JStr ''kalshi''),
             (''markets_synced'', JInt 0),
             (''status'', JStr ''error''),
             (''error'', JStr (str_of_error e)),
             (''timestamp'', JStr (isoformat (clock w' 0)))]),
           w'\<lparr>clock := (\<lambda>n. clock w' (Suc n))\<rparr>))"
  by (simp add: kalshi_sync_data_def py_defs split: prod.splits sum.splits)

lemma polymarket_sync_data_cases:
  "polymarket_sync_data self w =
     (case polymarket_get_markets self w of
        (Inr markets, w') \<Rightarrow>
          (Inr (JDict [
             (''provider'', JStr ''polymarket''),
             (''markets_synced'', JInt (int (length markets))),
             (''status'', JStr ''success''),
             (''timestamp'', JStr (isoformat (clock w' 0)))]),
           w'\<lparr>clock := (\<lambda>n. clock w' (Suc n))\<rparr>)
      | (Inl e, w') \<Rightarrow>
          (Inr (JDict [
             (''provider'', JStr ''polymarket''),
             (''markets_synced'', JInt 0),
             (''status'', JStr ''error''),
             (''error'', JStr (str_of_error e)),
             (''timestamp'', JStr (isoformat (clock w' 0)))]),
           w'\<lparr>clock := (\<lambda>n. clock w' (Suc n))\<rparr>))"
  by (simp add: polymarket_sync_data_def py_defs split: prod.splits sum.splits)

lemma kalshi_sync_data_success:
  "\<exists>ms ts. fst (kalshi_get_markets kc w) = Inr ms
     \<and> fst (kalshi_sync_data kc w) =
         Inr (JDict [(''provider'', JStr ''kalshi''),
                     (''markets_synced'', JInt (int (length ms))),
                     (''status'', JStr ''success''),
                     (''timestamp'', JStr ts)])"
proof -
  obtain ms w' where run: "kalshi_get_markets kc w = (Inr ms, w')"
    using kalshi_get_markets_total[of kc w] by (cases "kalshi_get_markets kc w") auto
  then show ?thesis by (simp add: kalshi_sync_data_cases)
qed

lemma polymarket_sync_data_success:
  "\<exists>ms ts. fst (polymarket_get_markets pc w) = Inr ms
     \<and> fst (polymarket_sync_data pc w) =
         Inr (JDict [(''provider'', JStr ''polymarket''),
                     (''markets_synced'', JInt (int (length ms))),
                     (''status'', JStr ''success''),
                     (''timestamp'', JStr ts)])"
proof -
  obtain ms w' where run: "polymarket_get_markets pc w = (Inr ms, w')"
    using polymarket_get_markets_total[of pc w] by (cases "polymarket_get_markets pc w") auto
  then show ?thesis by (simp add: polymarket_sync_data_cases)
qed

text \<open>
  C6. For each of the two providers and in every world (so also in mock mode),
  \<open>sync_data\<close> returns a dict whose \<open>status\<close> is \<open>"success"\<close> and whose \<open>markets_synced\<close>
  is the number of markets \<open>get_markets\<close> returns, which is not negative; the handler of
  \<open>POST /api/v1/ingest/{provider}/sync\<close> answers with an envelope that carries this dict
  as \<open>data\<close>.
\<close>

theorem sync_data_success_count:
  "(\<exists>ms result. fst (kalshi_get_markets kc w) = Inr ms
      \<and> fst (kalshi_sync_data kc w) = Inr result
      \<and> py_item result ''status'' = Inr (JStr ''success'')
      \<and> py_item result ''markets_synced'' = Inr (JInt (int (length ms)))
      \<and> 0 \<le> int (length ms))
   \<and> (\<exists>ms result. fst (polymarket_get_markets pc w) = Inr ms
      \<and> fst (polymarket_sync_data pc w) = Inr result
      \<and> py_item result ''status'' = Inr (JStr ''success'')
      \<and> py_item result ''markets_synced'' = Inr (JInt (int (length ms)))
      \<and> 0 \<le> int (length ms))
   \<and> (\<exists>resp result n. fst (sync_provider_data kc pc ''kalshi'' w) = Inr resp
      \<and> py_item resp ''ok'' = Inr (JBool True)
      \<and> py_item resp ''data'' = Inr result
      \<and> py_item result ''provider'' = Inr (JStr ''kalshi'')
      \<and> py_item result ''status'' = Inr (JStr ''success'')
      \<and> py_item result ''markets_synced'' = Inr (JInt n) \<and> 0 \<le> n)
   \<and> (\<exists>resp result n. fst (sync_provider_data kc pc ''polymarket'' w) = Inr resp
      \<and> py_item resp ''ok'' = Inr (JBool True)
      \<and> py_item resp ''data'' = Inr result
      \<and> py_item result ''provider'' = Inr (JStr ''polymarket'')
      \<and> py_item result ''status'' = Inr (JStr ''success'')
      \<and> py_item result ''markets_synced'' = Inr (JInt n) \<and> 0 \<le> n)"
proof (intro conjI)
  show "\<exists>ms result. fst (kalshi_get_markets kc w) = Inr ms
      \<and> fst (kalshi_sync_data kc w) = Inr result
      \<and> py_item result ''status'' = Inr (JStr ''success'')
      \<and> py_item result ''markets_synced'' = Inr (JInt (int (length ms)))
      \<and> 0 \<le> int (length ms)"
    using kalshi_sync_data_success[of kc w] by auto
  show "\<exists>ms result. fst (polymarket_get_markets pc w) = Inr ms
      \<and> fst (polymarket_sync_data pc w) = Inr result
      \<and> py_item result ''status'' = Inr (JStr ''success'')
      \<and> py_item result ''markets_synced'' = Inr (JInt (int (length ms)))
      \<and> 0 \<le> int (length ms)"
    using polymarket_sync_data_success[of pc w] by auto
next
  let ?w0 = "w\<lparr>consulted := consulted w @ [''kalshi'']\<rparr>"
  have l: "lower ''kalshi'' = ''kalshi''" by (simp add: lower_def lower_char_def)
  from kalshi_sync_data_success[of kc ?w0] obtain ms :: "json list" and ts where
    "fst (kalshi_sync_data kc ?w0) =
         Inr (JDict [(''provider'', JStr ''kalshi''),
                     (''markets_synced'', JInt (int (length ms))),
                     (''status'', JStr ''success''),
                     (''timestamp'', JStr ts)])"
    by blast
  then show "\<exists>resp result n. fst (sync_provider_data kc pc ''kalshi'' w) = Inr resp
      \<and> py_item resp ''ok'' = Inr (JBool True)
      \<and> py_item resp ''data'' = Inr result
      \<and> py_item result ''provider'' = Inr (JStr ''kalshi'')
      \<and> py_item result ''status'' = Inr (JStr ''success'')
      \<and> py_item result ''markets_synced'' = Inr (JInt n) \<and> 0 \<le> n"
    by (cases "kalshi_sync_data kc ?w0")
       (simp add: sync_provider_data_def l py_defs create_envelope_def)
next
  let ?w0 = "w\<lparr>consulted := consulted w @ [''polymarket'']\<rparr>"
  have l: "lower ''polymarket'' = ''polymarket''" "lower ''polymarket'' \<noteq> ''kalshi''"
    by (simp_all add: lower_def lower_char_def)
  from polymarket_sync_data_success[of pc ?w0] obtain ms :: "json list" and ts where
    "fst (polymarket_sync_data pc ?w0) =
         Inr (JDict [(''provider'', JStr ''polymarket''),
                     (''markets_synced'', JInt (int (length ms))),
                     (''status'', JStr ''success''),
                     (''timestamp'', JStr ts)])"
    by blast
  then show "\<exists>resp result n. fst (sync_provider_data kc pc ''polymarket'' w) = Inr resp
      \<and> py_item resp ''ok'' = Inr (JBool True)
      \<and> py_item resp ''data'' = Inr result
      \<and> py_item result ''provider'' = Inr (JStr ''polymarket'')
      \<and> py_item result ''status'' = Inr (JStr ''success'')
      \<and> py_item result ''markets_synced'' = Inr (JInt n) \<and> 0 \<le> n"
    by (cases "polymarket_sync_data pc ?w0")
       (simp add: sync_provider_data_def l py_defs create_envelope_def)
qed

text \<open>
  In mock mode on the generator's sample file, both connectors count three markets; without
  the file, each counts the one market of its inline fallback.
\<close>

theorem sync_data_success_count_witness:
  "kalshi_mock_mode mock_kalshi \<and> polymarket_mock_mode mock_polymarket
   \<and> (\<exists>result. fst (kalshi_sync_data mock_kalshi sample_world) = Inr result
        \<and> py_item result ''status'' = Inr (JStr ''success'')
        \<and> py_item result ''markets_synced'' = Inr (JInt 3))
   \<and> (\<exists>result. fst (polymarket_sync_data mock_polymarket (world_at FileNotFound jan_2024))
                   = Inr result
        \<and> py_item result ''status'' = Inr (JStr ''success'')
        \<and> py_item result ''markets_synced'' = Inr (JInt 1))"
proof -
  have k: "kalshi_mock_mode mock_kalshi"
    by (simp add: mock_kalshi_def kalshi_init_def test_environ_def opt_str_def)
  have p: "polymarket_mock_mode mock_polymarket"
    by (simp add: mock_polymarket_def polymarket_init_def test_environ_def opt_str_def)
  have nk: "(case fst (kalshi_get_markets mock_kalshi sample_world) of
               Inr ms \<Rightarrow> length ms | Inl e \<Rightarrow> 0) = 3"
    using kalshi_sample_world_ids[of mock_kalshi] by (auto dest: map_eq_imp_length_eq)
  have np: "(case fst (polymarket_get_markets mock_polymarket (world_at FileNotFound jan_2024)) of
               Inr ms \<Rightarrow> length ms | Inl e \<Rightarrow> 0) = 1"
    by (simp add: polymarket_defs py_defs world_defs)
  from sync_data_success_count[of mock_kalshi sample_world mock_polymarket] nk
  have a: "\<exists>result. fst (kalshi_sync_data mock_kalshi sample_world) = Inr result
        \<and> py_item result ''status'' = Inr (JStr ''success'')
        \<and> py_item result ''markets_synced'' = Inr (JInt 3)"
    by auto
  from sync_data_success_count[of mock_kalshi "world_at FileNotFound jan_2024" mock_polymarket] np
  have b: "\<exists>result. fst (polymarket_sync_data mock_polymarket (world_at FileNotFound jan_2024))
                   = Inr result
        \<and> py_item result ''status'' = Inr (JStr ''success'')
        \<and> py_item result ''markets_synced'' = Inr (JInt 1)"
    by auto
  from k p a b show ?thesis by blast
qed

section \<open>Two runs that differ in the clock only\<close>

lemma find_market_result: "find_market ms market_id = Inr r \<Longrightarrow> r = JNull \<or> r \<in> set ms"
  by (induction ms) (auto split: sum.splits if_splits)

lemma kalshi_normalize_truthy:
  "kalshi_normalize_market raw w = (Inr out, w') \<Longrightarrow> truthy out"
  by (cases raw) (auto simp: kalshi_normalize_market_def py_defs)

lemma polymarket_normalize_truthy:
  "polymarket_normalize_market raw w = (Inr out, w') \<Longrightarrow> truthy out"
  by (cases raw) (auto simp: polymarket_normalize_market_def py_defs split: sum.splits)

lemma kalshi_get_markets_truthy:
  assumes "kalshi_get_markets self w = (Inr ms, w')"
  shows "\<forall>m\<in>set ms. truthy m"
proof (cases "kalshi_sample_markets w")
  case (Pair r w1)
  show ?thesis
  proof (cases r)
    case (Inl e)
    with Pair assms show ?thesis by (simp add: kalshi_get_markets_cases)
  next
    case (Inr ms1)
    with Pair assms have eq: "ms1 = ms" by (simp add: kalshi_get_markets_cases)
    from Pair Inr obtain xs w0 where "py_map kalshi_normalize_market xs w0 = (Inr ms1, w1)"
      unfolding kalshi_sample_markets_def
      by (auto simp: py_bind_def py_lift_def split: prod.splits sum.splits)
    then have "\<forall>m\<in>set ms1. truthy m"
      by (rule py_map_all) (rule kalshi_normalize_truthy)
    with eq show ?thesis by simp
  qed
qed

lemma polymarket_get_markets_truthy:
  assumes "polymarket_get_markets self w = (Inr ms, w')"
  shows "\<forall>m\<in>set ms. truthy m"
proof (cases "polymarket_sample_markets w")
  case (Pair r w1)
  show ?thesis
  proof (cases r)
    case (Inl e)
    with Pair assms show ?thesis by (simp add: polymarket_get_markets_cases)
  next
    case (Inr ms1)
    with Pair assms have eq: "ms1 = ms" by (simp add: polymarket_get_markets_cases)
    from Pair Inr obtain xs w0 where "py_map polymarket_normalize_market xs w0 = (Inr ms1, w1)"
      unfolding polymarket_sample_markets_def
      by (auto simp: py_bind_def py_lift_def split: prod.splits sum.splits)
    then have "\<forall>m\<in>set ms1. truthy m"
      by (rule py_map_all) (rule polymarket_normalize_truthy)
    with eq show ?thesis by simp
  qed
qed

lemma kalshi_get_market_cases:
  "kalshi_get_market self market_id w =
     (case kalshi_get_markets self w of
        (Inr ms, w') \<Rightarrow>
          (case find_market ms market_id of Inl e \<Rightarrow> (Inr JNull, w') | Inr m \<Rightarrow> (Inr m, w'))
      | (Inl e, w') \<Rightarrow> (Inr JNull, w'))"
  by (simp add: kalshi_get_market_def py_defs split: prod.splits sum.splits)

lemma polymarket_get_market_cases:
  "polymarket_get_market self market_id w =
     (case polymarket_get_markets self w of
        (Inr ms, w') \<Rightarrow>
          (case find_market ms market_id of Inl e \<Rightarrow> (Inr JNull, w') | Inr m \<Rightarrow> (Inr m, w'))
      | (Inl e, w') \<Rightarrow> (Inr JNull, w'))"
  by (simp add: polymarket_get_market_def py_defs split: prod.splits sum.splits)

lemma kalshi_get_market_total:
  "\<exists>r. fst (kalshi_get_market self market_id w) = Inr r \<and> (r = JNull \<or> truthy r)"
proof -
  obtain ms w' where run: "kalshi_get_markets self w = (Inr ms, w')"
    using kalshi_get_markets_total[of self w] by (cases "kalshi_get_markets self w") auto
  from kalshi_get_markets_truthy[OF run] find_market_result[of ms market_id] run
  show ?thesis
    by (cases "find_market ms market_id") (auto simp: kalshi_get_market_cases)
qed

lemma polymarket_get_market_total:
  "\<exists>r. fst (polymarket_get_market self market_id w) = Inr r \<and> (r = JNull \<or> truthy r)"
proof -
  obtain ms w' where run: "polymarket_get_markets self w = (Inr ms, w')"
    using polymarket_get_markets_total[of self w]
    by (cases "polymarket_get_markets self w") auto
  from polymarket_get_markets_truthy[OF run] find_market_result[of ms market_id] run
  show ?thesis
    by (cases "find_market ms market_id") (auto simp: polymarket_get_market_cases)
qed

lemma kalshi_get_market_keeps:
  "consulted (snd (kalshi_get_market self market_id w)) = consulted w
   \<and> sample_file (snd (kalshi_get_market self market_id w)) = sample_file w"
  using kalshi_get_markets_keeps[of self w]
  by (auto simp: kalshi_get_market_cases split: prod.splits sum.splits)

lemma polymarket_get_market_keeps:
  "consulted (snd (polymarket_get_market self market_id w)) = consulted w
   \<and> sample_file (snd (polymarket_get_market self market_id w)) = sample_file w"
  using polymarket_get_markets_keeps[of self w]
  by (auto simp: polymarket_get_market_cases split: prod.splits sum.splits)

text \<open>
  What a call of \<open>get_markets\<close> or \<open>get_market\<close> returns and leaves, as a function of the
  clock: records that do not depend on the clock, some of them stamped with a reading,
  and the clock advanced by a number of readings that the sample file fixes.
\<close>

lemma advance_0: "advance 0 w = w"
  by (simp add: advance_def)

lemma advance_advance: "advance m (advance n w) = advance (n + m) w"
  by (simp add: advance_def ac_simps)

lemma advance_simps:
  "sample_file (advance n w) = sample_file w"
  "consulted (advance n w) = consulted w"
  "clock (advance n w) = (\<lambda>i. clock w (i + n))"
  by (simp_all add: advance_def)

lemma tick_advance: "w\<lparr>clock := (\<lambda>n. clock w (Suc n))\<rparr> = advance 1 w"
  by (simp add: advance_def)

lemma map_of_stamped:
  "k' \<noteq> k \<Longrightarrow>
   map_of (map (\<lambda>kv. if fst kv = k then (k, JStr (isoformat t)) else kv) kvs) k' = map_of kvs k'"
  by (induction kvs) auto

lemma py_item_stamped: "k' \<noteq> k \<Longrightarrow> py_item (stamped k t r) k' = py_item r k'"
  by (cases r) (simp_all add: map_of_stamped)

lemma py_get_stamped: "k' \<noteq> k \<Longrightarrow> py_get (stamped k t r) k' d = py_get r k' d"
  by (cases r) (simp_all add: dict_get_def map_of_stamped no_attribute_def)

lemma truthy_stamped: "truthy (stamped k t r) = truthy r"
  by (cases r) simp_all

lemma length_stamped_markets: "length (stamped_markets ts c) = length ts"
  by (induction ts arbitrary: c) auto

lemma py_map_stamps:
  assumes step: "\<And>x. x \<in> set xs \<Longrightarrow>
      (\<exists>e. \<forall>w. f x w = (Inl e, w))
      \<or> (\<exists>s r. \<forall>w. f x w = (Inr (if s then stamped ''created_at'' (clock w 0) r else r),
                               advance 1 w))"
  shows "\<exists>n. (\<exists>e. \<forall>w. py_map f xs w = (Inl e, advance n w))
           \<or> (\<exists>ts. \<forall>w. py_map f xs w = (Inr (stamped_markets ts (clock w)), advance n w))"
  using step
proof (induction xs)
  case Nil
  have "\<forall>w. py_map f [] w = (Inr (stamped_markets [] (clock w)), advance 0 w)"
    by (simp add: py_return_def advance_0)
  then show ?case by blast
next
  case (Cons x xs)
  from Cons.prems[of x] consider
    (fails) e where "\<forall>w. f x w = (Inl e, w)"
    | (returns) s r where
        "\<forall>w. f x w = (Inr (if s then stamped ''created_at'' (clock w 0) r else r), advance 1 w)"
    by auto
  then show ?case
  proof cases
    case fails
    then have "\<forall>w. py_map f (x # xs) w = (Inl e, advance 0 w)"
      by (simp add: py_bind_def advance_0)
    then show ?thesis by blast
  next
    case returns
    from Cons.IH Cons.prems obtain n where
      rest: "(\<exists>e. \<forall>w. py_map f xs w = (Inl e, advance n w))
           \<or> (\<exists>ts. \<forall>w. py_map f xs w = (Inr (stamped_markets ts (clock w)), advance n w))"
      by auto
    from rest show ?thesis
    proof
      assume "\<exists>e. \<forall>w. py_map f xs w = (Inl e, advance n w)"
      then obtain e where "\<forall>w. py_map f xs w = (Inl e, advance n w)" ..
      with returns have "\<forall>w. py_map f (x # xs) w = (Inl e, advance (1 + n) w)"
        by (simp add: py_bind_def advance_advance)
      then show ?thesis by blast
    next
      assume "\<exists>ts. \<forall>w. py_map f xs w = (Inr (stamped_markets ts (clock w)), advance n w)"
      then obtain ts where
        "\<forall>w. py_map f xs w = (Inr (stamped_markets ts (clock w)), advance n w)" ..
      with returns
      have "\<forall>w. py_map f (x # xs) w
              = (Inr (stamped_markets ((s, r) # ts) (clock w)), advance (1 + n) w)"
        by (simp add: py_bind_def py_return_def advance_advance advance_simps)
      then show ?thesis by blast
    qed
  qed
qed

lemma kalshi_normalize_stamps:
  "(\<exists>e. \<forall>w. kalshi_normalize_market raw w = (Inl e, w))
   \<or> (\<exists>s r. \<forall>w. kalshi_normalize_market raw w
                 = (Inr (if s then stamped ''created_at'' (clock w 0) r else r), advance 1 w))"
proof (cases raw)
  case (JDict kvs)
  have "\<forall>w. kalshi_normalize_market raw w
          = (Inr (if map_of kvs ''created_at'' = None
                  then stamped ''created_at'' (clock w 0)
                         (projr (fst (kalshi_normalize_market raw w0)))
                  else projr (fst (kalshi_normalize_market raw w0))), advance 1 w)"
    by (simp add: JDict kalshi_normalize_market_def py_defs dict_get_def advance_def
             split: option.splits)
  then show ?thesis by blast
qed (simp_all add: kalshi_normalize_market_def py_lift_def)

lemma polymarket_normalize_stamps:
  "(\<exists>e. \<forall>w. polymarket_normalize_market raw w = (Inl e, w))
   \<or> (\<exists>s r. \<forall>w. polymarket_normalize_market raw w
                 = (Inr (if s then stamped ''created_at'' (clock w 0) r else r), advance 1 w))"
proof (cases raw)
  case (JDict kvs)
  show ?thesis
  proof (cases "polymarket_category_default kvs")
    case (Inl e)
    then have "\<forall>w. polymarket_normalize_market raw w = (Inl e, w)"
      by (simp add: JDict polymarket_normalize_market_def py_defs)
    then show ?thesis by blast
  next
    case (Inr c)
    then have "\<forall>w. polymarket_normalize_market raw w
          = (Inr (if map_of kvs ''created_at'' = None
                  then stamped ''created_at'' (clock w 0)
                         (projr (fst (polymarket_normalize_market raw w0)))
                  else projr (fst (polymarket_normalize_market raw w0))), advance 1 w)"
      by (simp add: JDict polymarket_normalize_market_def py_defs dict_get_def advance_def
               split: option.splits)
    then show ?thesis by blast
  qed
qed (simp_all add: polymarket_normalize_market_def py_lift_def)

lemma kalshi_sample_markets_stamps:
  "\<exists>n. (\<exists>e. \<forall>w. sample_file w = f \<longrightarrow> kalshi_sample_markets w = (Inl e, advance n w))
       \<or> (\<exists>ts. \<forall>w. sample_file w = f \<longrightarrow>
                 kalshi_sample_markets w = (Inr (stamped_markets ts (clock w)), advance n w))"
proof -
  have fails: "?thesis" if "\<forall>w. sample_file w = f \<longrightarrow> kalshi_sample_markets w = (Inl e, w)" for e
    using that advance_0 by metis
  have data: "?thesis"
    if load: "\<forall>w. sample_file w = f \<longrightarrow> kalshi_load_sample_data w = (Inr j, w)" for j
  proof (cases "py_get j ''markets'' (JList [])")
    case (Inl e)
    with load show ?thesis
      by (intro fails[of e]) (simp add: kalshi_sample_markets_def py_bind_def py_lift_def)
  next
    case (Inr v)
    show ?thesis
    proof (cases "py_iter v")
      case (Inl e)
      with load Inr show ?thesis
        by (intro fails[of e]) (simp add: kalshi_sample_markets_def py_bind_def py_lift_def)
    next
      case xs: (Inr xs)
      from load Inr xs have run: "\<forall>w. sample_file w = f \<longrightarrow>
          kalshi_sample_markets w = py_map kalshi_normalize_market xs w"
        by (simp add: kalshi_sample_markets_def py_bind_def py_lift_def)
      from py_map_stamps[of xs kalshi_normalize_market, OF kalshi_normalize_stamps]
      obtain n where
        "(\<exists>e. \<forall>w. py_map kalshi_normalize_market xs w = (Inl e, advance n w))
         \<or> (\<exists>ts. \<forall>w. py_map kalshi_normalize_market xs w
                     = (Inr (stamped_markets ts (clock w)), advance n w))"
        by blast
      with run show ?thesis by metis
    qed
  qed
  show ?thesis
  proof (cases f)
    case FileNotFound
    then show ?thesis by (intro data[of kalshi_fallback]) (simp add: kalshi_load_sample_data_def)
  next
    case (LoadFails e)
    then show ?thesis
      by (intro fails[of e])
         (simp add: kalshi_sample_markets_def kalshi_load_sample_data_def py_bind_def)
  next
    case (Loaded j)
    then show ?thesis by (intro data[of j]) (simp add: kalshi_load_sample_data_def)
  qed
qed

lemma kalshi_get_markets_stamps:
  "\<exists>ts n. \<forall>w. sample_file w = f \<longrightarrow>
     kalshi_get_markets kc w = (Inr (stamped_markets ts (clock w)), advance n w)"
proof -
  from kalshi_sample_markets_stamps[of f] obtain n where
    "(\<exists>e. \<forall>w. sample_file w = f \<longrightarrow> kalshi_sample_markets w = (Inl e, advance n w))
     \<or> (\<exists>ts. \<forall>w. sample_file w = f \<longrightarrow>
               kalshi_sample_markets w = (Inr (stamped_markets ts (clock w)), advance n w))"
    ..
  then show ?thesis
  proof
    assume "\<exists>e. \<forall>w. sample_file w = f \<longrightarrow> kalshi_sample_markets w = (Inl e, advance n w)"
    then have "\<forall>w. sample_file w = f \<longrightarrow>
        kalshi_get_markets kc w = (Inr (stamped_markets [] (clock w)), advance n w)"
      by (auto simp: kalshi_get_markets_cases)
    then show ?thesis by blast
  next
    assume "\<exists>ts. \<forall>w. sample_file w = f \<longrightarrow>
               kalshi_sample_markets w = (Inr (stamped_markets ts (clock w)), advance n w)"
    then obtain ts where "\<forall>w. sample_file w = f \<longrightarrow>
        kalshi_sample_markets w = (Inr (stamped_markets ts (clock w)), advance n w)"
      ..
    then have "\<forall>w. sample_file w = f \<longrightarrow>
        kalshi_get_markets kc w = (Inr (stamped_markets ts (clock w)), advance n w)"
      by (simp add: kalshi_get_markets_cases)
    then show ?thesis by blast
  qed
qed

lemma find_market_stamps:
  "(\<exists>e. \<forall>c. find_market (stamped_markets ts c) market_id = Inl e)
   \<or> (\<exists>s r i. \<forall>c. find_market (stamped_markets ts c) market_id
                    = Inr (if s then stamped ''created_at'' (c i) r else r))"
proof (induction ts)
  case Nil
  have "\<forall>c. find_market (stamped_markets [] c) market_id
          = Inr (if False then stamped ''created_at'' (c 0) JNull else JNull)"
    by simp
  then show ?case by blast
next
  case (Cons t ts)
  obtain s r where t: "t = (s, r)" by (cases t)
  have item: "py_item (if s then stamped ''created_at'' t' r else r) ''id'' = py_item r ''id''"
    for t'
    by (simp add: py_item_stamped)
  show ?case
  proof (cases "py_item r ''id''")
    case (Inl e)
    with item have "\<forall>c. find_market (stamped_markets (t # ts) c) market_id = Inl e"
      by (simp add: t)
    then show ?thesis by blast
  next
    case (Inr v)
    show ?thesis
    proof (cases "v = JStr market_id")
      case True
      with item Inr have "\<forall>c. find_market (stamped_markets (t # ts) c) market_id
          = Inr (if s then stamped ''created_at'' (c 0) r else r)"
        by (simp add: t)
      then show ?thesis by blast
    next
      case False
      with item Inr have step: "\<forall>c. find_market (stamped_markets (t # ts) c) market_id
          = find_market (stamped_markets ts (\<lambda>n. c (Suc n))) market_id"
        by (simp add: t)
      from Cons.IH show ?thesis
      proof
        assume "\<exists>e. \<forall>c. find_market (stamped_markets ts c) market_id = Inl e"
        with step show ?thesis by auto
      next
        assume "\<exists>s r i. \<forall>c. find_market (stamped_markets ts c) market_id
                    = Inr (if s then stamped ''created_at'' (c i) r else r)"
        then obtain s' r' i where
          "\<forall>c. find_market (stamped_markets ts c) market_id
                    = Inr (if s' then stamped ''created_at'' (c i) r' else r')"
          by blast
        with step have "\<forall>c. find_market (stamped_markets (t # ts) c) market_id
                    = Inr (if s' then stamped ''created_at'' (c (Suc i)) r' else r')"
          by simp
        then show ?thesis by blast
      qed
    qed
  qed
qed

lemma kalshi_get_market_stamps:
  "\<exists>s r i n. \<forall>w. sample_file w = f \<longrightarrow>
     kalshi_get_market kc market_id w
       = (Inr (if s then stamped ''created_at'' (clock w i) r else r), advance n w)"
proof -
  from kalshi_get_markets_stamps[of f kc] obtain ts n where
    ms: "\<forall>w. sample_file w = f \<longrightarrow>
       kalshi_get_markets kc w = (Inr (stamped_markets ts (clock w)), advance n w)"
    by blast
  from find_market_stamps[of ts market_id] show ?thesis
  proof
    assume "\<exists>e. \<forall>c. find_market (stamped_markets ts c) market_id = Inl e"
    with ms have "\<forall>w. sample_file w = f \<longrightarrow>
       kalshi_get_market kc market_id w
         = (Inr (if False then stamped ''created_at'' (clock w 0) JNull else JNull), advance n w)"
      by (auto simp: kalshi_get_market_cases)
    then show ?thesis by blast
  next
    assume "\<exists>s r i. \<forall>c. find_market (stamped_markets ts c) market_id
                    = Inr (if s then stamped ''created_at'' (c i) r else r)"
    then obtain s r i where
      "\<forall>c. find_market (stamped_markets ts c) market_id
                    = Inr (if s then stamped ''created_at'' (c i) r else r)"
      by blast
    with ms have "\<forall>w. sample_file w = f \<longrightarrow>
       kalshi_get_market kc market_id w
         = (Inr (if s then stamped ''created_at'' (clock w i) r else r), advance n w)"
      by (simp add: kalshi_get_market_cases)
    then show ?thesis by blast
  qed
qed

lemma polymarket_sample_markets_stamps:
  "\<exists>n. (\<exists>e. \<forall>w. sample_file w = f \<longrightarrow> polymarket_sample_markets w = (Inl e, advance n w))
       \<or> (\<exists>ts. \<forall>w. sample_file w = f \<longrightarrow>
                 polymarket_sample_markets w = (Inr (stamped_markets ts (clock w)), advance n w))"
proof -
  have fails: "?thesis" if "\<forall>w. sample_file w = f \<longrightarrow> polymarket_sample_markets w = (Inl e, w)" for e
    using that advance_0 by metis
  have data: "?thesis"
    if load: "\<forall>w. sample_file w = f \<longrightarrow> polymarket_load_sample_data w = (Inr j, w)" for j
  proof (cases "py_get j ''markets'' (JList [])")
    case (Inl e)
    with load show ?thesis
      by (intro fails[of e]) (simp add: polymarket_sample_markets_def py_bind_def py_lift_def)
  next
    case (Inr v)
    show ?thesis
    proof (cases "py_iter v")
      case (Inl e)
      with load Inr show ?thesis
        by (intro fails[of e]) (simp add: polymarket_sample_markets_def py_bind_def py_lift_def)
    next
      case xs: (Inr xs)
      from load Inr xs have run: "\<forall>w. sample_file w = f \<longrightarrow>
          polymarket_sample_markets w = py_map polymarket_normalize_market xs w"
        by (simp add: polymarket_sample_markets_def py_bind_def py_lift_def)
      from py_map_stamps[of xs polymarket_normalize_market, OF polymarket_normalize_stamps]
      obtain n where
        "(\<exists>e. \<forall>w. py_map polymarket_normalize_market xs w = (Inl e, advance n w))
         \<or> (\<exists>ts. \<forall>w. py_map polymarket_normalize_market xs w
                     = (Inr (stamped_markets ts (clock w)), advance n w))"
        by blast
      with run show ?thesis by metis
    qed
  qed
  show ?thesis
  proof (cases f)
    case FileNotFound
    then show ?thesis by (intro data[of polymarket_fallback]) (simp add: polymarket_load_sample_data_def)
  next
    case (LoadFails e)
    then show ?thesis
      by (intro fails[of e])
         (simp add: polymarket_sample_markets_def polymarket_load_sample_data_def py_bind_def)
  next
    case (Loaded j)
    then show ?thesis by (intro data[of j]) (simp add: polymarket_load_sample_data_def)
  qed
qed

lemma polymarket_get_markets_stamps:
  "\<exists>ts n. \<forall>w. sample_file w = f \<longrightarrow>
     polymarket_get_markets pc w = (Inr (stamped_markets ts (clock w)), advance n w)"
proof -
  from polymarket_sample_markets_stamps[of f] obtain n where
    "(\<exists>e. \<forall>w. sample_file w = f \<longrightarrow> polymarket_sample_markets w = (Inl e, advance n w))
     \<or> (\<exists>ts. \<forall>w. sample_file w = f \<longrightarrow>
               polymarket_sample_markets w = (Inr (stamped_markets ts (clock w)), advance n w))"
    ..
  then show ?thesis
  proof
    assume "\<exists>e. \<forall>w. sample_file w = f \<longrightarrow> polymarket_sample_markets w = (Inl e, advance n w)"
    then have "\<forall>w. sample_file w = f \<longrightarrow>
        polymarket_get_markets pc w = (Inr (stamped_markets [] (clock w)), advance n w)"
      by (auto simp: polymarket_get_markets_cases)
    then show ?thesis by blast
  next
    assume "\<exists>ts. \<forall>w. sample_file w = f \<longrightarrow>
               polymarket_sample_markets w = (Inr (stamped_markets ts (clock w)), advance n w)"
    then obtain ts where "\<forall>w. sample_file w = f \<longrightarrow>
        polymarket_sample_markets w = (Inr (stamped_markets ts (clock w)), advance n w)"
      ..
    then have "\<forall>w. sample_file w = f \<longrightarrow>
        polymarket_get_markets pc w = (Inr (stamped_markets ts (clock w)), advance n w)"
      by (simp add: polymarket_get_markets_cases)
    then show ?thesis by blast
  qed
qed

lemma polymarket_get_market_stamps:
  "\<exists>s r i n. \<forall>w. sample_file w = f \<longrightarrow>
     polymarket_get_market pc market_id w
       = (Inr (if s then stamped ''created_at'' (clock w i) r else r), advance n w)"
proof -
  from polymarket_get_markets_stamps[of f pc] obtain ts n where
    ms: "\<forall>w. sample_file w = f \<longrightarrow>
       polymarket_get_markets pc w = (Inr (stamped_markets ts (clock w)), advance n w)"
    by blast
  from find_market_stamps[of ts market_id] show ?thesis
  proof
    assume "\<exists>e. \<forall>c. find_market (stamped_markets ts c) market_id = Inl e"
    with ms have "\<forall>w. sample_file w = f \<longrightarrow>
       polymarket_get_market pc market_id w
         = (Inr (if False then stamped ''created_at'' (clock w 0) JNull else JNull), advance n w)"
      by (auto simp: polymarket_get_market_cases)
    then show ?thesis by blast
  next
    assume "\<exists>s r i. \<forall>c. find_market (stamped_markets ts c) market_id
                    = Inr (if s then stamped ''created_at'' (c i) r else r)"
    then obtain s r i where
      "\<forall>c. find_market (stamped_markets ts c) market_id
                    = Inr (if s then stamped ''created_at'' (c i) r else r)"
      by blast
    with ms have "\<forall>w. sample_file w = f \<longrightarrow>
       polymarket_get_market pc market_id w
         = (Inr (if s then stamped ''created_at'' (clock w i) r else r), advance n w)"
      by (simp add: polymarket_get_market_cases)
    then show ?thesis by blast
  qed
qed

lemma stamped_JNull: "stamped k t r = JNull \<longleftrightarrow> r = JNull"
  by (cases r) simp_all

text \<open>Whether a connector has a market depends on the sample file only.\<close>

lemma kalshi_get_market_none_two_worlds:
  assumes "sample_file w = sample_file w'"
    and "fst (kalshi_get_market kc market_id w) = Inr JNull"
  shows "fst (kalshi_get_market kc market_id w') = Inr JNull"
proof -
  from kalshi_get_market_stamps[of "sample_file w" kc market_id] obtain s r i n where
    m: "\<forall>v. sample_file v = sample_file w \<longrightarrow>
          kalshi_get_market kc market_id v
            = (Inr (if s then stamped ''created_at'' (clock v i) r else r), advance n v)"
    by blast
  from m[rule_format, of w] assms(2) have "r = JNull"
    by (simp add: stamped_JNull split: if_splits)
  with m[rule_format, of w'] assms(1) show ?thesis
    by simp
qed

lemma polymarket_get_market_none_two_worlds:
  assumes "sample_file w = sample_file w'"
    and "fst (polymarket_get_market pc market_id w) = Inr JNull"
  shows "fst (polymarket_get_market pc market_id w') = Inr JNull"
proof -
  from polymarket_get_market_stamps[of "sample_file w" pc market_id] obtain s r i n where
    m: "\<forall>v. sample_file v = sample_file w \<longrightarrow>
          polymarket_get_market pc market_id v
            = (Inr (if s then stamped ''created_at'' (clock v i) r else r), advance n v)"
    by blast
  from m[rule_format, of w] assms(2) have "r = JNull"
    by (simp add: stamped_JNull split: if_splits)
  with m[rule_format, of w'] assms(1) show ?thesis
    by simp
qed

section \<open>The single-market handler\<close>

text \<open>
  C3. When neither connector has a record for \<open>market_id\<close> (each \<open>get_market\<close> returns
  \<open>None\<close>), the handler of \<open>GET /api/v1/markets/{id}\<close> raises the \<open>HTTPException\<close> with
  status 404. In every world the handler calls the Kalshi connector first; it calls the
  Polymarket connector after that exactly when Kalshi returned \<open>None\<close>.
\<close>

theorem route_get_market_not_found:
  "(fst (kalshi_get_market kc market_id w) = Inr JNull \<longrightarrow>
    fst (polymarket_get_market pc market_id w) = Inr JNull \<longrightarrow>
      fst (route_get_market kc pc market_id w) = Inl (HTTPException 404 ''Market not found''))
   \<and> (\<exists>k. fst (kalshi_get_market kc market_id w) = Inr k
        \<and> consulted (snd (route_get_market kc pc market_id w)) =
            consulted w @ (if k = JNull then [''kalshi'', ''polymarket''] else [''kalshi'']))"
proof -
  let ?w0 = "w\<lparr>consulted := consulted w @ [''kalshi'']\<rparr>"
  have f0: "sample_file w = sample_file ?w0" "sample_file ?w0 = sample_file w" by simp_all
  obtain k where k: "fst (kalshi_get_market kc market_id w) = Inr k"
    using kalshi_get_market_total[of kc market_id w] by blast
  obtain k0 w1 where run0: "kalshi_get_market kc market_id ?w0 = (Inr k0, w1)"
    and k0: "k0 = JNull \<or> truthy k0"
    using kalshi_get_market_total[of kc market_id ?w0]
    by (cases "kalshi_get_market kc market_id ?w0") auto
  have w1: "consulted w1 = consulted w @ [''kalshi'']" "sample_file w1 = sample_file w"
    using kalshi_get_market_keeps[of kc market_id ?w0] run0 by simp_all
  have same: "k0 = JNull \<longleftrightarrow> k = JNull"
    using kalshi_get_market_none_two_worlds[OF f0(1), of kc market_id]
      kalshi_get_market_none_two_worlds[OF f0(2), of kc market_id] k run0
    by auto
  show ?thesis
  proof (cases "k0 = JNull")
    case False
    with k0 have t: "truthy k0" by simp
    from False same have "k \<noteq> JNull" by simp
    with k run0 t w1 show ?thesis
      by (simp add: route_get_market_def py_defs)
  next
    case True
    let ?w1 = "w1\<lparr>consulted := consulted w1 @ [''polymarket'']\<rparr>"
    have f1: "sample_file w = sample_file ?w1" using w1 by simp
    obtain p0 w2 where run1: "polymarket_get_market pc market_id ?w1 = (Inr p0, w2)"
      and p0: "p0 = JNull \<or> truthy p0"
      using polymarket_get_market_total[of pc market_id ?w1]
      by (cases "polymarket_get_market pc market_id ?w1") auto
    have w2: "consulted w2 = consulted w @ [''kalshi'', ''polymarket'']"
      using polymarket_get_market_keeps[of pc market_id ?w1] run1 w1 by simp
    have none: "fst (polymarket_get_market pc market_id w) = Inr JNull \<Longrightarrow> p0 = JNull"
      using polymarket_get_market_none_two_worlds[OF f1, of pc market_id] run1 by simp
    from True same have kn: "k = JNull" by simp
    show ?thesis
    proof (cases "p0 = JNull")
      case pn: True
      with True kn k run0 run1 w2 show ?thesis
        by (simp add: route_get_market_def py_defs)
    next
      case pf: False
      with p0 have "truthy p0" by simp
      with pf none True kn k run0 run1 w2 show ?thesis
        by (auto simp: route_get_market_def py_defs)
    qed
  qed
qed

text \<open>The request of the test suite: an unknown id, no sample file, no credentials.\<close>

theorem route_get_market_not_found_witness:
  "fst (kalshi_get_market mock_kalshi ''NONEXISTENT'' (world_at FileNotFound jan_2024)) = Inr JNull
   \<and> fst (polymarket_get_market mock_polymarket ''NONEXISTENT'' (world_at FileNotFound jan_2024))
       = Inr JNull
   \<and> fst (route_get_market mock_kalshi mock_polymarket ''NONEXISTENT''
             (world_at FileNotFound jan_2024)) = Inl (HTTPException 404 ''Market not found'')
   \<and> consulted (snd (route_get_market mock_kalshi mock_polymarket ''NONEXISTENT''
             (world_at FileNotFound jan_2024))) = [''kalshi'', ''polymarket'']"
proof -
  have a: "fst (kalshi_get_market mock_kalshi ''NONEXISTENT'' (world_at FileNotFound jan_2024))
             = Inr JNull"
    by (simp add: kalshi_defs py_defs world_defs)
  have b: "fst (polymarket_get_market mock_polymarket ''NONEXISTENT''
                  (world_at FileNotFound jan_2024)) = Inr JNull"
    by (simp add: polymarket_defs py_defs world_defs)
  from route_get_market_not_found
         [of mock_kalshi "''NONEXISTENT''" "world_at FileNotFound jan_2024" mock_polymarket] a b
  show ?thesis by (simp add: world_at_def)
qed

section \<open>The shape of the records\<close>

lemma sum_map_all:
  "sum_map f xs = Inr ys \<Longrightarrow> (\<And>x y. f x = Inr y \<Longrightarrow> P y) \<Longrightarrow> \<forall>y\<in>set ys. P y"
  by (induction xs arbitrary: ys) (auto split: sum.splits)

lemma kalshi_price_shape:
  "\<exists>r. fst (kalshi_get_market_price kc market_id w) = Inr r
     \<and> (r = JNull \<or> keys r = [''market_id'', ''timestamp'', ''outcomes''])"
proof -
  obtain m w1 where "kalshi_get_market kc market_id w = (Inr m, w1)"
    using kalshi_get_market_total[of kc market_id w]
    by (cases "kalshi_get_market kc market_id w") auto
  then show ?thesis
    by (cases "py_get m ''outcomes'' (JList [])")
       (simp_all add: kalshi_get_market_price_def py_defs)
qed

lemma polymarket_price_shape:
  "\<exists>r. fst (polymarket_get_market_price pc market_id w) = Inr r
     \<and> (r = JNull \<or> keys r = [''market_id'', ''timestamp'', ''outcomes''])"
proof -
  obtain m w1 where "polymarket_get_market pc market_id w = (Inr m, w1)"
    using polymarket_get_market_total[of pc market_id w]
    by (cases "polymarket_get_market pc market_id w") auto
  then show ?thesis
    by (cases "py_get m ''outcomes'' (JList [])")
       (simp_all add: polymarket_get_market_price_def py_defs)
qed

lemma kalshi_data_point_keys:
  "kalshi_data_point now i = Inr p \<Longrightarrow> keys p = [''timestamp'', ''price'', ''volume'']"
  by (auto simp: kalshi_data_point_def split: sum.splits)

lemma polymarket_data_point_keys:
  "polymarket_data_point now i = Inr p \<Longrightarrow> keys p = [''timestamp'', ''price'', ''volume'']"
  by (auto simp: polymarket_data_point_def split: sum.splits)

lemma kalshi_timeseries_shape:
  "\<exists>r. fst (kalshi_get_market_timeseries kc market_id start end' interval w) = Inr r
     \<and> (r = JNull
         \<or> keys r = [''market_id'', ''outcome_id'', ''interval'', ''data_points'']
           \<and> (\<exists>ps. py_item r ''data_points'' = Inr (JList ps)
                 \<and> (\<forall>p\<in>set ps. keys p = [''timestamp'', ''price'', ''volume''])))"
proof (cases "sum_map (kalshi_data_point (clock w 0)) [0 ..< 24]")
  case (Inl e)
  then show ?thesis by (simp add: kalshi_get_market_timeseries_def py_defs)
next
  case (Inr ps)
  then have "\<forall>p\<in>set ps. keys p = [''timestamp'', ''price'', ''volume'']"
    by (rule sum_map_all) (rule kalshi_data_point_keys)
  with Inr show ?thesis by (simp add: kalshi_get_market_timeseries_def py_defs)
qed

lemma polymarket_timeseries_shape:
  "\<exists>r. fst (polymarket_get_market_timeseries pc market_id start end' interval w) = Inr r
     \<and> (r = JNull
         \<or> keys r = [''market_id'', ''outcome_id'', ''interval'', ''data_points'']
           \<and> (\<exists>ps. py_item r ''data_points'' = Inr (JList ps)
                 \<and> (\<forall>p\<in>set ps. keys p = [''timestamp'', ''price'', ''volume''])))"
proof (cases "sum_map (polymarket_data_point (clock w 0)) [0 ..< 24]")
  case (Inl e)
  then show ?thesis by (simp add: polymarket_get_market_timeseries_def py_defs)
next
  case (Inr ps)
  then have "\<forall>p\<in>set ps. keys p = [''timestamp'', ''price'', ''volume'']"
    by (rule sum_map_all) (rule polymarket_data_point_keys)
  with Inr show ?thesis by (simp add: polymarket_get_market_timeseries_def py_defs)
qed

lemma kalshi_orderbook_shape:
  "\<exists>r. fst (kalshi_get_market_orderbook kc market_id depth w) = Inr r
     \<and> (r = JNull
         \<or> keys r = [''market_id'', ''outcome_id'', ''timestamp'', ''bids'', ''asks'', ''spread''])"
  by (simp add: kalshi_get_market_orderbook_def py_defs)

lemma polymarket_orderbook_shape:
  "\<exists>r. fst (polymarket_get_market_orderbook pc market_id depth w) = Inr r
     \<and> (r = JNull
         \<or> keys r = [''market_id'', ''outcome_id'', ''timestamp'', ''bids'', ''asks'', ''spread''])"
  by (simp add: polymarket_get_market_orderbook_def py_defs)

lemma kalshi_events_shape:
  "\<exists>evs. fst (kalshi_get_market_events kc market_id since limit w) = Inr evs
     \<and> (\<forall>ev\<in>set evs. keys ev = [''id'', ''market_id'', ''event_type'', ''timestamp'', ''data''])"
  by (simp add: kalshi_get_market_events_def py_defs)

lemma polymarket_events_shape:
  "\<exists>evs. fst (polymarket_get_market_events pc market_id since limit w) = Inr evs
     \<and> (\<forall>ev\<in>set evs. keys ev = [''id'', ''market_id'', ''event_type'', ''timestamp'', ''data''])"
  by (simp add: polymarket_get_market_events_def py_defs)














section \<open>Which records carry a provider tag\<close>




text \<open>
  Left open by C7 as amended: both connectors read the same sample file, so on the
  generator's file the Kalshi connector also returns the market that the file attributes
  to Polymarket. The single-market handler then answers a request for \<open>POLY-CRYPTO2024\<close>
  from Kalshi alone, with the tag \<open>kalshi\<close>.
\<close>

lemma kalshi_serves_polymarket_market:
  "consulted (snd (route_get_market mock_kalshi mock_polymarket ''POLY-CRYPTO2024'' sample_world))
     = [''kalshi'']
   \<and> (\<exists>resp m.
        fst (route_get_market mock_kalshi mock_polymarket ''POLY-CRYPTO2024'' sample_world)
          = Inr resp
        \<and> py_item resp ''data'' = Inr m
        \<and> py_item m ''id'' = Inr (JStr ''POLY-CRYPTO2024'')
        \<and> py_item m ''provider'' = Inr (JStr ''kalshi''))"
  by (simp add: route_defs kalshi_defs polymarket_defs py_defs world_defs)


section \<open>Errors inside the connectors\<close>

lemmas clock_defs = isoformat_def date_string_def time_string_def fraction_string_def
  civil_from_days_def civil_of_era_def civil_of_def month_index_def day_of_year_def
  year_of_era_def pad2_def pad4_def pad6_def digit_def jan_2024_def

lemma isoformat_jan_2024: "isoformat jan_2024 = ''2024-01-01T00:00:00''"
  by (simp add: clock_defs)

lemma isoformat_jan_2024_1s: "isoformat (jan_2024 + 1000000) = ''2024-01-01T00:00:01''"
  by (simp add: clock_defs)

text \<open>
  C4, as stated, fails for \<open>sync_data\<close>: with a sample file that is no JSON,
  \<open>json.load\<close> raises inside \<open>get_markets\<close>, and \<open>sync_data\<close> returns neither \<open>None\<close>
  nor an empty dict but a report of a successful synchronisation of no markets.
\<close>

theorem sync_data_error_result_counterexample:
  "fst (kalshi_sample_markets broken_world)
     = Inl (Exc JSONDecodeError ''Expecting value: line 1 column 1 (char 0)'')
   \<and> fst (kalshi_sync_data mock_kalshi broken_world)
       = Inr (JDict [(''provider'', JStr ''kalshi''),
                     (''markets_synced'', JInt 0),
                     (''status'', JStr ''success''),
                     (''timestamp'', JStr ''2024-01-01T00:00:00'')])
   \<and> fst (kalshi_sync_data mock_kalshi broken_world) \<noteq> Inr JNull
   \<and> fst (kalshi_sync_data mock_kalshi broken_world) \<noteq> Inr (JDict [])"
  by (simp add: kalshi_defs py_defs world_defs isoformat_jan_2024)

lemma kalshi_failure_results:
  assumes "fst (kalshi_sample_markets w) = Inl e"
  shows "fst (kalshi_get_markets kc w) = Inr []
    \<and> fst (kalshi_get_market kc market_id w) = Inr JNull
    \<and> fst (kalshi_get_market_price kc market_id w) = Inr JNull
    \<and> (\<exists>ts. fst (kalshi_sync_data kc w) =
               Inr (JDict [(''provider'', JStr ''kalshi''),
                           (''markets_synced'', JInt 0),
                           (''status'', JStr ''success''),
                           (''timestamp'', JStr ts)]))"
proof -
  obtain w1 where "kalshi_sample_markets w = (Inl e, w1)"
    using assms by (cases "kalshi_sample_markets w") auto
  then have gm: "kalshi_get_markets kc w = (Inr [], w1)"
    by (simp add: kalshi_get_markets_cases)
  then have g: "kalshi_get_market kc market_id w = (Inr JNull, w1)"
    by (simp add: kalshi_get_market_cases)
  from gm g show ?thesis
    by (simp add: kalshi_get_market_price_def kalshi_sync_data_cases py_defs)
qed

lemma polymarket_failure_results:
  assumes "fst (polymarket_sample_markets w) = Inl e"
  shows "fst (polymarket_get_markets pc w) = Inr []
    \<and> fst (polymarket_get_market pc market_id w) = Inr JNull
    \<and> fst (polymarket_get_market_price pc market_id w) = Inr JNull
    \<and> (\<exists>ts. fst (polymarket_sync_data pc w) =
               Inr (JDict [(''provider'', JStr ''polymarket''),
                           (''markets_synced'', JInt 0),
                           (''status'', JStr ''success''),
                           (''timestamp'', JStr ts)]))"
proof -
  obtain w1 where "polymarket_sample_markets w = (Inl e, w1)"
    using assms by (cases "polymarket_sample_markets w") auto
  then have gm: "polymarket_get_markets pc w = (Inr [], w1)"
    by (simp add: polymarket_get_markets_cases)
  then have g: "polymarket_get_market pc market_id w = (Inr JNull, w1)"
    by (simp add: polymarket_get_market_cases)
  from gm g show ?thesis
    by (simp add: polymarket_get_market_price_def polymarket_sync_data_cases py_defs)
qed

lemma upt_24: "[0 ..< 24] = 0 # [1 ..< 24]"
  by (simp add: upt_conv_Cons)

lemma kalshi_timeseries_overflow:
  assumes "kalshi_mock_mode kc" and "minus_hours (clock w 0) 23 = Inl e"
  shows "fst (kalshi_get_market_timeseries kc market_id start end' interval w) = Inr JNull"
proof -
  from assms(2) have "sum_map (kalshi_data_point (clock w 0)) [0 ..< 24] = Inl e"
    by (simp add: upt_24 kalshi_data_point_def)
  with assms(1) show ?thesis
    by (simp add: kalshi_get_market_timeseries_def py_defs)
qed

lemma polymarket_timeseries_overflow:
  assumes "polymarket_mock_mode pc" and "minus_hours (clock w 0) 23 = Inl e"
  shows "fst (polymarket_get_market_timeseries pc market_id start end' interval w) = Inr JNull"
proof -
  from assms(2) have "sum_map (polymarket_data_point (clock w 0)) [0 ..< 24] = Inl e"
    by (simp add: upt_24 polymarket_data_point_def)
  with assms(1) show ?thesis
    by (simp add: polymarket_get_market_timeseries_def py_defs)
qed

text \<open>
  C4, amended. No method of either connector raises. When the data path of a connector
  raises (loading the sample file, reading its \<open>markets\<close>, normalising a market),
  \<open>get_markets\<close> returns the empty list, \<open>get_market\<close> and \<open>get_market_price\<close> return
  \<open>None\<close>, and \<open>sync_data\<close> returns a dict with \<open>markets_synced = 0\<close> and
  \<open>status = "success"\<close>, the same whatever the exception was. When the clock arithmetic
  of the mock time series overflows, \<open>get_market_timeseries\<close> returns \<open>None\<close>. The order
  book and the events have no step that raises.
\<close>

theorem connector_errors_become_results:
  "((\<exists>ms. fst (kalshi_get_markets kc w) = Inr ms)
    \<and> (\<exists>r. fst (kalshi_get_market kc market_id w) = Inr r)
    \<and> (\<exists>r. fst (kalshi_get_market_price kc market_id w) = Inr r)
    \<and> (\<exists>r. fst (kalshi_get_market_timeseries kc market_id start end' interval w) = Inr r)
    \<and> (\<exists>r. fst (kalshi_get_market_orderbook kc market_id depth w) = Inr r)
    \<and> (\<exists>evs. fst (kalshi_get_market_events kc market_id since limit w) = Inr evs)
    \<and> (\<exists>r. fst (kalshi_sync_data kc w) = Inr r))
   \<and> ((\<exists>ms. fst (polymarket_get_markets pc w) = Inr ms)
    \<and> (\<exists>r. fst (polymarket_get_market pc market_id w) = Inr r)
    \<and> (\<exists>r. fst (polymarket_get_market_price pc market_id w) = Inr r)
    \<and> (\<exists>r. fst (polymarket_get_market_timeseries pc market_id start end' interval w) = Inr r)
    \<and> (\<exists>r. fst (polymarket_get_market_orderbook pc market_id depth w) = Inr r)
    \<and> (\<exists>evs. fst (polymarket_get_market_events pc market_id since limit w) = Inr evs)
    \<and> (\<exists>r. fst (polymarket_sync_data pc w) = Inr r))
   \<and> (\<forall>e. fst (kalshi_sample_markets w) = Inl e \<longrightarrow>
         fst (kalshi_get_markets kc w) = Inr []
         \<and> fst (kalshi_get_market kc market_id w) = Inr JNull
         \<and> fst (kalshi_get_market_price kc market_id w) = Inr JNull
         \<and> (\<exists>ts. fst (kalshi_sync_data kc w) =
               Inr (JDict [(''provider'', JStr ''kalshi''),
                           (''markets_synced'', JInt 0),
                           (''status'', JStr ''success''),
                           (''timestamp'', JStr ts)])))
   \<and> (\<forall>e. fst (polymarket_sample_markets w) = Inl e \<longrightarrow>
         fst (polymarket_get_markets pc w) = Inr []
         \<and> fst (polymarket_get_market pc market_id w) = Inr JNull
         \<and> fst (polymarket_get_market_price pc market_id w) = Inr JNull
         \<and> (\<exists>ts. fst (polymarket_sync_data pc w) =
               Inr (JDict [(''provider'', JStr ''polymarket''),
                           (''markets_synced'', JInt 0),
                           (''status'', JStr ''success''),
                           (''timestamp'', JStr ts)])))
   \<and> (\<forall>e. kalshi_mock_mode kc \<longrightarrow> minus_hours (clock w 0) 23 = Inl e \<longrightarrow>
         fst (kalshi_get_market_timeseries kc market_id start end' interval w) = Inr JNull)
   \<and> (\<forall>e. polymarket_mock_mode pc \<longrightarrow> minus_hours (clock w 0) 23 = Inl e \<longrightarrow>
         fst (polymarket_get_market_timeseries pc market_id start end' interval w) = Inr JNull)"
proof (intro conjI allI impI)
  show "\<exists>ms. fst (kalshi_get_markets kc w) = Inr ms" by (rule kalshi_get_markets_total)
  show "\<exists>r. fst (kalshi_get_market kc market_id w) = Inr r"
    using kalshi_get_market_total[of kc market_id w] by blast
  show "\<exists>r. fst (kalshi_get_market_price kc market_id w) = Inr r"
    using kalshi_price_shape[of kc market_id w] by blast
  show "\<exists>r. fst (kalshi_get_market_timeseries kc market_id start end' interval w) = Inr r"
    using kalshi_timeseries_shape[of kc market_id start end' interval w] by blast
  show "\<exists>r. fst (kalshi_get_market_orderbook kc market_id depth w) = Inr r"
    using kalshi_orderbook_shape[of kc market_id depth w] by blast
  show "\<exists>evs. fst (kalshi_get_market_events kc market_id since limit w) = Inr evs"
    using kalshi_events_shape[of kc market_id since limit w] by blast
  show "\<exists>r. fst (kalshi_sync_data kc w) = Inr r"
    using kalshi_sync_data_success[of kc w] by blast
  show "\<exists>ms. fst (polymarket_get_markets pc w) = Inr ms" by (rule polymarket_get_markets_total)
  show "\<exists>r. fst (polymarket_get_market pc market_id w) = Inr r"
    using polymarket_get_market_total[of pc market_id w] by blast
  show "\<exists>r. fst (polymarket_get_market_price pc market_id w) = Inr r"
    using polymarket_price_shape[of pc market_id w] by blast
  show "\<exists>r. fst (polymarket_get_market_timeseries pc market_id start end' interval w) = Inr r"
    using polymarket_timeseries_shape[of pc market_id start end' interval w] by blast
  show "\<exists>r. fst (polymarket_get_market_orderbook pc market_id depth w) = Inr r"
    using polymarket_orderbook_shape[of pc market_id depth w] by blast
  show "\<exists>evs. fst (polymarket_get_market_events pc market_id since limit w) = Inr evs"
    using polymarket_events_shape[of pc market_id since limit w] by blast
  show "\<exists>r. fst (polymarket_sync_data pc w) = Inr r"
    using polymarket_sync_data_success[of pc w] by blast
next
  fix e assume e: "fst (kalshi_sample_markets w) = Inl e"
  note r = kalshi_failure_results[OF e, of kc market_id]
  from r show "fst (kalshi_get_markets kc w) = Inr []" by (elim conjE)
  from r show "fst (kalshi_get_market kc market_id w) = Inr JNull" by (elim conjE)
  from r show "fst (kalshi_get_market_price kc market_id w) = Inr JNull" by (elim conjE)
  from r show "\<exists>ts. fst (kalshi_sync_data kc w) =
               Inr (JDict [(''provider'', JStr ''kalshi''),
                           (''markets_synced'', JInt 0),
                           (''status'', JStr ''success''),
                           (''timestamp'', JStr ts)])" by (elim conjE)
next
  fix e assume e: "fst (polymarket_sample_markets w) = Inl e"
  note r = polymarket_failure_results[OF e, of pc market_id]
  from r show "fst (polymarket_get_markets pc w) = Inr []" by (elim conjE)
  from r show "fst (polymarket_get_market pc market_id w) = Inr JNull" by (elim conjE)
  from r show "fst (polymarket_get_market_price pc market_id w) = Inr JNull" by (elim conjE)
  from r show "\<exists>ts. fst (polymarket_sync_data pc w) =
               Inr (JDict [(''provider'', JStr ''polymarket''),
                           (''markets_synced'', JInt 0),
                           (''status'', JStr ''success''),
                           (''timestamp'', JStr ts)])" by (elim conjE)
next
  fix e assume "kalshi_mock_mode kc" "minus_hours (clock w 0) 23 = Inl e"
  then show "fst (kalshi_get_market_timeseries kc market_id start end' interval w) = Inr JNull"
    by (rule kalshi_timeseries_overflow)
next
  fix e assume "polymarket_mock_mode pc" "minus_hours (clock w 0) 23 = Inl e"
  then show "fst (polymarket_get_market_timeseries pc market_id start end' interval w)
               = Inr JNull"
    by (rule polymarket_timeseries_overflow)
qed

text \<open>
  With a sample file that is no JSON both data paths raise; with a clock at the first
  instant of year 1 the subtraction of 23 hours overflows.
\<close>

theorem connector_errors_become_results_witness:
  "fst (kalshi_sample_markets broken_world)
     = Inl (Exc JSONDecodeError ''Expecting value: line 1 column 1 (char 0)'')
   \<and> fst (polymarket_sample_markets broken_world)
     = Inl (Exc JSONDecodeError ''Expecting value: line 1 column 1 (char 0)'')
   \<and> fst (kalshi_get_markets mock_kalshi broken_world) = Inr []
   \<and> fst (kalshi_get_market mock_kalshi ''KALSHI-PRES2024'' broken_world) = Inr JNull
   \<and> fst (kalshi_get_market_price mock_kalshi ''KALSHI-PRES2024'' broken_world) = Inr JNull
   \<and> fst (polymarket_get_markets mock_polymarket broken_world) = Inr []
   \<and> fst (polymarket_get_market mock_polymarket ''KALSHI-PRES2024'' broken_world) = Inr JNull
   \<and> fst (polymarket_get_market_price mock_polymarket ''KALSHI-PRES2024'' broken_world)
       = Inr JNull
   \<and> kalshi_mock_mode mock_kalshi \<and> polymarket_mock_mode mock_polymarket
   \<and> minus_hours (clock (world_at FileNotFound 0) 0) 23
       = Inl (Exc OverflowError ''date value out of range'')
   \<and> fst (kalshi_get_market_timeseries mock_kalshi ''KALSHI-PRES2024'' None None (Some ''1h'')
             (world_at FileNotFound 0)) = Inr JNull
   \<and> fst (polymarket_get_market_timeseries mock_polymarket ''KALSHI-PRES2024'' None None
             (Some ''1h'') (world_at FileNotFound 0)) = Inr JNull"
proof -
  have ke: "fst (kalshi_sample_markets broken_world)
     = Inl (Exc JSONDecodeError ''Expecting value: line 1 column 1 (char 0)'')"
    by (simp add: kalshi_defs py_defs world_defs)
  have pe: "fst (polymarket_sample_markets broken_world)
     = Inl (Exc JSONDecodeError ''Expecting value: line 1 column 1 (char 0)'')"
    by (simp add: polymarket_defs py_defs world_defs)
  have km: "kalshi_mock_mode mock_kalshi"
    by (simp add: mock_kalshi_def kalshi_init_def test_environ_def opt_str_def)
  have pm: "polymarket_mock_mode mock_polymarket"
    by (simp add: mock_polymarket_def polymarket_init_def test_environ_def opt_str_def)
  have ov: "minus_hours (clock (world_at FileNotFound 0) 0) 23
       = Inl (Exc OverflowError ''date value out of range'')"
    by (simp add: minus_hours_def world_at_def ticking_def)
  note broken = connector_errors_become_results
      [where kc = mock_kalshi and pc = mock_polymarket and w = broken_world
         and market_id = "''KALSHI-PRES2024''" and start = None and end' = None
         and interval = "Some ''1h''" and depth = None and since = None and limit = None]
  note year1 = connector_errors_become_results
      [where kc = mock_kalshi and pc = mock_polymarket and w = "world_at FileNotFound 0"
         and market_id = "''KALSHI-PRES2024''" and start = None and end' = None
         and interval = "Some ''1h''" and depth = None and since = None and limit = None]
  from broken have
    "\<forall>e. fst (kalshi_sample_markets broken_world) = Inl e \<longrightarrow>
         fst (kalshi_get_markets mock_kalshi broken_world) = Inr []
         \<and> fst (kalshi_get_market mock_kalshi ''KALSHI-PRES2024'' broken_world) = Inr JNull
         \<and> fst (kalshi_get_market_price mock_kalshi ''KALSHI-PRES2024'' broken_world) = Inr JNull
         \<and> (\<exists>ts. fst (kalshi_sync_data mock_kalshi broken_world) =
               Inr (JDict [(''provider'', JStr ''kalshi''),
                           (''markets_synced'', JInt 0),
                           (''status'', JStr ''success''),
                           (''timestamp'', JStr ts)]))"
    by (elim conjE) assumption
  with ke have k:
    "fst (kalshi_get_markets mock_kalshi broken_world) = Inr []"
    "fst (kalshi_get_market mock_kalshi ''KALSHI-PRES2024'' broken_world) = Inr JNull"
    "fst (kalshi_get_market_price mock_kalshi ''KALSHI-PRES2024'' broken_world) = Inr JNull"
    by simp_all
  from broken have
    "\<forall>e. fst (polymarket_sample_markets broken_world) = Inl e \<longrightarrow>
         fst (polymarket_get_markets mock_polymarket broken_world) = Inr []
         \<and> fst (polymarket_get_market mock_polymarket ''KALSHI-PRES2024'' broken_world)
             = Inr JNull
         \<and> fst (polymarket_get_market_price mock_polymarket ''KALSHI-PRES2024'' broken_world)
             = Inr JNull
         \<and> (\<exists>ts. fst (polymarket_sync_data mock_polymarket broken_world) =
               Inr (JDict [(''provider'', JStr ''polymarket''),
                           (''markets_synced'', JInt 0),
                           (''status'', JStr ''success''),
                           (''timestamp'', JStr ts)]))"
    by (elim conjE) assumption
  with pe have p:
    "fst (polymarket_get_markets mock_polymarket broken_world) = Inr []"
    "fst (polymarket_get_market mock_polymarket ''KALSHI-PRES2024'' broken_world) = Inr JNull"
    "fst (polymarket_get_market_price mock_polymarket ''KALSHI-PRES2024'' broken_world)
       = Inr JNull"
    by simp_all
  from year1 have
    "\<forall>e. kalshi_mock_mode mock_kalshi \<longrightarrow>
         minus_hours (clock (world_at FileNotFound 0) 0) 23 = Inl e \<longrightarrow>
         fst (kalshi_get_market_timeseries mock_kalshi ''KALSHI-PRES2024'' None None
                (Some ''1h'') (world_at FileNotFound 0)) = Inr JNull"
    by (elim conjE) assumption
  with km ov have kt:
    "fst (kalshi_get_market_timeseries mock_kalshi ''KALSHI-PRES2024'' None None
                (Some ''1h'') (world_at FileNotFound 0)) = Inr JNull"
    by blast
  from year1 have
    "\<forall>e. polymarket_mock_mode mock_polymarket \<longrightarrow>
         minus_hours (clock (world_at FileNotFound 0) 0) 23 = Inl e \<longrightarrow>
         fst (polymarket_get_market_timeseries mock_polymarket ''KALSHI-PRES2024'' None None
                (Some ''1h'') (world_at FileNotFound 0)) = Inr JNull"
    by (elim conjE) assumption
  with pm ov have pt:
    "fst (polymarket_get_market_timeseries mock_polymarket ''KALSHI-PRES2024'' None None
                (Some ''1h'') (world_at FileNotFound 0)) = Inr JNull"
    by blast
  show ?thesis
    by (intro conjI ke pe k p km pm ov kt pt)
qed

section \<open>Determinism up to the clock\<close>

text \<open>
  C5, as stated, fails: in mock mode, two calls of \<open>get_market_orderbook\<close> with the same
  arguments, one second apart, return order books with different \<open>timestamp\<close>s.
\<close>

theorem mock_methods_deterministic_counterexample:
  "kalshi_mock_mode mock_kalshi
   \<and> returned_item
        (fst (kalshi_get_market_orderbook mock_kalshi ''KALSHI-PRES2024'' (Some 10)
               (world_at FileNotFound jan_2024))) ''timestamp''
       = Inr (JStr ''2024-01-01T00:00:00'')
   \<and> returned_item
        (fst (kalshi_get_market_orderbook mock_kalshi ''KALSHI-PRES2024'' (Some 10)
               (world_at FileNotFound (jan_2024 + 1000000)))) ''timestamp''
       = Inr (JStr ''2024-01-01T00:00:01'')
   \<and> fst (kalshi_get_market_orderbook mock_kalshi ''KALSHI-PRES2024'' (Some 10)
               (world_at FileNotFound jan_2024))
       \<noteq> fst (kalshi_get_market_orderbook mock_kalshi ''KALSHI-PRES2024'' (Some 10)
               (world_at FileNotFound (jan_2024 + 1000000)))"
  by (simp add: kalshi_defs py_defs world_defs returned_item_def isoformat_jan_2024
                isoformat_jan_2024_1s)

lemma sum_map_Inr: "(\<And>x. x \<in> set xs \<Longrightarrow> f x = Inr (g x)) \<Longrightarrow> sum_map f xs = Inr (map g xs)"
  by (induction xs) simp_all

lemma minus_hours_in_range:
  assumes "23 * 3600000000 \<le> now" and "h \<le> 23"
  shows "minus_hours now h = Inr (now - h * 3600000000)"
proof -
  from assms(2) have "h * 3600000000 \<le> 23 * 3600000000" by simp
  with assms(1) show ?thesis by (simp add: minus_hours_def)
qed

lemma kalshi_price_stamps:
  "\<exists>r n. \<forall>w. sample_file w = f \<longrightarrow>
     fst (kalshi_get_market_price kc market_id w) = Inr (stamped ''timestamp'' (clock w n) r)"
proof -
  from kalshi_get_market_stamps[of f kc market_id] obtain s r i n where
    m: "\<forall>w. sample_file w = f \<longrightarrow>
       kalshi_get_market kc market_id w
         = (Inr (if s then stamped ''created_at'' (clock w i) r else r), advance n w)"
    by blast
  have t: "truthy (if s then stamped ''created_at'' t' r else r) = truthy r" for t'
    by (simp add: truthy_stamped)
  have g: "py_get (if s then stamped ''created_at'' t' r else r) ''outcomes'' (JList [])
             = py_get r ''outcomes'' (JList [])" for t'
    by (simp add: py_get_stamped)
  have none: ?thesis
    if "\<forall>w. sample_file w = f \<longrightarrow> fst (kalshi_get_market_price kc market_id w) = Inr JNull"
  proof -
    from that have "\<forall>w. sample_file w = f \<longrightarrow>
        fst (kalshi_get_market_price kc market_id w) = Inr (stamped ''timestamp'' (clock w 0) JNull)"
      by simp
    then show ?thesis by blast
  qed
  show ?thesis
  proof (cases "truthy r")
    case False
    with m t show ?thesis
      by (intro none) (simp add: kalshi_get_market_price_def py_defs del: if_split)
  next
    case True
    show ?thesis
    proof (cases "py_get r ''outcomes'' (JList [])")
      case (Inl e)
      with m t g True show ?thesis
        by (intro none)
           (simp add: kalshi_get_market_price_def py_defs advance_simps del: if_split)
    next
      case (Inr outcomes)
      with m t g True have "\<forall>w. sample_file w = f \<longrightarrow>
          fst (kalshi_get_market_price kc market_id w)
            = Inr (stamped ''timestamp'' (clock w n)
                     (JDict [(''market_id'', JStr market_id), (''timestamp'', JNull),
                             (''outcomes'', outcomes)]))"
        by (simp add: kalshi_get_market_price_def py_defs advance_simps del: if_split)
      then show ?thesis by blast
    qed
  qed
qed

lemma kalshi_sync_data_stamps:
  "\<exists>r n. \<forall>w. sample_file w = f \<longrightarrow>
     fst (kalshi_sync_data kc w) = Inr (stamped ''timestamp'' (clock w n) r)"
proof -
  from kalshi_get_markets_stamps[of f kc] obtain ts n where
    "\<forall>w. sample_file w = f \<longrightarrow>
       kalshi_get_markets kc w = (Inr (stamped_markets ts (clock w)), advance n w)"
    by blast
  then have "\<forall>w. sample_file w = f \<longrightarrow>
     fst (kalshi_sync_data kc w)
       = Inr (stamped ''timestamp'' (clock w n)
                (JDict [(''provider'', JStr ''kalshi''),
                        (''markets_synced'', JInt (int (length ts))),
                        (''status'', JStr ''success''),
                        (''timestamp'', JNull)]))"
    by (simp add: kalshi_sync_data_cases length_stamped_markets advance_simps)
  then show ?thesis by blast
qed

lemma kalshi_orderbook_stamps:
  "\<exists>r. \<forall>w. fst (kalshi_get_market_orderbook kc market_id depth w)
             = Inr (stamped ''timestamp'' (clock w 0) r)"
proof -
  have "\<forall>w. fst (kalshi_get_market_orderbook kc market_id depth w)
          = Inr (stamped ''timestamp'' (clock w 0)
                   (projr (fst (kalshi_get_market_orderbook kc market_id depth w0))))"
    by (simp add: kalshi_get_market_orderbook_def py_defs)
  then show ?thesis by blast
qed

lemma kalshi_events_stamps:
  "\<exists>rs. \<forall>w. fst (kalshi_get_market_events kc market_id since limit w)
              = Inr (map (stamped ''timestamp'' (clock w 0)) rs)"
proof -
  have "\<forall>w. fst (kalshi_get_market_events kc market_id since limit w)
          = Inr (map (stamped ''timestamp'' (clock w 0))
                   (projr (fst (kalshi_get_market_events kc market_id since limit w0))))"
    by (simp add: kalshi_get_market_events_def py_defs)
  then show ?thesis by blast
qed

lemma minus_hours_overflows:
  "now < 23 * 3600000000 \<Longrightarrow> \<exists>e. minus_hours now 23 = Inl e"
  by (simp add: minus_hours_def)

lemma kalshi_timeseries_stamps:
  "\<exists>p. \<forall>w. fst (kalshi_get_market_timeseries kc market_id start end' interval w)
     = Inr (if kalshi_mock_mode kc \<and> 23 * 3600000000 \<le> clock w 0
            then JDict [
              (''market_id'', JStr market_id),
              (''outcome_id'', JStr ''yes''),
              (''interval'', opt_str interval),
              (''data_points'',
                 JList (map (\<lambda>i. stamped ''timestamp'' (clock w 0 - (23 - i) * 3600000000) (p i))
                          [0 ..< 24]))]
            else JNull)"
proof -
  let ?p = "\<lambda>i. JDict [(''timestamp'', JNull),
                        (''price'', JFloat (60 / 100 + of_nat i * (1 / 1000))),
                        (''volume'', JInt (100 + int i * 10))]"
  have "fst (kalshi_get_market_timeseries kc market_id start end' interval w)
     = Inr (if kalshi_mock_mode kc \<and> 23 * 3600000000 \<le> clock w 0
            then JDict [
              (''market_id'', JStr market_id),
              (''outcome_id'', JStr ''yes''),
              (''interval'', opt_str interval),
              (''data_points'',
                 JList (map (\<lambda>i. stamped ''timestamp'' (clock w 0 - (23 - i) * 3600000000) (?p i))
                          [0 ..< 24]))]
            else JNull)" for w
  proof (cases "kalshi_mock_mode kc")
    case False
    then show ?thesis by (simp add: kalshi_get_market_timeseries_def py_defs)
  next
    case mock: True
    show ?thesis
    proof (cases "23 * 3600000000 \<le> clock w 0")
      case False
      then obtain e where "minus_hours (clock w 0) 23 = Inl e"
        using minus_hours_overflows[of "clock w 0"] by auto
      from kalshi_timeseries_overflow[OF mock this] False show ?thesis by simp
    next
      case True
      have "sum_map (kalshi_data_point (clock w 0)) [0 ..< 24]
              = Inr (map (\<lambda>i. stamped ''timestamp'' (clock w 0 - (23 - i) * 3600000000) (?p i))
                       [0 ..< 24])"
        by (rule sum_map_Inr) (simp add: kalshi_data_point_def minus_hours_in_range[OF True])
      with mock True show ?thesis
        by (simp add: kalshi_get_market_timeseries_def py_defs del: upt_Suc)
    qed
  qed
  then show ?thesis by (intro exI[of _ ?p] allI)
qed

lemma polymarket_price_stamps:
  "\<exists>r n. \<forall>w. sample_file w = f \<longrightarrow>
     fst (polymarket_get_market_price pc market_id w) = Inr (stamped ''timestamp'' (clock w n) r)"
proof -
  from polymarket_get_market_stamps[of f pc market_id] obtain s r i n where
    m: "\<forall>w. sample_file w = f \<longrightarrow>
       polymarket_get_market pc market_id w
         = (Inr (if s then stamped ''created_at'' (clock w i) r else r), advance n w)"
    by blast
  have t: "truthy (if s then stamped ''created_at'' t' r else r) = truthy r" for t'
    by (simp add: truthy_stamped)
  have g: "py_get (if s then stamped ''created_at'' t' r else r) ''outcomes'' (JList [])
             = py_get r ''outcomes'' (JList [])" for t'
    by (simp add: py_get_stamped)
  have none: ?thesis
    if "\<forall>w. sample_file w = f \<longrightarrow> fst (polymarket_get_market_price pc market_id w) = Inr JNull"
  proof -
    from that have "\<forall>w. sample_file w = f \<longrightarrow>
        fst (polymarket_get_market_price pc market_id w) = Inr (stamped ''timestamp'' (clock w 0) JNull)"
      by simp
    then show ?thesis by blast
  qed
  show ?thesis
  proof (cases "truthy r")
    case False
    with m t show ?thesis
      by (intro none) (simp add: polymarket_get_market_price_def py_defs del: if_split)
  next
    case True
    show ?thesis
    proof (cases "py_get r ''outcomes'' (JList [])")
      case (Inl e)
      with m t g True show ?thesis
        by (intro none)
           (simp add: polymarket_get_market_price_def py_defs advance_simps del: if_split)
    next
      case (Inr outcomes)
      with m t g True have "\<forall>w. sample_file w = f \<longrightarrow>
          fst (polymarket_get_market_price pc market_id w)
            = Inr (stamped ''timestamp'' (clock w n)
                     (JDict [(''market_id'', JStr market_id), (''timestamp'', JNull),
                             (''outcomes'', outcomes)]))"
        by (simp add: polymarket_get_market_price_def py_defs advance_simps del: if_split)
      then show ?thesis by blast
    qed
  qed
qed


lemma polymarket_sync_data_stamps:
  "\<exists>r n. \<forall>w. sample_file w = f \<longrightarrow>
     fst (polymarket_sync_data pc w) = Inr (stamped ''timestamp'' (clock w n) r)"
proof -
  from polymarket_get_markets_stamps[of f pc] obtain ts n where
    "\<forall>w. sample_file w = f \<longrightarrow>
       polymarket_get_markets pc w = (Inr (stamped_markets ts (clock w)), advance n w)"
    by blast
  then have "\<forall>w. sample_file w = f \<longrightarrow>
     fst (polymarket_sync_data pc w)
       = Inr (stamped ''timestamp'' (clock w n)
                (JDict [(''provider'', JStr ''polymarket''),
                        (''markets_synced'', JInt (int (length ts))),
                        (''status'', JStr ''success''),
                        (''timestamp'', JNull)]))"
    by (simp add: polymarket_sync_data_cases length_stamped_markets advance_simps)
  then show ?thesis by blast
qed


lemma polymarket_orderbook_stamps:
  "\<exists>r. \<forall>w. fst (polymarket_get_market_orderbook pc market_id depth w)
             = Inr (stamped ''timestamp'' (clock w 0) r)"
proof -
  have "\<forall>w. fst (polymarket_get_market_orderbook pc market_id depth w)
          = Inr (stamped ''timestamp'' (clock w 0)
                   (projr (fst (polymarket_get_market_orderbook pc market_id depth w0))))"
    by (simp add: polymarket_get_market_orderbook_def py_defs)
  then show ?thesis by blast
qed


lemma polymarket_events_stamps:
  "\<exists>rs. \<forall>w. fst (polymarket_get_market_events pc market_id since limit w)
              = Inr (map (stamped ''timestamp'' (clock w 0)) rs)"
proof -
  have "\<forall>w. fst (polymarket_get_market_events pc market_id since limit w)
          = Inr (map (stamped ''timestamp'' (clock w 0))
                   (projr (fst (polymarket_get_market_events pc market_id since limit w0))))"
    by (simp add: polymarket_get_market_events_def py_defs)
  then show ?thesis by blast
qed


lemma polymarket_timeseries_stamps:
  "\<exists>p. \<forall>w. fst (polymarket_get_market_timeseries pc market_id start end' interval w)
     = Inr (if polymarket_mock_mode pc \<and> 23 * 3600000000 \<le> clock w 0
            then JDict [
              (''market_id'', JStr market_id),
              (''outcome_id'', JStr ''yes''),
              (''interval'', opt_str interval),
              (''data_points'',
                 JList (map (\<lambda>i. stamped ''timestamp'' (clock w 0 - (23 - i) * 3600000000) (p i))
                          [0 ..< 24]))]
            else JNull)"
proof -
  let ?p = "\<lambda>i. JDict [(''timestamp'', JNull),
                        (''price'', JFloat (polymarket_price i)),
                        (''volume'', JInt (150 + int i * 15))]"
  have "fst (polymarket_get_market_timeseries pc market_id start end' interval w)
     = Inr (if polymarket_mock_mode pc \<and> 23 * 3600000000 \<le> clock w 0
            then JDict [
              (''market_id'', JStr market_id),
              (''outcome_id'', JStr ''yes''),
              (''interval'', opt_str interval),
              (''data_points'',
                 JList (map (\<lambda>i. stamped ''timestamp'' (clock w 0 - (23 - i) * 3600000000) (?p i))
                          [0 ..< 24]))]
            else JNull)" for w
  proof (cases "polymarket_mock_mode pc")
    case False
    then show ?thesis by (simp add: polymarket_get_market_timeseries_def py_defs)
  next
    case mock: True
    show ?thesis
    proof (cases "23 * 3600000000 \<le> clock w 0")
      case False
      then obtain e where "minus_hours (clock w 0) 23 = Inl e"
        using minus_hours_overflows[of "clock w 0"] by auto
      from polymarket_timeseries_overflow[OF mock this] False show ?thesis by simp
    next
      case True
      have "sum_map (polymarket_data_point (clock w 0)) [0 ..< 24]
              = Inr (map (\<lambda>i. stamped ''timestamp'' (clock w 0 - (23 - i) * 3600000000) (?p i))
                       [0 ..< 24])"
        by (rule sum_map_Inr) (simp add: polymarket_data_point_def minus_hours_in_range[OF True])
      with mock True show ?thesis
        by (simp add: polymarket_get_market_timeseries_def py_defs del: upt_Suc)
    qed
  qed
  then show ?thesis by (intro exI[of _ ?p] allI)
qed

lemma kalshi_get_markets_fst_stamps:
  "\<exists>ts. \<forall>w. sample_file w = f \<longrightarrow>
     fst (kalshi_get_markets kc w) = Inr (stamped_markets ts (clock w))"
proof -
  from kalshi_get_markets_stamps[of f kc] obtain ts n where
    "\<forall>w. sample_file w = f \<longrightarrow>
       kalshi_get_markets kc w = (Inr (stamped_markets ts (clock w)), advance n w)"
    by blast
  then have "\<forall>w. sample_file w = f \<longrightarrow>
     fst (kalshi_get_markets kc w) = Inr (stamped_markets ts (clock w))"
    by simp
  then show ?thesis ..
qed

lemma kalshi_get_market_fst_stamps:
  "\<exists>s r i. \<forall>w. sample_file w = f \<longrightarrow>
     fst (kalshi_get_market kc market_id w)
       = Inr (if s then stamped ''created_at'' (clock w i) r else r)"
proof -
  from kalshi_get_market_stamps[of f kc market_id] obtain s r i n where
    "\<forall>w. sample_file w = f \<longrightarrow>
       kalshi_get_market kc market_id w
         = (Inr (if s then stamped ''created_at'' (clock w i) r else r), advance n w)"
    by blast
  then have "\<forall>w. sample_file w = f \<longrightarrow>
     fst (kalshi_get_market kc market_id w)
       = Inr (if s then stamped ''created_at'' (clock w i) r else r)"
    by simp
  then show ?thesis by blast
qed

lemma kalshi_normalize_created_at:
  "map_of kvs ''created_at'' \<noteq> None \<longrightarrow>
     fst (kalshi_normalize_market (JDict kvs) w) = fst (kalshi_normalize_market (JDict kvs) w')"
  by (auto simp: kalshi_normalize_market_def py_defs dict_get_def)

lemma polymarket_get_markets_fst_stamps:
  "\<exists>ts. \<forall>w. sample_file w = f \<longrightarrow>
     fst (polymarket_get_markets pc w) = Inr (stamped_markets ts (clock w))"
proof -
  from polymarket_get_markets_stamps[of f pc] obtain ts n where
    "\<forall>w. sample_file w = f \<longrightarrow>
       polymarket_get_markets pc w = (Inr (stamped_markets ts (clock w)), advance n w)"
    by blast
  then have "\<forall>w. sample_file w = f \<longrightarrow>
     fst (polymarket_get_markets pc w) = Inr (stamped_markets ts (clock w))"
    by simp
  then show ?thesis ..
qed

lemma polymarket_get_market_fst_stamps:
  "\<exists>s r i. \<forall>w. sample_file w = f \<longrightarrow>
     fst (polymarket_get_market pc market_id w)
       = Inr (if s then stamped ''created_at'' (clock w i) r else r)"
proof -
  from polymarket_get_market_stamps[of f pc market_id] obtain s r i n where
    "\<forall>w. sample_file w = f \<longrightarrow>
       polymarket_get_market pc market_id w
         = (Inr (if s then stamped ''created_at'' (clock w i) r else r), advance n w)"
    by blast
  then have "\<forall>w. sample_file w = f \<longrightarrow>
     fst (polymarket_get_market pc market_id w)
       = Inr (if s then stamped ''created_at'' (clock w i) r else r)"
    by simp
  then show ?thesis by blast
qed

lemma polymarket_normalize_created_at:
  "map_of kvs ''created_at'' \<noteq> None \<longrightarrow>
     fst (polymarket_normalize_market (JDict kvs) w) = fst (polymarket_normalize_market (JDict kvs) w')"
  by (auto simp: polymarket_normalize_market_def py_defs dict_get_def split: sum.splits)

lemma py_map_same_result:
  assumes "\<And>x w w'. x \<in> set xs \<Longrightarrow> fst (f x w) = fst (f x w')"
  shows "fst (py_map f xs w) = fst (py_map f xs w')"
  using assms
proof (induction xs arbitrary: w w')
  case Nil
  show ?case by (simp add: py_return_def)
next
  case (Cons x xs)
  obtain r w1 where a: "f x w = (r, w1)" by (cases "f x w")
  obtain r' w1' where a': "f x w' = (r', w1')" by (cases "f x w'")
  from Cons.prems[of x w w'] a a' have r: "r' = r" by simp
  have rest: "fst (py_map f xs w1) = fst (py_map f xs w1')"
    by (rule Cons.IH) (simp add: Cons.prems)
  show ?case
  proof (cases r)
    case (Inl e)
    with a a' r show ?thesis by (simp add: py_bind_def)
  next
    case (Inr y)
    with a a' r rest show ?thesis
      by (cases "py_map f xs w1"; cases "py_map f xs w1'")
         (auto simp: py_bind_def py_return_def split: sum.splits)
  qed
qed

lemma kalshi_get_markets_dated:
  assumes "sample_file w = Loaded j" and "sample_file w' = Loaded j"
    and "py_get j ''markets'' (JList []) = Inr (JList raws)"
    and "\<forall>raw\<in>set raws. \<exists>kvs. raw = JDict kvs \<and> map_of kvs ''created_at'' \<noteq> None"
  shows "fst (kalshi_get_markets kc w) = fst (kalshi_get_markets kc w')"
proof -
  have "fst (py_map kalshi_normalize_market raws w) = fst (py_map kalshi_normalize_market raws w')"
    using assms(4) by (intro py_map_same_result) (auto simp: kalshi_normalize_created_at)
  with assms(1-3) show ?thesis
    by (cases "py_map kalshi_normalize_market raws w";
        cases "py_map kalshi_normalize_market raws w'")
       (auto simp: kalshi_get_markets_cases kalshi_sample_markets_def kalshi_load_sample_data_def
                   py_bind_def py_lift_def split: sum.splits)
qed

lemma kalshi_get_markets_fallback:
  assumes "sample_file w = FileNotFound" and "sample_file w' = FileNotFound"
  shows "fst (kalshi_get_markets kc w) = fst (kalshi_get_markets kc w')"
  using assms by (simp add: kalshi_defs py_defs dict_get_def)

lemma kalshi_get_market_of_markets:
  assumes "fst (kalshi_get_markets kc w) = fst (kalshi_get_markets kc w')"
  shows "fst (kalshi_get_market kc market_id w) = fst (kalshi_get_market kc market_id w')"
  using assms
  by (cases "kalshi_get_markets kc w"; cases "kalshi_get_markets kc w'")
     (auto simp: kalshi_get_market_cases split: sum.splits)

lemma polymarket_get_markets_dated:
  assumes "sample_file w = Loaded j" and "sample_file w' = Loaded j"
    and "py_get j ''markets'' (JList []) = Inr (JList raws)"
    and "\<forall>raw\<in>set raws. \<exists>kvs. raw = JDict kvs \<and> map_of kvs ''created_at'' \<noteq> None"
  shows "fst (polymarket_get_markets pc w) = fst (polymarket_get_markets pc w')"
proof -
  have "fst (py_map polymarket_normalize_market raws w) = fst (py_map polymarket_normalize_market raws w')"
    using assms(4) by (intro py_map_same_result) (auto simp: polymarket_normalize_created_at)
  with assms(1-3) show ?thesis
    by (cases "py_map polymarket_normalize_market raws w";
        cases "py_map polymarket_normalize_market raws w'")
       (auto simp: polymarket_get_markets_cases polymarket_sample_markets_def polymarket_load_sample_data_def
                   py_bind_def py_lift_def split: sum.splits)
qed

lemma polymarket_get_markets_fallback:
  assumes "sample_file w = FileNotFound" and "sample_file w' = FileNotFound"
  shows "fst (polymarket_get_markets pc w) = fst (polymarket_get_markets pc w')"
  using assms by (simp add: polymarket_defs py_defs dict_get_def)

lemma polymarket_get_market_of_markets:
  assumes "fst (polymarket_get_markets pc w) = fst (polymarket_get_markets pc w')"
  shows "fst (polymarket_get_market pc market_id w) = fst (polymarket_get_market pc market_id w')"
  using assms
  by (cases "polymarket_get_markets pc w"; cases "polymarket_get_markets pc w'")
     (auto simp: polymarket_get_market_cases split: sum.splits)

lemma kalshi_markets_dated:
  "sample_file w = Loaded j \<and> sample_file w' = Loaded j
     \<and> py_get j ''markets'' (JList []) = Inr (JList raws)
     \<and> (\<forall>raw\<in>set raws. \<exists>kvs. raw = JDict kvs \<and> map_of kvs ''created_at'' \<noteq> None)
   \<longrightarrow> fst (kalshi_get_markets kc w) = fst (kalshi_get_markets kc w')
       \<and> fst (kalshi_get_market kc market_id w) = fst (kalshi_get_market kc market_id w')"
proof (intro impI, elim conjE)
  assume "sample_file w = Loaded j" "sample_file w' = Loaded j"
    "py_get j ''markets'' (JList []) = Inr (JList raws)"
    "\<forall>raw\<in>set raws. \<exists>kvs. raw = JDict kvs \<and> map_of kvs ''created_at'' \<noteq> None"
  then have "fst (kalshi_get_markets kc w) = fst (kalshi_get_markets kc w')"
    by (rule kalshi_get_markets_dated)
  then show "fst (kalshi_get_markets kc w) = fst (kalshi_get_markets kc w')
       \<and> fst (kalshi_get_market kc market_id w) = fst (kalshi_get_market kc market_id w')"
    by (intro conjI kalshi_get_market_of_markets)
qed

lemma kalshi_markets_fallback:
  "sample_file w = FileNotFound \<and> sample_file w' = FileNotFound
   \<longrightarrow> fst (kalshi_get_markets kc w) = fst (kalshi_get_markets kc w')
       \<and> fst (kalshi_get_market kc market_id w) = fst (kalshi_get_market kc market_id w')"
proof (intro impI, elim conjE)
  assume "sample_file w = FileNotFound" "sample_file w' = FileNotFound"
  then have "fst (kalshi_get_markets kc w) = fst (kalshi_get_markets kc w')"
    by (rule kalshi_get_markets_fallback)
  then show "fst (kalshi_get_markets kc w) = fst (kalshi_get_markets kc w')
       \<and> fst (kalshi_get_market kc market_id w) = fst (kalshi_get_market kc market_id w')"
    by (intro conjI kalshi_get_market_of_markets)
qed

lemma polymarket_markets_dated:
  "sample_file w = Loaded j \<and> sample_file w' = Loaded j
     \<and> py_get j ''markets'' (JList []) = Inr (JList raws)
     \<and> (\<forall>raw\<in>set raws. \<exists>kvs. raw = JDict kvs \<and> map_of kvs ''created_at'' \<noteq> None)
   \<longrightarrow> fst (polymarket_get_markets pc w) = fst (polymarket_get_markets pc w')
       \<and> fst (polymarket_get_market pc market_id w) = fst (polymarket_get_market pc market_id w')"
proof (intro impI, elim conjE)
  assume "sample_file w = Loaded j" "sample_file w' = Loaded j"
    "py_get j ''markets'' (JList []) = Inr (JList raws)"
    "\<forall>raw\<in>set raws. \<exists>kvs. raw = JDict kvs \<and> map_of kvs ''created_at'' \<noteq> None"
  then have "fst (polymarket_get_markets pc w) = fst (polymarket_get_markets pc w')"
    by (rule polymarket_get_markets_dated)
  then show "fst (polymarket_get_markets pc w) = fst (polymarket_get_markets pc w')
       \<and> fst (polymarket_get_market pc market_id w) = fst (polymarket_get_market pc market_id w')"
    by (intro conjI polymarket_get_market_of_markets)
qed

lemma polymarket_markets_fallback:
  "sample_file w = FileNotFound \<and> sample_file w' = FileNotFound
   \<longrightarrow> fst (polymarket_get_markets pc w) = fst (polymarket_get_markets pc w')
       \<and> fst (polymarket_get_market pc market_id w) = fst (polymarket_get_market pc market_id w')"
proof (intro impI, elim conjE)
  assume "sample_file w = FileNotFound" "sample_file w' = FileNotFound"
  then have "fst (polymarket_get_markets pc w) = fst (polymarket_get_markets pc w')"
    by (rule polymarket_get_markets_fallback)
  then show "fst (polymarket_get_markets pc w) = fst (polymarket_get_markets pc w')
       \<and> fst (polymarket_get_market pc market_id w) = fst (polymarket_get_market pc market_id w')"
    by (intro conjI polymarket_get_market_of_markets)
qed

text \<open>
  C5, amended. What a connector method returns is fixed by the method, its arguments, the
  sample file and the readings of the clock, and the clock enters through the stamps only.
  For every sample file \<open>f\<close> there are records that do not depend on the clock such that,
  in every world with that file: \<open>get_markets\<close> returns them, the flagged ones with
  \<open>created_at\<close> set to the reading taken when the record was normalised; \<open>get_market\<close>
  returns one of them, or \<open>None\<close>; \<open>get_market_price\<close>, \<open>get_market_orderbook\<close> and
  \<open>sync_data\<close> return a record with its \<open>timestamp\<close> set to a reading, and
  \<open>get_market_events\<close> a list of such records. \<open>get_market_timeseries\<close> returns, in mock
  mode and when the clock reads at least 23 hours after the least \<open>datetime\<close>, 24 points
  of which point \<open>i\<close> has its \<open>timestamp\<close> set to the reading less \<open>23 - i\<close> hours;
  otherwise (outside mock mode, or when that subtraction overflows) it returns \<open>None\<close>.
  A stamp replaces an entry of the record itself, so every other field, nested data
  included, is the same in any two calls. A \<open>created_at\<close> that the data supply is not
  stamped: \<open>normalize_market\<close> then returns the same record whatever the clock reads,
  and when every market of the sample file has one, as with the generator's file, or the
  fallback is served, \<open>get_markets\<close> and \<open>get_market\<close> return the same in any two worlds.
\<close>

theorem mock_methods_differ_in_stamps_only:
  "(\<exists>ts. \<forall>w. sample_file w = f \<longrightarrow>
         fst (kalshi_get_markets kc w) = Inr (stamped_markets ts (clock w)))
   \<and> (\<exists>s r i. \<forall>w. sample_file w = f \<longrightarrow>
         fst (kalshi_get_market kc market_id w)
           = Inr (if s then stamped ''created_at'' (clock w i) r else r))
   \<and> (\<exists>r n. \<forall>w. sample_file w = f \<longrightarrow>
         fst (kalshi_get_market_price kc market_id w)
           = Inr (stamped ''timestamp'' (clock w n) r))
   \<and> (\<exists>p. \<forall>w. fst (kalshi_get_market_timeseries kc market_id start end' interval w)
         = Inr (if kalshi_mock_mode kc \<and> 23 * 3600000000 \<le> clock w 0
                then JDict [
                  (''market_id'', JStr market_id),
                  (''outcome_id'', JStr ''yes''),
                  (''interval'', opt_str interval),
                  (''data_points'',
                     JList (map (\<lambda>i. stamped ''timestamp'' (clock w 0 - (23 - i) * 3600000000) (p i))
                              [0 ..< 24]))]
                else JNull))
   \<and> (\<exists>r. \<forall>w. fst (kalshi_get_market_orderbook kc market_id depth w)
             = Inr (stamped ''timestamp'' (clock w 0) r))
   \<and> (\<exists>rs. \<forall>w. fst (kalshi_get_market_events kc market_id since limit w)
              = Inr (map (stamped ''timestamp'' (clock w 0)) rs))
   \<and> (\<exists>r n. \<forall>w. sample_file w = f \<longrightarrow>
         fst (kalshi_sync_data kc w) = Inr (stamped ''timestamp'' (clock w n) r))
   \<and> (map_of kvs ''created_at'' \<noteq> None \<longrightarrow>
         fst (kalshi_normalize_market (JDict kvs) w) = fst (kalshi_normalize_market (JDict kvs) w'))
   \<and> (sample_file w = Loaded j \<and> sample_file w' = Loaded j
        \<and> py_get j ''markets'' (JList []) = Inr (JList raws)
        \<and> (\<forall>raw\<in>set raws. \<exists>kvs. raw = JDict kvs \<and> map_of kvs ''created_at'' \<noteq> None)
      \<longrightarrow> fst (kalshi_get_markets kc w) = fst (kalshi_get_markets kc w')
          \<and> fst (kalshi_get_market kc market_id w) = fst (kalshi_get_market kc market_id w'))
   \<and> (sample_file w = FileNotFound \<and> sample_file w' = FileNotFound
      \<longrightarrow> fst (kalshi_get_markets kc w) = fst (kalshi_get_markets kc w')
          \<and> fst (kalshi_get_market kc market_id w) = fst (kalshi_get_market kc market_id w'))
   \<and> (\<exists>ts. \<forall>w. sample_file w = f \<longrightarrow>
         fst (polymarket_get_markets pc w) = Inr (stamped_markets ts (clock w)))
   \<and> (\<exists>s r i. \<forall>w. sample_file w = f \<longrightarrow>
         fst (polymarket_get_market pc market_id w)
           = Inr (if s then stamped ''created_at'' (clock w i) r else r))
   \<and> (\<exists>r n. \<forall>w. sample_file w = f \<longrightarrow>
         fst (polymarket_get_market_price pc market_id w)
           = Inr (stamped ''timestamp'' (clock w n) r))
   \<and> (\<exists>p. \<forall>w. fst (polymarket_get_market_timeseries pc market_id start end' interval w)
         = Inr (if polymarket_mock_mode pc \<and> 23 * 3600000000 \<le> clock w 0
                then JDict [
                  (''market_id'', JStr market_id),
                  (''outcome_id'', JStr ''yes''),
                  (''interval'', opt_str interval),
                  (''data_points'',
                     JList (map (\<lambda>i. stamped ''timestamp'' (clock w 0 - (23 - i) * 3600000000) (p i))
                              [0 ..< 24]))]
                else JNull))
   \<and> (\<exists>r. \<forall>w. fst (polymarket_get_market_orderbook pc market_id depth w)
             = Inr (stamped ''timestamp'' (clock w 0) r))
   \<and> (\<exists>rs. \<forall>w. fst (polymarket_get_market_events pc market_id since limit w)
              = Inr (map (stamped ''timestamp'' (clock w 0)) rs))
   \<and> (\<exists>r n. \<forall>w. sample_file w = f \<longrightarrow>
         fst (polymarket_sync_data pc w) = Inr (stamped ''timestamp'' (clock w n) r))
   \<and> (map_of kvs ''created_at'' \<noteq> None \<longrightarrow>
         fst (polymarket_normalize_market (JDict kvs) w) = fst (polymarket_normalize_market (JDict kvs) w'))
   \<and> (sample_file w = Loaded j \<and> sample_file w' = Loaded j
        \<and> py_get j ''markets'' (JList []) = Inr (JList raws)
        \<and> (\<forall>raw\<in>set raws. \<exists>kvs. raw = JDict kvs \<and> map_of kvs ''created_at'' \<noteq> None)
      \<longrightarrow> fst (polymarket_get_markets pc w) = fst (polymarket_get_markets pc w')
          \<and> fst (polymarket_get_market pc market_id w) = fst (polymarket_get_market pc market_id w'))
   \<and> (sample_file w = FileNotFound \<and> sample_file w' = FileNotFound
      \<longrightarrow> fst (polymarket_get_markets pc w) = fst (polymarket_get_markets pc w')
          \<and> fst (polymarket_get_market pc market_id w) = fst (polymarket_get_market pc market_id w'))"
proof (intro conjI)
  show "\<exists>ts. \<forall>w. sample_file w = f \<longrightarrow>
            fst (kalshi_get_markets kc w) = Inr (stamped_markets ts (clock w))"
    by (rule kalshi_get_markets_fst_stamps)
  show "\<exists>s r i. \<forall>w. sample_file w = f \<longrightarrow>
            fst (kalshi_get_market kc market_id w)
              = Inr (if s then stamped ''created_at'' (clock w i) r else r)"
    by (rule kalshi_get_market_fst_stamps)
  show "\<exists>r n. \<forall>w. sample_file w = f \<longrightarrow>
            fst (kalshi_get_market_price kc market_id w)
              = Inr (stamped ''timestamp'' (clock w n) r)"
    by (rule kalshi_price_stamps)
  show "\<exists>p. \<forall>w. fst (kalshi_get_market_timeseries kc market_id start end' interval w)
            = Inr (if kalshi_mock_mode kc \<and> 23 * 3600000000 \<le> clock w 0
                   then JDict [
                     (''market_id'', JStr market_id),
                     (''outcome_id'', JStr ''yes''),
                     (''interval'', opt_str interval),
                     (''data_points'',
                        JList (map (\<lambda>i. stamped ''timestamp'' (clock w 0 - (23 - i) * 3600000000) (p i))
                                 [0 ..< 24]))]
                   else JNull)"
    by (rule kalshi_timeseries_stamps)
  show "\<exists>r. \<forall>w. fst (kalshi_get_market_orderbook kc market_id depth w)
                = Inr (stamped ''timestamp'' (clock w 0) r)"
    by (rule kalshi_orderbook_stamps)
  show "\<exists>rs. \<forall>w. fst (kalshi_get_market_events kc market_id since limit w)
                 = Inr (map (stamped ''timestamp'' (clock w 0)) rs)"
    by (rule kalshi_events_stamps)
  show "\<exists>r n. \<forall>w. sample_file w = f \<longrightarrow>
            fst (kalshi_sync_data kc w) = Inr (stamped ''timestamp'' (clock w n) r)"
    by (rule kalshi_sync_data_stamps)
  show "map_of kvs ''created_at'' \<noteq> None \<longrightarrow>
            fst (kalshi_normalize_market (JDict kvs) w) = fst (kalshi_normalize_market (JDict kvs) w')"
    by (rule kalshi_normalize_created_at)
  show "sample_file w = Loaded j \<and> sample_file w' = Loaded j
           \<and> py_get j ''markets'' (JList []) = Inr (JList raws)
           \<and> (\<forall>raw\<in>set raws. \<exists>kvs. raw = JDict kvs \<and> map_of kvs ''created_at'' \<noteq> None)
         \<longrightarrow> fst (kalshi_get_markets kc w) = fst (kalshi_get_markets kc w')
             \<and> fst (kalshi_get_market kc market_id w) = fst (kalshi_get_market kc market_id w')"
    by (rule kalshi_markets_dated)
  show "sample_file w = FileNotFound \<and> sample_file w' = FileNotFound
         \<longrightarrow> fst (kalshi_get_markets kc w) = fst (kalshi_get_markets kc w')
             \<and> fst (kalshi_get_market kc market_id w) = fst (kalshi_get_market kc market_id w')"
    by (rule kalshi_markets_fallback)
  show "\<exists>ts. \<forall>w. sample_file w = f \<longrightarrow>
            fst (polymarket_get_markets pc w) = Inr (stamped_markets ts (clock w))"
    by (rule polymarket_get_markets_fst_stamps)
  show "\<exists>s r i. \<forall>w. sample_file w = f \<longrightarrow>
            fst (polymarket_get_market pc market_id w)
              = Inr (if s then stamped ''created_at'' (clock w i) r else r)"
    by (rule polymarket_get_market_fst_stamps)
  show "\<exists>r n. \<forall>w. sample_file w = f \<longrightarrow>
            fst (polymarket_get_market_price pc market_id w)
              = Inr (stamped ''timestamp'' (clock w n) r)"
    by (rule polymarket_price_stamps)
  show "\<exists>p. \<forall>w. fst (polymarket_get_market_timeseries pc market_id start end' interval w)
            = Inr (if polymarket_mock_mode pc \<and> 23 * 3600000000 \<le> clock w 0
                   then JDict [
                     (''market_id'', JStr market_id),
                     (''outcome_id'', JStr ''yes''),
                     (''interval'', opt_str interval),
                     (''data_points'',
                        JList (map (\<lambda>i. stamped ''timestamp'' (clock w 0 - (23 - i) * 3600000000) (p i))
                                 [0 ..< 24]))]
                   else JNull)"
    by (rule polymarket_timeseries_stamps)
  show "\<exists>r. \<forall>w. fst (polymarket_get_market_orderbook pc market_id depth w)
                = Inr (stamped ''timestamp'' (clock w 0) r)"
    by (rule polymarket_orderbook_stamps)
  show "\<exists>rs. \<forall>w. fst (polymarket_get_market_events pc market_id since limit w)
                 = Inr (map (stamped ''timestamp'' (clock w 0)) rs)"
    by (rule polymarket_events_stamps)
  show "\<exists>r n. \<forall>w. sample_file w = f \<longrightarrow>
            fst (polymarket_sync_data pc w) = Inr (stamped ''timestamp'' (clock w n) r)"
    by (rule polymarket_sync_data_stamps)
  show "map_of kvs ''created_at'' \<noteq> None \<longrightarrow>
            fst (polymarket_normalize_market (JDict kvs) w) = fst (polymarket_normalize_market (JDict kvs) w')"
    by (rule polymarket_normalize_created_at)
  show "sample_file w = Loaded j \<and> sample_file w' = Loaded j
           \<and> py_get j ''markets'' (JList []) = Inr (JList raws)
           \<and> (\<forall>raw\<in>set raws. \<exists>kvs. raw = JDict kvs \<and> map_of kvs ''created_at'' \<noteq> None)
         \<longrightarrow> fst (polymarket_get_markets pc w) = fst (polymarket_get_markets pc w')
             \<and> fst (polymarket_get_market pc market_id w) = fst (polymarket_get_market pc market_id w')"
    by (rule polymarket_markets_dated)
  show "sample_file w = FileNotFound \<and> sample_file w' = FileNotFound
         \<longrightarrow> fst (polymarket_get_markets pc w) = fst (polymarket_get_markets pc w')
             \<and> fst (polymarket_get_market pc market_id w) = fst (polymarket_get_market pc market_id w')"
    by (rule polymarket_markets_fallback)
qed

text \<open>
  Mock mode and two calls one second apart, without a sample file and with the
  generator's.
\<close>

theorem mock_methods_differ_in_stamps_only_witness:
  "kalshi_mock_mode mock_kalshi
   \<and> sample_file (world_at FileNotFound jan_2024) = FileNotFound
   \<and> sample_file (world_at FileNotFound (jan_2024 + 1000000)) = FileNotFound
   \<and> 23 * 3600000000 \<le> clock (world_at FileNotFound jan_2024) 0
   \<and> 23 * 3600000000 \<le> clock (world_at FileNotFound (jan_2024 + 1000000)) 0
   \<and> map_of [(''id'', JStr ''KALSHI-1''), (''created_at'', JStr ''2024-01-01T00:00:00Z'')]
         ''created_at'' \<noteq> None
   \<and> (\<exists>r n.
          fst (kalshi_get_market_price mock_kalshi ''KALSHI-PRES2024''
                 (world_at FileNotFound jan_2024))
            = Inr (stamped ''timestamp'' (clock (world_at FileNotFound jan_2024) n) r)
          \<and> fst (kalshi_get_market_price mock_kalshi ''KALSHI-PRES2024''
                 (world_at FileNotFound (jan_2024 + 1000000)))
            = Inr (stamped ''timestamp''
                     (clock (world_at FileNotFound (jan_2024 + 1000000)) n) r))
   \<and> (\<exists>r.
          fst (kalshi_get_market_orderbook mock_kalshi ''KALSHI-PRES2024'' (Some 10)
                 (world_at FileNotFound jan_2024))
            = Inr (stamped ''timestamp'' (clock (world_at FileNotFound jan_2024) 0) r)
          \<and> fst (kalshi_get_market_orderbook mock_kalshi ''KALSHI-PRES2024'' (Some 10)
                 (world_at FileNotFound (jan_2024 + 1000000)))
            = Inr (stamped ''timestamp''
                     (clock (world_at FileNotFound (jan_2024 + 1000000)) 0) r))
   \<and> (\<exists>p.
          fst (kalshi_get_market_timeseries mock_kalshi ''KALSHI-PRES2024'' None None
                 (Some ''1h'') (world_at FileNotFound jan_2024))
            = Inr (JDict [
                (''market_id'', JStr ''KALSHI-PRES2024''),
                (''outcome_id'', JStr ''yes''),
                (''interval'', opt_str (Some ''1h'')),
                (''data_points'',
                   JList (map (\<lambda>i. stamped ''timestamp''
                                  (clock (world_at FileNotFound jan_2024) 0
                                     - (23 - i) * 3600000000) (p i))
                            [0 ..< 24]))])
          \<and> fst (kalshi_get_market_timeseries mock_kalshi ''KALSHI-PRES2024'' None None
                 (Some ''1h'') (world_at FileNotFound (jan_2024 + 1000000)))
            = Inr (JDict [
                (''market_id'', JStr ''KALSHI-PRES2024''),
                (''outcome_id'', JStr ''yes''),
                (''interval'', opt_str (Some ''1h'')),
                (''data_points'',
                   JList (map (\<lambda>i. stamped ''timestamp''
                                  (clock (world_at FileNotFound (jan_2024 + 1000000)) 0
                                     - (23 - i) * 3600000000) (p i))
                            [0 ..< 24]))]))
   \<and> fst (kalshi_normalize_market
             (JDict [(''id'', JStr ''KALSHI-1''), (''created_at'', JStr ''2024-01-01T00:00:00Z'')])
             (world_at FileNotFound jan_2024))
       = fst (kalshi_normalize_market
             (JDict [(''id'', JStr ''KALSHI-1''), (''created_at'', JStr ''2024-01-01T00:00:00Z'')])
             (world_at FileNotFound (jan_2024 + 1000000)))
   \<and> fst (kalshi_get_markets mock_kalshi (world_at FileNotFound jan_2024))
       = fst (kalshi_get_markets mock_kalshi (world_at FileNotFound (jan_2024 + 1000000)))
   \<and> sample_file sample_world = Loaded (generate_sample_data (JDict []) jan_2024)
   \<and> sample_file (world_at (Loaded (generate_sample_data (JDict []) jan_2024))
                     (jan_2024 + 1000000))
       = Loaded (generate_sample_data (JDict []) jan_2024)
   \<and> py_get (generate_sample_data (JDict []) jan_2024) ''markets'' (JList [])
       = Inr (JList generate_sample_markets)
   \<and> list_all (\<lambda>raw. case raw of JDict kvs \<Rightarrow> map_of kvs ''created_at'' \<noteq> None
                                   | _ \<Rightarrow> False)
         generate_sample_markets
   \<and> fst (kalshi_get_markets mock_kalshi sample_world)
       = fst (kalshi_get_markets mock_kalshi
                (world_at (Loaded (generate_sample_data (JDict []) jan_2024))
                   (jan_2024 + 1000000)))
   \<and> fst (polymarket_get_market mock_polymarket ''POLY-CRYPTO2024'' sample_world)
       = fst (polymarket_get_market mock_polymarket ''POLY-CRYPTO2024''
                (world_at (Loaded (generate_sample_data (JDict []) jan_2024))
                   (jan_2024 + 1000000)))"
proof -
  let ?W = "world_at FileNotFound jan_2024"
  let ?W' = "world_at FileNotFound (jan_2024 + 1000000)"
  let ?k = "[(''id'', JStr ''KALSHI-1''), (''created_at'', JStr ''2024-01-01T00:00:00Z'')]"
  have km: "kalshi_mock_mode mock_kalshi"
    by (simp add: mock_kalshi_def kalshi_init_def test_environ_def opt_str_def)
  have f: "sample_file ?W = FileNotFound" and f': "sample_file ?W' = FileNotFound"
    by (simp_all add: world_at_def)
  have c: "23 * 3600000000 \<le> clock ?W 0" and c': "23 * 3600000000 \<le> clock ?W' 0"
    by (simp_all add: world_at_def ticking_def jan_2024_def)
  have ca: "map_of ?k ''created_at'' \<noteq> None"
    by simp
  note t = mock_methods_differ_in_stamps_only
      [where f = FileNotFound and kc = mock_kalshi and pc = mock_polymarket
         and market_id = "''KALSHI-PRES2024''" and start = None and end' = None
         and interval = "Some ''1h''" and depth = "Some 10" and since = None
         and limit = "Some 10" and kvs = ?k and w = ?W and w' = ?W'
         and j = JNull and raws = "[]"]
  from t have "\<exists>r n. \<forall>w. sample_file w = FileNotFound \<longrightarrow>
         fst (kalshi_get_market_price mock_kalshi ''KALSHI-PRES2024'' w)
           = Inr (stamped ''timestamp'' (clock w n) r)"
    by (elim conjE) assumption
  then obtain r n where pr: "\<forall>w. sample_file w = FileNotFound \<longrightarrow>
         fst (kalshi_get_market_price mock_kalshi ''KALSHI-PRES2024'' w)
           = Inr (stamped ''timestamp'' (clock w n) r)"
    by (elim exE)
  have price: "\<exists>r n.
          fst (kalshi_get_market_price mock_kalshi ''KALSHI-PRES2024'' ?W)
            = Inr (stamped ''timestamp'' (clock ?W n) r)
          \<and> fst (kalshi_get_market_price mock_kalshi ''KALSHI-PRES2024'' ?W')
            = Inr (stamped ''timestamp'' (clock ?W' n) r)"
    by (rule exI[of _ r], rule exI[of _ n])
       (intro conjI pr[rule_format, OF f] pr[rule_format, OF f'])
  from t have "\<exists>r. \<forall>w. fst (kalshi_get_market_orderbook mock_kalshi ''KALSHI-PRES2024''
                             (Some 10) w)
             = Inr (stamped ''timestamp'' (clock w 0) r)"
    by (elim conjE) assumption
  then obtain b where ob: "\<forall>w. fst (kalshi_get_market_orderbook mock_kalshi ''KALSHI-PRES2024''
                             (Some 10) w)
             = Inr (stamped ''timestamp'' (clock w 0) b)"
    by (elim exE)
  have book: "\<exists>r.
          fst (kalshi_get_market_orderbook mock_kalshi ''KALSHI-PRES2024'' (Some 10) ?W)
            = Inr (stamped ''timestamp'' (clock ?W 0) r)
          \<and> fst (kalshi_get_market_orderbook mock_kalshi ''KALSHI-PRES2024'' (Some 10) ?W')
            = Inr (stamped ''timestamp'' (clock ?W' 0) r)"
    by (rule exI[of _ b]) (intro conjI ob[rule_format])
  from t have "\<exists>p. \<forall>w. fst (kalshi_get_market_timeseries mock_kalshi ''KALSHI-PRES2024''
                             None None (Some ''1h'') w)
         = Inr (if kalshi_mock_mode mock_kalshi \<and> 23 * 3600000000 \<le> clock w 0
                then JDict [
                  (''market_id'', JStr ''KALSHI-PRES2024''),
                  (''outcome_id'', JStr ''yes''),
                  (''interval'', opt_str (Some ''1h'')),
                  (''data_points'',
                     JList (map (\<lambda>i. stamped ''timestamp'' (clock w 0 - (23 - i) * 3600000000) (p i))
                              [0 ..< 24]))]
                else JNull)"
    by (elim conjE) assumption
  then obtain p where ts: "\<forall>w. fst (kalshi_get_market_timeseries mock_kalshi ''KALSHI-PRES2024''
                             None None (Some ''1h'') w)
         = Inr (if kalshi_mock_mode mock_kalshi \<and> 23 * 3600000000 \<le> clock w 0
                then JDict [
                  (''market_id'', JStr ''KALSHI-PRES2024''),
                  (''outcome_id'', JStr ''yes''),
                  (''interval'', opt_str (Some ''1h'')),
                  (''data_points'',
                     JList (map (\<lambda>i. stamped ''timestamp'' (clock w 0 - (23 - i) * 3600000000) (p i))
                              [0 ..< 24]))]
                else JNull)"
    by (elim exE)
  from ts[rule_format, of ?W] km c
  have ts1: "fst (kalshi_get_market_timeseries mock_kalshi ''KALSHI-PRES2024'' None None
                 (Some ''1h'') ?W)
            = Inr (JDict [
                (''market_id'', JStr ''KALSHI-PRES2024''),
                (''outcome_id'', JStr ''yes''),
                (''interval'', opt_str (Some ''1h'')),
                (''data_points'',
                   JList (map (\<lambda>i. stamped ''timestamp''
                                  (clock ?W 0 - (23 - i) * 3600000000) (p i))
                            [0 ..< 24]))])"
    by (simp only: simp_thms if_True)
  from ts[rule_format, of ?W'] km c'
  have ts2: "fst (kalshi_get_market_timeseries mock_kalshi ''KALSHI-PRES2024'' None None
                 (Some ''1h'') ?W')
            = Inr (JDict [
                (''market_id'', JStr ''KALSHI-PRES2024''),
                (''outcome_id'', JStr ''yes''),
                (''interval'', opt_str (Some ''1h'')),
                (''data_points'',
                   JList (map (\<lambda>i. stamped ''timestamp''
                                  (clock ?W' 0 - (23 - i) * 3600000000) (p i))
                            [0 ..< 24]))])"
    by (simp only: simp_thms if_True)
  have series: "\<exists>p.
          fst (kalshi_get_market_timeseries mock_kalshi ''KALSHI-PRES2024'' None None
                 (Some ''1h'') ?W)
            = Inr (JDict [
                (''market_id'', JStr ''KALSHI-PRES2024''),
                (''outcome_id'', JStr ''yes''),
                (''interval'', opt_str (Some ''1h'')),
                (''data_points'',
                   JList (map (\<lambda>i. stamped ''timestamp''
                                  (clock ?W 0 - (23 - i) * 3600000000) (p i))
                            [0 ..< 24]))])
          \<and> fst (kalshi_get_market_timeseries mock_kalshi ''KALSHI-PRES2024'' None None
                 (Some ''1h'') ?W')
            = Inr (JDict [
                (''market_id'', JStr ''KALSHI-PRES2024''),
                (''outcome_id'', JStr ''yes''),
                (''interval'', opt_str (Some ''1h'')),
                (''data_points'',
                   JList (map (\<lambda>i. stamped ''timestamp''
                                  (clock ?W' 0 - (23 - i) * 3600000000) (p i))
                            [0 ..< 24]))])"
    by (rule exI[of _ p]) (intro conjI ts1 ts2)
  from t have "map_of ?k ''created_at'' \<noteq> None \<longrightarrow>
         fst (kalshi_normalize_market (JDict ?k) ?W) = fst (kalshi_normalize_market (JDict ?k) ?W')"
    by (elim conjE) assumption
  with ca have norm: "fst (kalshi_normalize_market (JDict ?k) ?W)
       = fst (kalshi_normalize_market (JDict ?k) ?W')"
    by (rule rev_mp)
  from t have "sample_file ?W = FileNotFound \<and> sample_file ?W' = FileNotFound
      \<longrightarrow> fst (kalshi_get_markets mock_kalshi ?W) = fst (kalshi_get_markets mock_kalshi ?W')
          \<and> fst (kalshi_get_market mock_kalshi ''KALSHI-PRES2024'' ?W)
              = fst (kalshi_get_market mock_kalshi ''KALSHI-PRES2024'' ?W')"
    by (elim conjE) assumption
  with f f' have fb: "fst (kalshi_get_markets mock_kalshi ?W)
       = fst (kalshi_get_markets mock_kalshi ?W')"
    by (simp only: simp_thms)
  let ?J = "generate_sample_data (JDict []) jan_2024"
  let ?S' = "world_at (Loaded ?J) (jan_2024 + 1000000)"
  have sf: "sample_file sample_world = Loaded ?J"
    by (rule sample_world_file(1))
  have sf': "sample_file ?S' = Loaded ?J"
    by (simp add: world_at_def)
  have mk: "py_get ?J ''markets'' (JList []) = Inr (JList generate_sample_markets)"
    by (rule sample_world_file(2))
  have dated: "\<forall>raw\<in>set generate_sample_markets.
      \<exists>kvs. raw = JDict kvs \<and> map_of kvs ''created_at'' \<noteq> None"
    by (simp add: generate_sample_markets_def)
  have dl: "list_all (\<lambda>raw. case raw of JDict kvs \<Rightarrow> map_of kvs ''created_at'' \<noteq> None
                                   | _ \<Rightarrow> False)
         generate_sample_markets"
    by (simp add: generate_sample_markets_def)
  note t' = mock_methods_differ_in_stamps_only
      [where f = FileNotFound and kc = mock_kalshi and pc = mock_polymarket
         and market_id = "''POLY-CRYPTO2024''" and start = None and end' = None
         and interval = "Some ''1h''" and depth = "Some 10" and since = None
         and limit = "Some 10" and kvs = ?k and w = sample_world and w' = ?S'
         and j = ?J and raws = generate_sample_markets]
  from t' have "sample_file sample_world = Loaded ?J \<and> sample_file ?S' = Loaded ?J
        \<and> py_get ?J ''markets'' (JList []) = Inr (JList generate_sample_markets)
        \<and> (\<forall>raw\<in>set generate_sample_markets.
              \<exists>kvs. raw = JDict kvs \<and> map_of kvs ''created_at'' \<noteq> None)
      \<longrightarrow> fst (kalshi_get_markets mock_kalshi sample_world)
            = fst (kalshi_get_markets mock_kalshi ?S')
          \<and> fst (kalshi_get_market mock_kalshi ''POLY-CRYPTO2024'' sample_world)
              = fst (kalshi_get_market mock_kalshi ''POLY-CRYPTO2024'' ?S')"
    by (elim conjE) assumption
  with sf sf' mk dated have gk: "fst (kalshi_get_markets mock_kalshi sample_world)
       = fst (kalshi_get_markets mock_kalshi ?S')"
    by (simp only: simp_thms)
  from t' have "sample_file sample_world = Loaded ?J \<and> sample_file ?S' = Loaded ?J
        \<and> py_get ?J ''markets'' (JList []) = Inr (JList generate_sample_markets)
        \<and> (\<forall>raw\<in>set generate_sample_markets.
              \<exists>kvs. raw = JDict kvs \<and> map_of kvs ''created_at'' \<noteq> None)
      \<longrightarrow> fst (polymarket_get_markets mock_polymarket sample_world)
            = fst (polymarket_get_markets mock_polymarket ?S')
          \<and> fst (polymarket_get_market mock_polymarket ''POLY-CRYPTO2024'' sample_world)
              = fst (polymarket_get_market mock_polymarket ''POLY-CRYPTO2024'' ?S')"
    by (elim conjE) assumption
  with sf sf' mk dated
  have gp: "fst (polymarket_get_market mock_polymarket ''POLY-CRYPTO2024'' sample_world)
       = fst (polymarket_get_market mock_polymarket ''POLY-CRYPTO2024'' ?S')"
    by (simp only: simp_thms)
  show ?thesis
    by (intro conjI km f f' c c' ca price book series norm fb sf sf' mk dl gk gp)
qed

end
